theory Spec2Isabelle
  imports Main
begin

section \<open>The NBA stats agent: resolution and normalization layer\<close>

text \<open>
  The repository holds two implementations of the agent: \<^verbatim>\<open>src/index.ts\<close>, which
  resolves team names, cities and abbreviations, and a second one, called \<^verbatim>\<open>part_000\<close>
  here, which resolves abbreviations and has the \<^verbatim>\<open>scores\<close>, \<^verbatim>\<open>leaders\<close> and
  \<^verbatim>\<open>matchup\<close> entrypoints. Definitions taken from \<^verbatim>\<open>index.ts\<close> keep the source's
  names. Where \<^verbatim>\<open>part_000\<close> uses the same name for different code, its definition
  carries the suffix \<open>_p0\<close>.
\<close>

subsection \<open>JavaScript values\<close>

text \<open>
  An upstream payload is what \<^verbatim>\<open>response.json()\<close> returns: a JSON tree. The handlers
  build their outputs from the same kinds of value plus \<^verbatim>\<open>undefined\<close>. An object is
  the list of its own properties in the order in which the engine enumerates them (the
  array-index keys in ascending order, then the other keys in the order of their
  creation); a property whose value is
  \<open>JUndefined\<close> is an absent one (it is also what \<^verbatim>\<open>JSON.stringify\<close> drops).
  Numbers are the integer-valued ones; a character stands for one code unit of the string.
\<close>

datatype jsval =
    JUndefined
  | JNull
  | JBool bool
  | JNum int
  | JStr string
  | JArr "jsval list"
  | JObj "(string \<times> jsval) list"

datatype error =
    TypeError
  | UnknownTeam string
  | EspnApiError nat
  | FetchFailed
  | SyntaxError

text \<open>\<^verbatim>\<open>x == null\<close>: the values on which a property read throws.\<close>

fun nullish :: "jsval \<Rightarrow> bool" where
  "nullish JUndefined = True"
| "nullish JNull = True"
| "nullish _ = False"

text \<open>\<^verbatim>\<open>ToBoolean\<close>, as used by \<^verbatim>\<open>||\<close>, \<^verbatim>\<open>&&\<close>, \<^verbatim>\<open>?:\<close> and \<^verbatim>\<open>if\<close>.\<close>

fun truthy :: "jsval \<Rightarrow> bool" where
  "truthy JUndefined = False"
| "truthy JNull = False"
| "truthy (JBool b) = b"
| "truthy (JNum n) = (n \<noteq> 0)"
| "truthy (JStr s) = (s \<noteq> [])"
| "truthy (JArr _) = True"
| "truthy (JObj _) = True"

text \<open>\<^verbatim>\<open>a || b\<close> with a side-effect free \<open>b\<close>.\<close>

definition orElse :: "jsval \<Rightarrow> jsval \<Rightarrow> jsval" where
  "orElse a b = (if truthy a then a else b)"

text \<open>
  One step of a property path: \<^verbatim>\<open>.name\<close> or \<^verbatim>\<open>[0]\<close>. The names are the data fields
  the handlers read; none of them is a member of a built-in prototype except
  \<^verbatim>\<open>length\<close> on arrays and strings.
\<close>

datatype step = Key string | Idx0

text \<open>Reading a property of a value that is neither \<^verbatim>\<open>null\<close> nor \<^verbatim>\<open>undefined\<close>.\<close>

fun member :: "jsval \<Rightarrow> step \<Rightarrow> jsval" where
  "member (JObj kvs) (Key f) = (case map_of kvs f of Some v \<Rightarrow> v | None \<Rightarrow> JUndefined)"
| "member (JObj kvs) Idx0 = (case map_of kvs ''0'' of Some v \<Rightarrow> v | None \<Rightarrow> JUndefined)"
| "member (JArr xs) (Key f) = (if f = ''length'' then JNum (int (length xs)) else JUndefined)"
| "member (JArr xs) Idx0 = (case xs of [] \<Rightarrow> JUndefined | x # _ \<Rightarrow> x)"
| "member (JStr s) (Key f) = (if f = ''length'' then JNum (int (length s)) else JUndefined)"
| "member (JStr s) Idx0 = (case s of [] \<Rightarrow> JUndefined | c # _ \<Rightarrow> JStr [c])"
| "member _ _ = JUndefined"

text \<open>\<^verbatim>\<open>x.f\<close>: throws a TypeError on \<^verbatim>\<open>null\<close> and \<^verbatim>\<open>undefined\<close>.\<close>

definition dot :: "jsval \<Rightarrow> string \<Rightarrow> error + jsval" where
  "dot x f = (if nullish x then Inl TypeError else Inr (member x (Key f)))"

text \<open>
  An optional chain \<^verbatim>\<open>x?.a?.b?.[0]\<close>: the first nullish value met ends the chain with
  \<^verbatim>\<open>undefined\<close>.
\<close>

fun optPath :: "jsval \<Rightarrow> step list \<Rightarrow> jsval" where
  "optPath x [] = x"
| "optPath x (s # ss) = (if nullish x then JUndefined else optPath (member x s) ss)"

subsection \<open>Exceptions as values\<close>

definition bind :: "error + 'a \<Rightarrow> ('a \<Rightarrow> error + 'b) \<Rightarrow> error + 'b" where
  "bind r f = (case r of Inl e \<Rightarrow> Inl e | Inr v \<Rightarrow> f v)"

text \<open>A callback run over the elements from left to right; the first throw ends the loop.\<close>

fun mapM :: "('a \<Rightarrow> error + 'b) \<Rightarrow> 'a list \<Rightarrow> error + 'b list" where
  "mapM f [] = Inr []"
| "mapM f (x # xs) =
     (case f x of Inl e \<Rightarrow> Inl e
      | Inr y \<Rightarrow> (case mapM f xs of Inl e \<Rightarrow> Inl e | Inr ys \<Rightarrow> Inr (y # ys)))"

text \<open>
  An object literal: the property values are evaluated in source order, the first
  throw is the literal's.
\<close>

fun properties :: "(string \<times> (error + jsval)) list \<Rightarrow> error + (string \<times> jsval) list" where
  "properties [] = Inr []"
| "properties ((k, r) # rest) =
     (case r of Inl e \<Rightarrow> Inl e
      | Inr v \<Rightarrow> (case properties rest of Inl e \<Rightarrow> Inl e | Inr kvs \<Rightarrow> Inr ((k, v) # kvs)))"

definition object :: "(string \<times> (error + jsval)) list \<Rightarrow> error + jsval" where
  "object fs = (case properties fs of Inl e \<Rightarrow> Inl e | Inr kvs \<Rightarrow> Inr (JObj kvs))"

subsection \<open>Array methods\<close>

text \<open>
  \<^verbatim>\<open>x.map(f)\<close> for a value \<open>x\<close> that is not nullish: only an array has a callable
  \<^verbatim>\<open>map\<close>, on anything else the call throws.
\<close>

definition arrayMap :: "(jsval \<Rightarrow> error + jsval) \<Rightarrow> jsval \<Rightarrow> error + jsval" where
  "arrayMap f x =
     (case x of JArr xs \<Rightarrow> (case mapM f xs of Inl e \<Rightarrow> Inl e | Inr ys \<Rightarrow> Inr (JArr ys))
      | _ \<Rightarrow> Inl TypeError)"

text \<open>\<^verbatim>\<open>x?.map(f)\<close>.\<close>

definition optMap :: "(jsval \<Rightarrow> error + jsval) \<Rightarrow> jsval \<Rightarrow> error + jsval" where
  "optMap f x = (if nullish x then Inr JUndefined else arrayMap f x)"

text \<open>\<^verbatim>\<open>x.slice(0, n)\<close>: arrays and strings have it.\<close>

definition slice0 :: "nat \<Rightarrow> jsval \<Rightarrow> error + jsval" where
  "slice0 n x =
     (case x of JArr xs \<Rightarrow> Inr (JArr (take n xs))
      | JStr s \<Rightarrow> Inr (JStr (take n s))
      | _ \<Rightarrow> Inl TypeError)"

text \<open>\<^verbatim>\<open>xs.find(p)\<close> on a list: the first element on which \<open>p\<close> holds.\<close>

fun findM :: "(jsval \<Rightarrow> error + bool) \<Rightarrow> jsval list \<Rightarrow> error + jsval" where
  "findM p [] = Inr JUndefined"
| "findM p (x # xs) =
     (case p x of Inl e \<Rightarrow> Inl e | Inr b \<Rightarrow> (if b then Inr x else findM p xs))"

definition arrayFind :: "(jsval \<Rightarrow> error + bool) \<Rightarrow> jsval \<Rightarrow> error + jsval" where
  "arrayFind p x = (case x of JArr xs \<Rightarrow> findM p xs | _ \<Rightarrow> Inl TypeError)"

text \<open>\<^verbatim>\<open>x?.find(p)\<close>.\<close>

definition optFind :: "(jsval \<Rightarrow> error + bool) \<Rightarrow> jsval \<Rightarrow> error + jsval" where
  "optFind p x = (if nullish x then Inr JUndefined else arrayFind p x)"

text \<open>The callback \<^verbatim>\<open>(c) => c.f === 'lit'\<close>.\<close>

definition fieldIs :: "string \<Rightarrow> string \<Rightarrow> jsval \<Rightarrow> error + bool" where
  "fieldIs f lit c = bind (dot c f) (\<lambda>v. Inr (v = JStr lit))"

text \<open>A list whose entries can all be read, or no list at all.\<close>

definition readableList :: "jsval \<Rightarrow> bool" where
  "readableList v =
     (case v of JArr xs \<Rightarrow> list_all (\<lambda>x. \<not> nullish x) xs | _ \<Rightarrow> nullish v)"

subsection \<open>Strings\<close>

text \<open>
  The case mappings and the white space of \<^verbatim>\<open>trim\<close> are those of the ASCII range
  (with the no-break space); the statements below are about ASCII input.
\<close>

definition isWhite :: "char \<Rightarrow> bool" where
  "isWhite c = ((of_char c :: nat) \<in> {9, 10, 11, 12, 13, 32, 160})"

definition trim :: "string \<Rightarrow> string" where
  "trim s = rev (dropWhile isWhite (rev (dropWhile isWhite s)))"

definition lowerChar :: "char \<Rightarrow> char" where
  "lowerChar c =
     (let n = (of_char c :: nat) in if 65 \<le> n \<and> n \<le> 90 then char_of (n + 32) else c)"

definition upperChar :: "char \<Rightarrow> char" where
  "upperChar c =
     (let n = (of_char c :: nat) in if 97 \<le> n \<and> n \<le> 122 then char_of (n - 32) else c)"

definition toLowerCase :: "string \<Rightarrow> string" where
  "toLowerCase s = map lowerChar s"

definition toUpperCase :: "string \<Rightarrow> string" where
  "toUpperCase s = map upperChar s"

definition isDigit :: "char \<Rightarrow> bool" where
  "isDigit c = (48 \<le> (of_char c :: nat) \<and> (of_char c :: nat) \<le> 57)"

text \<open>
  The value of a character as a digit: \<open>0\<close> to \<open>9\<close>, then the letters of either case
  from 10 on; 36 for a character that is a digit in no radix.
\<close>

definition digitOf :: "char \<Rightarrow> nat" where
  "digitOf c =
     (let n = (of_char c :: nat) in
      if 48 \<le> n \<and> n \<le> 57 then n - 48
      else if 97 \<le> n \<and> n \<le> 122 then n - 87
      else if 65 \<le> n \<and> n \<le> 90 then n - 55
      else 36)"

definition digitsValue :: "nat \<Rightarrow> string \<Rightarrow> nat" where
  "digitsValue r z = foldl (\<lambda>a c. a * r + digitOf c) 0 z"

text \<open>
  \<^verbatim>\<open>parseInt(s)\<close> without a radix: leading white space is skipped, then a sign, then
  \<^verbatim>\<open>0x\<close> or \<^verbatim>\<open>0X\<close> selects radix 16, and the longest run of digits of the radix is
  read; whatever follows is ignored. \<open>None\<close> is \<^verbatim>\<open>NaN\<close>. The result is the exact
  integer: the rounding of a long literal to a double never moves it across the
  bounds 1 and 30 it is compared with.
\<close>

definition parseInt :: "string \<Rightarrow> int option" where
  "parseInt s =
     (let s1 = dropWhile isWhite s;
          neg = (case s1 of [] \<Rightarrow> False | c # _ \<Rightarrow> c = CHR ''-'');
          s2 = (case s1 of [] \<Rightarrow> []
                | c # cs \<Rightarrow> if c = CHR ''-'' \<or> c = CHR ''+'' then cs else s1);
          hex = (case s2 of a # b # _ \<Rightarrow> a = CHR ''0'' \<and> (b = CHR ''x'' \<or> b = CHR ''X'')
                 | _ \<Rightarrow> False);
          r = (if hex then 16 else 10);
          s3 = (if hex then drop 2 s2 else s2);
          z = takeWhile (\<lambda>c. digitOf c < r) s3
      in if z = [] then None
         else Some ((if neg then - 1 else 1) * int (digitsValue r z)))"

text \<open>\<^verbatim>\<open>/^\d+$/.test(s)\<close>.\<close>

definition allDigits :: "string \<Rightarrow> bool" where
  "allDigits s = (s \<noteq> [] \<and> list_all isDigit s)"

subsection \<open>Conversion to strings and property keys\<close>

text \<open>
  The decimal numeral of a natural number, and \<^verbatim>\<open>Number.prototype.toString\<close> on the
  integers (those below \<open>10\<^sup>2\<^sup>1\<close> in magnitude print without an exponent).
\<close>

function decimal :: "nat \<Rightarrow> string" where
  "decimal n =
     (if n < 10 then [''0123456789'' ! n]
      else decimal (n div 10) @ [''0123456789'' ! (n mod 10)])"
  by pat_completeness auto
termination
  by (relation "measure (\<lambda>n. n)") auto

definition numberToString :: "int \<Rightarrow> string" where
  "numberToString n = (if n < 0 then CHR ''-'' # decimal (nat (- n)) else decimal (nat n))"

text \<open>
  \<^verbatim>\<open>ToString\<close>, as applied by a template literal and by a computed property key. An
  array is joined with commas, \<^verbatim>\<open>null\<close> and \<^verbatim>\<open>undefined\<close> entries giving the empty
  string. An object of the payload prints as \<^verbatim>\<open>[object Object]\<close>, unless it has a
  property \<^verbatim>\<open>toString\<close> of its own: that is data, not a function, so the conversion
  throws.
\<close>

fun toStringJS :: "jsval \<Rightarrow> error + string"
  and joinJS :: "jsval list \<Rightarrow> error + string" where
  "toStringJS JUndefined = Inr ''undefined''"
| "toStringJS JNull = Inr ''null''"
| "toStringJS (JBool b) = Inr (if b then ''true'' else ''false'')"
| "toStringJS (JNum n) = Inr (numberToString n)"
| "toStringJS (JStr s) = Inr s"
| "toStringJS (JArr xs) = joinJS xs"
| "toStringJS (JObj kvs) =
     (if map_of kvs ''toString'' \<noteq> None then Inl TypeError else Inr ''[object Object]'')"
| "joinJS [] = Inr []"
| "joinJS (x # xs) =
     (case (if nullish x then Inr [] else toStringJS x) of
        Inl e \<Rightarrow> Inl e
      | Inr a \<Rightarrow>
          (if xs = [] then Inr a
           else (case joinJS xs of Inl e \<Rightarrow> Inl e | Inr b \<Rightarrow> Inr (a @ '','' @ b))))"

text \<open>
  A key that is an array index: the canonical numeral of a number below \<open>2\<^sup>3\<^sup>2 - 1\<close>.
  The engine lists such keys first, in ascending order, then the other keys in the
  order of their creation.
\<close>

definition isIndexKey :: "string \<Rightarrow> bool" where
  "isIndexKey k =
     (allDigits k \<and> (k = ''0'' \<or> hd k \<noteq> CHR ''0'') \<and> int (digitsValue 10 k) < 4294967295)"

fun insertKey :: "string \<Rightarrow> jsval \<Rightarrow> (string \<times> jsval) list \<Rightarrow> (string \<times> jsval) list" where
  "insertKey k v [] = [(k, v)]"
| "insertKey k v ((k', v') # rest) =
     (if isIndexKey k \<and> (\<not> isIndexKey k' \<or> digitsValue 10 k < digitsValue 10 k')
      then (k, v) # (k', v') # rest
      else (k', v') # insertKey k v rest)"

text \<open>
  The prototype of an object under construction. It starts as \<^verbatim>\<open>Object.prototype\<close>,
  whose accessor \<^verbatim>\<open>__proto__\<close> replaces it: by \<^verbatim>\<open>null\<close>, or by an object or array of
  the payload (which inherits the accessor, unless it has a property \<^verbatim>\<open>__proto__\<close> of
  its own, as \<^verbatim>\<open>JSON.parse\<close> creates one for that key); any other value leaves it as
  it is.
\<close>

datatype prototype = OrdinaryProto | NullProto | PayloadProto jsval

definition setterInherited :: "prototype \<Rightarrow> bool" where
  "setterInherited p =
     (case p of
        OrdinaryProto \<Rightarrow> True
      | NullProto \<Rightarrow> False
      | PayloadProto q \<Rightarrow> (case q of JObj kvs \<Rightarrow> map_of kvs ''__proto__'' = None | _ \<Rightarrow> True))"

definition setPrototype :: "prototype \<Rightarrow> jsval \<Rightarrow> prototype" where
  "setPrototype p v =
     (case v of
        JObj _ \<Rightarrow> PayloadProto v
      | JArr _ \<Rightarrow> PayloadProto v
      | JNull \<Rightarrow> NullProto
      | _ \<Rightarrow> p)"

text \<open>
  \<^verbatim>\<open>obj[key] = v\<close> on an object created by \<^verbatim>\<open>{}\<close>: a property of its own keeps its
  place and takes the value; otherwise the key \<^verbatim>\<open>__proto__\<close> reaches the accessor, when
  it is inherited, and adds no property; otherwise a property is added (every data
  property found along the prototype chain is writable).
\<close>

definition assign ::
  "(string \<times> jsval) list \<times> prototype \<Rightarrow> string \<Rightarrow> jsval \<Rightarrow> (string \<times> jsval) list \<times> prototype" where
  "assign obj k v =
     (case obj of (kvs, p) \<Rightarrow>
        if map_of kvs k \<noteq> None
        then (map (\<lambda>(k', v'). if k' = k then (k', v) else (k', v')) kvs, p)
        else if k = ''__proto__'' \<and> setterInherited p then (kvs, setPrototype p v)
        else (insertKey k v kvs, p))"

text \<open>
  The loop \<^verbatim>\<open>xs.forEach((s) => { obj[s.key] = s.val })\<close>, which is also
  \<^verbatim>\<open>xs.reduce((acc, s) => { acc[s.key] = s.val; return acc }, {})\<close>.
\<close>

fun assignEach :: "string \<Rightarrow> string \<Rightarrow> (string \<times> jsval) list \<times> prototype \<Rightarrow> jsval list \<Rightarrow>
    error + (string \<times> jsval) list \<times> prototype" where
  "assignEach key val obj [] = Inr obj"
| "assignEach key val obj (s # ss) =
     (if nullish s then Inl TypeError
      else (case toStringJS (member s (Key key)) of
              Inl e \<Rightarrow> Inl e
            | Inr k \<Rightarrow> assignEach key val (assign obj k (member s (Key val))) ss))"

definition objectFrom :: "string \<Rightarrow> string \<Rightarrow> jsval \<Rightarrow> error + jsval" where
  "objectFrom key val xs =
     (case xs of
        JArr ss \<Rightarrow>
          (case assignEach key val ([], OrdinaryProto) ss of
             Inl e \<Rightarrow> Inl e
           | Inr obj \<Rightarrow> Inr (JObj (fst obj)))
      | _ \<Rightarrow> Inl TypeError)"

text \<open>\<^verbatim>\<open>Object.values(x)\<close> for a value that is not nullish.\<close>

definition objectValues :: "jsval \<Rightarrow> jsval list" where
  "objectValues x =
     (case x of
        JObj kvs \<Rightarrow> map snd kvs
      | JArr xs \<Rightarrow> xs
      | JStr s \<Rightarrow> map (\<lambda>c. JStr [c]) s
      | _ \<Rightarrow> [])"

subsection \<open>Entity resolver\<close>

text \<open>
  The alias tables are object literals, so a lookup \<^verbatim>\<open>TABLE[key]\<close> that finds no own
  property goes on to \<^verbatim>\<open>Object.prototype\<close>, all of whose members are truthy.
\<close>

definition objectPrototype :: "string list" where
  "objectPrototype =
     [''constructor'', ''__defineGetter__'', ''__defineSetter__'', ''hasOwnProperty'',
      ''__lookupGetter__'', ''__lookupSetter__'', ''isPrototypeOf'',
      ''propertyIsEnumerable'', ''toString'', ''valueOf'', ''__proto__'',
      ''toLocaleString'']"

datatype 'a property = Own 'a | Inherited string | Missing

definition getProperty :: "(string \<times> 'a) list \<Rightarrow> string \<Rightarrow> 'a property" where
  "getProperty tbl k =
     (case map_of tbl k of Some v \<Rightarrow> Own v
      | None \<Rightarrow> if k \<in> set objectPrototype then Inherited k else Missing)"

text \<open>What a resolver hands back: a canonical ID, or the built-in it found.\<close>

datatype 'a resolved = TeamId 'a | BuiltIn string

definition TEAM_IDS :: "(string \<times> int) list" where
  "TEAM_IDS = [
  (''hawks'', 1), (''atl'', 1), (''atlanta'', 1),
  (''celtics'', 2), (''bos'', 2), (''boston'', 2),
  (''nets'', 17), (''bkn'', 17), (''brooklyn'', 17),
  (''hornets'', 30), (''cha'', 30), (''charlotte'', 30),
  (''bulls'', 4), (''chi'', 4), (''chicago'', 4),
  (''cavaliers'', 5), (''cle'', 5), (''cleveland'', 5), (''cavs'', 5),
  (''mavericks'', 6), (''dal'', 6), (''dallas'', 6), (''mavs'', 6),
  (''nuggets'', 7), (''den'', 7), (''denver'', 7),
  (''pistons'', 8), (''det'', 8), (''detroit'', 8),
  (''warriors'', 9), (''gsw'', 9), (''golden state'', 9),
  (''rockets'', 10), (''hou'', 10), (''houston'', 10),
  (''pacers'', 11), (''ind'', 11), (''indiana'', 11),
  (''clippers'', 12), (''lac'', 12), (''la clippers'', 12),
  (''lakers'', 13), (''lal'', 13), (''la lakers'', 13), (''los angeles lakers'', 13),
  (''grizzlies'', 29), (''mem'', 29), (''memphis'', 29),
  (''heat'', 14), (''mia'', 14), (''miami'', 14),
  (''bucks'', 15), (''mil'', 15), (''milwaukee'', 15),
  (''timberwolves'', 16), (''min'', 16), (''minnesota'', 16), (''wolves'', 16),
  (''pelicans'', 3), (''nop'', 3), (''new orleans'', 3),
  (''knicks'', 18), (''nyk'', 18), (''new york'', 18),
  (''thunder'', 25), (''okc'', 25), (''oklahoma city'', 25),
  (''magic'', 19), (''orl'', 19), (''orlando'', 19),
  (''76ers'', 20), (''phi'', 20), (''philadelphia'', 20), (''sixers'', 20),
  (''suns'', 21), (''phx'', 21), (''phoenix'', 21),
  (''trail blazers'', 22), (''por'', 22), (''portland'', 22), (''blazers'', 22),
  (''kings'', 23), (''sac'', 23), (''sacramento'', 23),
  (''spurs'', 24), (''sas'', 24), (''san antonio'', 24),
  (''raptors'', 28), (''tor'', 28), (''toronto'', 28),
  (''jazz'', 26), (''uta'', 26), (''utah'', 26),
  (''wizards'', 27), (''was'', 27), (''washington'', 27)]"

text \<open>The numeric branch of \<^verbatim>\<open>resolveTeamId\<close> in \<^verbatim>\<open>index.ts\<close>.\<close>

definition numericTeamId :: "string \<Rightarrow> error + int resolved" where
  "numericTeamId team =
     (case parseInt team of
        None \<Rightarrow> Inl (UnknownTeam team)
      | Some numId \<Rightarrow>
          if numId \<ge> 1 \<and> numId \<le> 30 then Inr (TeamId numId) else Inl (UnknownTeam team))"

definition resolveTeamId :: "string \<Rightarrow> error + int resolved" where
  "resolveTeamId team =
     (let normalized = trim (toLowerCase team) in
      case getProperty TEAM_IDS normalized of
        Own n \<Rightarrow> if n \<noteq> 0 then Inr (TeamId n) else numericTeamId team
      | Inherited k \<Rightarrow> Inr (BuiltIn k)
      | Missing \<Rightarrow> numericTeamId team)"

definition TEAM_ABBR_TO_ID :: "(string \<times> string) list" where
  "TEAM_ABBR_TO_ID = [
  (''ATL'', ''1''), (''BOS'', ''2''), (''BKN'', ''17''), (''CHA'', ''30''), (''CHI'', ''4''),
  (''CLE'', ''5''), (''DAL'', ''6''), (''DEN'', ''7''), (''DET'', ''8''), (''GSW'', ''9''),
  (''HOU'', ''10''), (''IND'', ''11''), (''LAC'', ''12''), (''LAL'', ''13''), (''MEM'', ''29''),
  (''MIA'', ''14''), (''MIL'', ''15''), (''MIN'', ''16''), (''NOP'', ''3''), (''NYK'', ''18''),
  (''OKC'', ''25''), (''ORL'', ''19''), (''PHI'', ''20''), (''PHX'', ''21''), (''POR'', ''22''),
  (''SAC'', ''23''), (''SAS'', ''24''), (''TOR'', ''28''), (''UTA'', ''26''), (''WAS'', ''27'')]"

text \<open>The test of the canonical-ID pattern in \<^verbatim>\<open>part_000\<close>.\<close>

definition digitsTeamId :: "string \<Rightarrow> error + string resolved" where
  "digitsTeamId team = (if allDigits team then Inr (TeamId team) else Inl (UnknownTeam team))"

definition resolveTeamId_p0 :: "string \<Rightarrow> error + string resolved" where
  "resolveTeamId_p0 team =
     (let upper = toUpperCase team in
      case getProperty TEAM_ABBR_TO_ID upper of
        Own s \<Rightarrow> if s \<noteq> [] then Inr (TeamId s) else digitsTeamId team
      | Inherited k \<Rightarrow> Inr (BuiltIn k)
      | Missing \<Rightarrow> digitsTeamId team)"

subsection \<open>Upstream client\<close>

text \<open>
  What the platform's \<^verbatim>\<open>fetch\<close> and \<^verbatim>\<open>Response\<close> give: the call either does not
  complete, or yields a response with its HTTP status; \<^verbatim>\<open>response.ok\<close> is true for the
  statuses 200 to 299, and \<^verbatim>\<open>response.json()\<close> yields the parsed body, or nothing when
  the body is not JSON.
\<close>

record response =
  status :: nat
  json :: "jsval option"

datatype fetched = NoResponse | Response response

definition ok :: "response \<Rightarrow> bool" where
  "ok r = (200 \<le> status r \<and> status r \<le> 299)"

text \<open>
  The network as the client sees it: the outcomes of the requests still to come, and
  the URLs requested so far. A request with no outcome left does not complete.
\<close>

record network =
  pending :: "fetched list"
  requests :: "string list"

definition fetch :: "string \<Rightarrow> network \<Rightarrow> fetched \<times> network" where
  "fetch url net =
     (case pending net of
        [] \<Rightarrow> (NoResponse, net\<lparr>requests := requests net @ [url]\<rparr>)
      | f # fs \<Rightarrow> (f, net\<lparr>pending := fs, requests := requests net @ [url]\<rparr>))"

text \<open>The body of \<^verbatim>\<open>fetchJSON\<close> after the \<^verbatim>\<open>await fetch(url)\<close>.\<close>

definition settled :: "fetched \<Rightarrow> error + jsval" where
  "settled f =
     (case f of
        NoResponse \<Rightarrow> Inl FetchFailed
      | Response r \<Rightarrow>
          if \<not> ok r then Inl (EspnApiError (status r))
          else (case json r of None \<Rightarrow> Inl SyntaxError | Some v \<Rightarrow> Inr v))"

definition fetchJSON :: "string \<Rightarrow> network \<Rightarrow> (error + jsval) \<times> network" where
  "fetchJSON url net = (let (f, net') = fetch url net in (settled f, net'))"

subsection \<open>Fetch orchestration\<close>

text \<open>
  \<^verbatim>\<open>Promise.all\<close> over calls that all settle. \<open>rs\<close> holds the outcome of each call at
  its position in the array literal; \<open>order\<close> lists the positions in the order in which
  the calls settle. The first rejection to happen rejects the whole; when there is none
  the values come back in array order. (An \<open>order\<close> that leaves a rejected call out
  would stand for a call that never settles; there the leftmost rejection is taken.)
\<close>

fun firstRejected :: "nat list \<Rightarrow> (error + 'a) list \<Rightarrow> error option" where
  "firstRejected [] rs = None"
| "firstRejected (i # order) rs =
     (if i < length rs
      then (case rs ! i of Inl e \<Rightarrow> Some e | Inr _ \<Rightarrow> firstRejected order rs)
      else firstRejected order rs)"

definition promiseAll :: "nat list \<Rightarrow> (error + 'a) list \<Rightarrow> error + 'a list" where
  "promiseAll order rs =
     (case firstRejected order rs of Some e \<Rightarrow> Inl e | None \<Rightarrow> mapM (\<lambda>r. r) rs)"

text \<open>Array destructuring \<^verbatim>\<open>const [a, b, ...] = xs\<close>.\<close>

definition elem :: "jsval list \<Rightarrow> nat \<Rightarrow> jsval" where
  "elem xs i = (if i < length xs then xs ! i else JUndefined)"

text \<open>\<^verbatim>\<open>x.f?.a?.b\<close>: only the first read can throw.\<close>

definition dotOpt :: "jsval \<Rightarrow> string \<Rightarrow> step list \<Rightarrow> error + jsval" where
  "dotOpt x f path = bind (dot x f) (\<lambda>v. Inr (optPath v path))"

subsection \<open>Handlers of \<^verbatim>\<open>index.ts\<close>\<close>

text \<open>
  Each handler is split into the normalizer, a function of the payloads and of the
  clock reading \<open>now\<close> (\<^verbatim>\<open>new Date().toISOString()\<close>), and the handler proper, which
  resolves, fetches and then normalizes. The outcome of each upstream call is an input
  of the handler (\<open>f\<close>, or \<open>f0\<close>, \<open>f1\<close>, ... in the order of the array given to
  \<^verbatim>\<open>Promise.all\<close>), together with the order in which the concurrent calls settle.
  What only goes into the URL of a call (the resolved ID, the date, the limit) does not
  reach the result and is left out.
\<close>

definition overview_game :: "jsval \<Rightarrow> error + jsval" where
  "overview_game e = object [
     (''name'', dot e ''shortName''),
     (''status'', dotOpt e ''status'' [Key ''type'', Key ''description'']),
     (''date'', dot e ''date'')]"

definition overview_output :: "string \<Rightarrow> jsval \<Rightarrow> error + jsval" where
  "overview_output now data =
     bind (dot data ''events'') (\<lambda>events.
     bind (optMap overview_game events) (\<lambda>mapped.
     let games = orElse mapped (JArr []) in
     object [(''output'', object [
       (''league'', Inr (JStr ''NBA'')),
       (''season'', dot data ''season''),
       (''gamesCount'', dot games ''length''),
       (''games'', slice0 5 games),
       (''fetchedAt'', Inr (JStr now)),
       (''dataSource'', Inr (JStr ''ESPN API (live)''))])]))"

definition overview_handler :: "string \<Rightarrow> fetched \<Rightarrow> error + jsval" where
  "overview_handler now f = bind (settled f) (overview_output now)"

definition games_side :: "jsval \<Rightarrow> jsval" where
  "games_side t = JObj [
     (''name'', optPath t [Key ''team'', Key ''displayName'']),
     (''abbreviation'', optPath t [Key ''team'', Key ''abbreviation'']),
     (''score'', optPath t [Key ''score'']),
     (''winner'', optPath t [Key ''winner''])]"

definition games_game :: "jsval \<Rightarrow> error + jsval" where
  "games_game e =
     bind (dotOpt e ''competitions'' [Idx0]) (\<lambda>comp.
     bind (optFind (fieldIs ''homeAway'' ''home'') (optPath comp [Key ''competitors''])) (\<lambda>homeTeam.
     bind (optFind (fieldIs ''homeAway'' ''away'') (optPath comp [Key ''competitors''])) (\<lambda>awayTeam.
     object [
       (''id'', dot e ''id''),
       (''name'', dot e ''shortName''),
       (''date'', dot e ''date''),
       (''venue'', Inr (optPath comp [Key ''venue'', Key ''fullName''])),
       (''status'', dotOpt e ''status'' [Key ''type'', Key ''description'']),
       (''period'', dotOpt e ''status'' [Key ''period'']),
       (''clock'', dotOpt e ''status'' [Key ''displayClock'']),
       (''homeTeam'', Inr (games_side homeTeam)),
       (''awayTeam'', Inr (games_side awayTeam))])))"

definition games_output :: "string \<Rightarrow> jsval \<Rightarrow> error + jsval" where
  "games_output now data =
     bind (dot data ''events'') (\<lambda>events.
     bind (optMap games_game events) (\<lambda>mapped.
     let games = orElse mapped (JArr []) in
     object [(''output'', object [
       (''date'', dotOpt data ''day'' [Key ''date'']),
       (''gamesCount'', dot games ''length''),
       (''games'', Inr games),
       (''fetchedAt'', Inr (JStr now))])]))"

definition games_handler :: "string \<Rightarrow> fetched \<Rightarrow> error + jsval" where
  "games_handler now f = bind (settled f) (games_output now)"

definition team_player :: "jsval \<Rightarrow> error + jsval" where
  "team_player a = object [
     (''id'', dot a ''id''),
     (''name'', dot a ''displayName''),
     (''jersey'', dot a ''jersey''),
     (''position'', dotOpt a ''position'' [Key ''abbreviation'']),
     (''age'', dot a ''age'')]"

definition team_output :: "string \<Rightarrow> jsval \<Rightarrow> jsval \<Rightarrow> error + jsval" where
  "team_output now teamData rosterData =
     bind (dot teamData ''team'') (\<lambda>team.
     bind (dot rosterData ''athletes'') (\<lambda>athletes.
     bind (optMap team_player athletes) (\<lambda>mapped.
     let roster = orElse mapped (JArr []) in
     object [(''output'', object [
       (''team'', object [
          (''id'', dot team ''id''),
          (''name'', dot team ''displayName''),
          (''abbreviation'', dot team ''abbreviation''),
          (''location'', dot team ''location''),
          (''color'', dot team ''color''),
          (''logo'', dotOpt team ''logos'' [Idx0, Key ''href''])]),
       (''rosterCount'', dot roster ''length''),
       (''roster'', slice0 15 roster),
       (''fetchedAt'', Inr (JStr now))])])))"

definition team_handler :: "string \<Rightarrow> string \<Rightarrow> nat list \<Rightarrow> fetched \<Rightarrow> fetched \<Rightarrow> error + jsval" where
  "team_handler team now order f0 f1 =
     bind (resolveTeamId team) (\<lambda>teamId.
     bind (promiseAll order [settled f0, settled f1]) (\<lambda>vs.
     team_output now (elem vs 0) (elem vs 1)))"

text \<open>\<^verbatim>\<open>roster.athletes?.slice(0, 5).map(f)\<close>: a nullish list ends the whole chain.\<close>

definition optFirst5Map :: "(jsval \<Rightarrow> error + jsval) \<Rightarrow> jsval \<Rightarrow> error + jsval" where
  "optFirst5Map f x =
     (if nullish x then Inr JUndefined else bind (slice0 5 x) (arrayMap f))"

definition keyPlayer :: "jsval \<Rightarrow> error + jsval" where
  "keyPlayer a = object [
     (''name'', dot a ''displayName''),
     (''position'', dotOpt a ''position'' [Key ''abbreviation''])]"

definition extractTeam :: "jsval \<Rightarrow> jsval \<Rightarrow> error + jsval" where
  "extractTeam data roster = object [
     (''name'', bind (dot data ''team'') (\<lambda>t. dot t ''displayName'')),
     (''abbreviation'', bind (dot data ''team'') (\<lambda>t. dot t ''abbreviation'')),
     (''color'', bind (dot data ''team'') (\<lambda>t. dot t ''color'')),
     (''rosterSize'',
        bind (dotOpt roster ''athletes'' [Key ''length'']) (\<lambda>n. Inr (orElse n (JNum 0)))),
     (''keyPlayers'',
        bind (dot roster ''athletes'') (\<lambda>athletes.
        bind (optFirst5Map keyPlayer athletes) (\<lambda>ps. Inr (orElse ps (JArr [])))))]"

definition compare_output :: "string \<Rightarrow> jsval list \<Rightarrow> error + jsval" where
  "compare_output now vs =
     (let team1Data = elem vs 0; team2Data = elem vs 1;
          roster1 = elem vs 2; roster2 = elem vs 3 in
      object [(''output'', object [
        (''team1'', extractTeam team1Data roster1),
        (''team2'', extractTeam team2Data roster2),
        (''fetchedAt'', Inr (JStr now))])])"

definition compare_handler ::
  "string \<Rightarrow> string \<Rightarrow> string \<Rightarrow> nat list \<Rightarrow>
   fetched \<Rightarrow> fetched \<Rightarrow> fetched \<Rightarrow> fetched \<Rightarrow> error + jsval" where
  "compare_handler team1 team2 now order f0 f1 f2 f3 =
     bind (resolveTeamId team1) (\<lambda>id1.
     bind (resolveTeamId team2) (\<lambda>id2.
     bind (promiseAll order [settled f0, settled f1, settled f2, settled f3])
       (compare_output now)))"

definition player_game :: "jsval \<Rightarrow> error + jsval" where
  "player_game e = object [
     (''date'', dot e ''gameDate''),
     (''opponent'', dotOpt e ''opponent'' [Key ''displayName'']),
     (''result'', dot e ''gameResult''),
     (''stats'', dot e ''stats'')]"

definition player_output :: "string \<Rightarrow> string \<Rightarrow> jsval \<Rightarrow> error + jsval" where
  "player_output playerId now data =
     bind (dotOpt data ''statistics'' [Key ''splits'', Key ''categories'', Idx0, Key ''stats''])
       (\<lambda>s.
     let stats = orElse s (JArr []) in
     bind (objectFrom ''abbreviation'' ''displayValue'' stats) (\<lambda>statMap.
     bind (dotOpt data ''gameLog'' [Key ''events'']) (\<lambda>ev.
     let events = orElse ev (JObj []) in
     bind (mapM player_game (take 5 (objectValues events))) (\<lambda>recentGames.
     object [(''output'', object [
       (''playerId'', Inr (JStr playerId)),
       (''name'', dotOpt data ''news'' [Key ''header'']),
       (''stats'', Inr statMap),
       (''recentGames'', Inr (JArr recentGames)),
       (''fantasy'', dot data ''fantasy''),
       (''fetchedAt'', Inr (JStr now))])]))))"

definition player_handler :: "string \<Rightarrow> string \<Rightarrow> fetched \<Rightarrow> error + jsval" where
  "player_handler playerId now f = bind (settled f) (player_output playerId now)"

definition report_side :: "jsval \<Rightarrow> jsval" where
  "report_side t = JObj [
     (''name'', optPath t [Key ''team'', Key ''displayName'']),
     (''abbreviation'', optPath t [Key ''team'', Key ''abbreviation'']),
     (''score'', optPath t [Key ''score'']),
     (''record'', optPath t [Key ''records'', Idx0, Key ''summary''])]"

definition report_game :: "jsval \<Rightarrow> error + jsval" where
  "report_game e =
     bind (dotOpt e ''competitions'' [Idx0]) (\<lambda>comp.
     bind (optFind (fieldIs ''homeAway'' ''home'') (optPath comp [Key ''competitors''])) (\<lambda>homeTeam.
     bind (optFind (fieldIs ''homeAway'' ''away'') (optPath comp [Key ''competitors''])) (\<lambda>awayTeam.
     object [
       (''id'', dot e ''id''),
       (''name'', dot e ''name''),
       (''shortName'', dot e ''shortName''),
       (''date'', dot e ''date''),
       (''venue'', Inr (optPath comp [Key ''venue'', Key ''fullName''])),
       (''status'', dotOpt e ''status'' [Key ''type'', Key ''description'']),
       (''period'', dotOpt e ''status'' [Key ''period'']),
       (''clock'', dotOpt e ''status'' [Key ''displayClock'']),
       (''homeTeam'', Inr (report_side homeTeam)),
       (''awayTeam'', Inr (report_side awayTeam))])))"

definition report_headline :: "jsval \<Rightarrow> error + jsval" where
  "report_headline a = object [
     (''headline'', dot a ''headline''),
     (''description'', dot a ''description''),
     (''published'', dot a ''published''),
     (''link'', dotOpt a ''links'' [Key ''web'', Key ''href''])]"

definition report_output :: "string \<Rightarrow> jsval list \<Rightarrow> error + jsval" where
  "report_output now vs =
     (let scoreboard = elem vs 0; news = elem vs 1 in
      bind (dot scoreboard ''events'') (\<lambda>events.
      bind (optMap report_game events) (\<lambda>mapped.
      let games = orElse mapped (JArr []) in
      bind (dot news ''articles'') (\<lambda>articles.
      bind (optMap report_headline articles) (\<lambda>hs.
      let headlines = orElse hs (JArr []) in
      object [(''output'', object [
        (''date'', dotOpt scoreboard ''day'' [Key ''date'']),
        (''season'', dot scoreboard ''season''),
        (''gamesCount'', dot games ''length''),
        (''games'', Inr games),
        (''newsCount'', dot headlines ''length''),
        (''news'', Inr headlines),
        (''fetchedAt'', Inr (JStr now)),
        (''dataSource'', Inr (JStr ''ESPN API (live)''))])])))))"

definition report_handler :: "string \<Rightarrow> nat list \<Rightarrow> fetched \<Rightarrow> fetched \<Rightarrow> error + jsval" where
  "report_handler now order f0 f1 =
     bind (promiseAll order [settled f0, settled f1]) (report_output now)"

subsection \<open>Handlers of \<^verbatim>\<open>part_000\<close>\<close>

definition overview_game_p0 :: "jsval \<Rightarrow> error + jsval" where
  "overview_game_p0 e = object [
     (''matchup'', dot e ''shortName''),
     (''status'', dotOpt e ''status'' [Key ''type'', Key ''shortDetail'']),
     (''venue'', dotOpt e ''competitions'' [Idx0, Key ''venue'', Key ''fullName''])]"

text \<open>
  \<open>today\<close> is the second clock reading, \<^verbatim>\<open>new Date().toISOString().split('T')[0]\<close>,
  taken only when the payload has no date.
\<close>

definition overview_output_p0 :: "string \<Rightarrow> string \<Rightarrow> jsval list \<Rightarrow> error + jsval" where
  "overview_output_p0 today now vs =
     (let scoreboard = elem vs 0; news = elem vs 1 in
      bind (dot scoreboard ''events'') (\<lambda>events.
      bind (optMap overview_game_p0 events) (\<lambda>mapped.
      let games = orElse mapped (JArr []) in
      bind (dot news ''articles'') (\<lambda>articles.
      bind (optMap (\<lambda>a. dot a ''headline'') articles) (\<lambda>hs.
      let headlines = orElse hs (JArr []) in
      object [(''output'', object [
        (''date'',
           bind (dotOpt scoreboard ''day'' [Key ''date'']) (\<lambda>d. Inr (orElse d (JStr today)))),
        (''gamesCount'', dot games ''length''),
        (''games'', slice0 5 games),
        (''latestNews'', Inr headlines),
        (''fetchedAt'', Inr (JStr now)),
        (''dataSource'', Inr (JStr ''ESPN NBA API (live)''))])])))))"

definition overview_handler_p0 ::
  "string \<Rightarrow> string \<Rightarrow> nat list \<Rightarrow> fetched \<Rightarrow> fetched \<Rightarrow> error + jsval" where
  "overview_handler_p0 today now order f0 f1 =
     bind (promiseAll order [settled f0, settled f1]) (overview_output_p0 today now)"

definition scores_game :: "jsval \<Rightarrow> error + jsval" where
  "scores_game e =
     bind (dotOpt e ''competitions'' [Idx0]) (\<lambda>comp.
     bind (optFind (fieldIs ''homeAway'' ''home'') (optPath comp [Key ''competitors''])) (\<lambda>home.
     bind (optFind (fieldIs ''homeAway'' ''away'') (optPath comp [Key ''competitors''])) (\<lambda>away.
     object [
       (''id'', dot e ''id''),
       (''matchup'', dot e ''shortName''),
       (''status'', dotOpt e ''status'' [Key ''type'', Key ''shortDetail'']),
       (''statusState'', dotOpt e ''status'' [Key ''type'', Key ''state'']),
       (''homeTeam'', Inr (optPath home [Key ''team'', Key ''abbreviation''])),
       (''homeScore'', Inr (optPath home [Key ''score''])),
       (''awayTeam'', Inr (optPath away [Key ''team'', Key ''abbreviation''])),
       (''awayScore'', Inr (optPath away [Key ''score''])),
       (''venue'', Inr (optPath comp [Key ''venue'', Key ''fullName''])),
       (''broadcast'',
          Inr (optPath comp [Key ''broadcasts'', Idx0, Key ''names'', Idx0]))])))"

definition scores_output :: "string \<Rightarrow> jsval \<Rightarrow> error + jsval" where
  "scores_output now data =
     bind (dot data ''events'') (\<lambda>events.
     bind (optMap scores_game events) (\<lambda>mapped.
     let games = orElse mapped (JArr []) in
     object [(''output'', object [
       (''date'', dotOpt data ''day'' [Key ''date'']),
       (''games'', Inr games),
       (''fetchedAt'', Inr (JStr now))])]))"

definition scores_handler :: "string \<Rightarrow> fetched \<Rightarrow> error + jsval" where
  "scores_handler now f = bind (settled f) (scores_output now)"

definition team_player_p0 :: "jsval \<Rightarrow> error + jsval" where
  "team_player_p0 p = object [
     (''name'', dot p ''displayName''),
     (''jersey'', dot p ''jersey''),
     (''position'', dotOpt p ''position'' [Key ''abbreviation'']),
     (''height'', dot p ''displayHeight''),
     (''weight'', dot p ''displayWeight'')]"

definition recentGame :: "jsval \<Rightarrow> error + jsval" where
  "recentGame e = object [
     (''matchup'', dot e ''shortName''),
     (''date'', dot e ''date''),
     (''status'', dotOpt e ''status'' [Key ''type'', Key ''shortDetail''])]"

text \<open>
  The canonical ID as the output carries it; a built-in function is not a JSON value
  and is left out when the output is serialised.
\<close>

fun idValue :: "string resolved \<Rightarrow> jsval" where
  "idValue (TeamId s) = JStr s"
| "idValue (BuiltIn k) = JUndefined"

definition team_output_p0 :: "string resolved \<Rightarrow> string \<Rightarrow> jsval list \<Rightarrow> error + jsval" where
  "team_output_p0 teamId now vs =
     (let roster = elem vs 0; schedule = elem vs 1 in
      bind (dot roster ''team'') (\<lambda>t.
      let teamInfo = orElse t (JObj []) in
      bind (dot roster ''athletes'') (\<lambda>athletes.
      bind (optMap team_player_p0 athletes) (\<lambda>mapped.
      let players = orElse mapped (JArr []) in
      bind (dot schedule ''events'') (\<lambda>events.
      bind (optFirst5Map recentGame events) (\<lambda>recent.
      let recentGames = orElse recent (JArr []) in
      object [(''output'', object [
        (''team'', object [
           (''id'', Inr (idValue teamId)),
           (''name'', dot teamInfo ''displayName''),
           (''abbreviation'', dot teamInfo ''abbreviation''),
           (''location'', dot teamInfo ''location''),
           (''color'', dot teamInfo ''color''),
           (''logo'', dot teamInfo ''logo'')]),
        (''rosterSize'', dot players ''length''),
        (''roster'', Inr players),
        (''recentGames'', Inr recentGames),
        (''fetchedAt'', Inr (JStr now))])]))))))"

definition team_handler_p0 ::
  "string \<Rightarrow> string \<Rightarrow> nat list \<Rightarrow> fetched \<Rightarrow> fetched \<Rightarrow> error + jsval" where
  "team_handler_p0 team now order f0 f1 =
     bind (resolveTeamId_p0 team) (\<lambda>teamId.
     bind (promiseAll order [settled f0, settled f1]) (team_output_p0 teamId now))"

text \<open>\<^verbatim>\<open>stats.find((s) => s.name === n)?.value\<close>.\<close>

definition statValue :: "jsval \<Rightarrow> string \<Rightarrow> error + jsval" where
  "statValue stats n =
     bind (arrayFind (fieldIs ''name'' n) stats) (\<lambda>s. Inr (optPath s [Key ''value'']))"

definition leader_entry :: "nat \<Rightarrow> jsval \<Rightarrow> error + jsval" where
  "leader_entry i a =
     bind (dotOpt a ''categories'' [Idx0, Key ''stats'']) (\<lambda>s.
     let stats = orElse s (JArr []) in
     object [
       (''rank'', Inr (JNum (int i + 1))),
       (''name'', dotOpt a ''athlete'' [Key ''displayName'']),
       (''team'', dotOpt a ''athlete'' [Key ''teamShortName'']),
       (''position'', dotOpt a ''athlete'' [Key ''position'', Key ''abbreviation'']),
       (''gamesPlayed'', statValue stats ''gamesPlayed''),
       (''points'', statValue stats ''avgPoints''),
       (''rebounds'', statValue stats ''avgRebounds''),
       (''assists'', statValue stats ''avgAssists''),
       (''steals'', statValue stats ''avgSteals''),
       (''blocks'', statValue stats ''avgBlocks'')])"

text \<open>\<^verbatim>\<open>x?.map((a, i) => f(i, a))\<close>.\<close>

definition optMapIdx :: "(nat \<Rightarrow> jsval \<Rightarrow> error + jsval) \<Rightarrow> jsval \<Rightarrow> error + jsval" where
  "optMapIdx f x =
     (if nullish x then Inr JUndefined
      else (case x of
              JArr xs \<Rightarrow>
                (case mapM (\<lambda>(i, a). f i a) (enumerate 0 xs) of
                   Inl e \<Rightarrow> Inl e | Inr ys \<Rightarrow> Inr (JArr ys))
            | _ \<Rightarrow> Inl TypeError))"

definition leaders_output :: "string \<Rightarrow> string \<Rightarrow> jsval \<Rightarrow> error + jsval" where
  "leaders_output category now data =
     bind (dot data ''athletes'') (\<lambda>athletes.
     bind (optMapIdx leader_entry athletes) (\<lambda>mapped.
     let leaders = orElse mapped (JArr []) in
     object [(''output'', object [
       (''category'', Inr (JStr category)),
       (''season'', Inr (JStr ''2025-26'')),
       (''leaders'', Inr leaders),
       (''fetchedAt'', Inr (JStr now))])]))"

definition leaders_handler :: "string \<Rightarrow> string \<Rightarrow> fetched \<Rightarrow> error + jsval" where
  "leaders_handler category now f = bind (settled f) (leaders_output category now)"

definition starter :: "jsval \<Rightarrow> error + jsval" where
  "starter p = object [
     (''name'', dot p ''displayName''),
     (''position'', dotOpt p ''position'' [Key ''abbreviation'']),
     (''jersey'', dot p ''jersey'')]"

definition teamInfoFields :: "jsval \<Rightarrow> (string \<times> (error + jsval)) list" where
  "teamInfoFields roster = [
     (''name'', dotOpt roster ''team'' [Key ''displayName'']),
     (''abbreviation'', dotOpt roster ''team'' [Key ''abbreviation'']),
     (''rosterSize'',
        bind (dotOpt roster ''athletes'' [Key ''length'']) (\<lambda>n. Inr (orElse n (JNum 0)))),
     (''starters'',
        bind (dot roster ''athletes'') (\<lambda>athletes.
        bind (optFirst5Map starter athletes) (\<lambda>ps. Inr (orElse ps (JArr [])))))]"

definition extractTeamInfo :: "jsval \<Rightarrow> error + jsval" where
  "extractTeamInfo roster = object (teamInfoFields roster)"

fun filterM :: "(jsval \<Rightarrow> error + bool) \<Rightarrow> jsval list \<Rightarrow> error + jsval list" where
  "filterM p [] = Inr []"
| "filterM p (x # xs) =
     (case p x of Inl e \<Rightarrow> Inl e
      | Inr b \<Rightarrow> (case filterM p xs of Inl e \<Rightarrow> Inl e
                  | Inr ys \<Rightarrow> Inr (if b then x # ys else ys)))"

text \<open>\<^verbatim>\<open>x?.filter(p).length || 0\<close>.\<close>

definition optFilterCount :: "(jsval \<Rightarrow> error + bool) \<Rightarrow> jsval \<Rightarrow> error + int" where
  "optFilterCount p x =
     (if nullish x then Inr 0
      else (case x of
              JArr xs \<Rightarrow>
                (case filterM p xs of Inl e \<Rightarrow> Inl e
                 | Inr ys \<Rightarrow> Inr (let n = int (length ys) in if n \<noteq> 0 then n else 0))
            | _ \<Rightarrow> Inl TypeError))"

text \<open>\<^verbatim>\<open>(e) => e.status?.type?.completed\<close>.\<close>

definition completedGame :: "jsval \<Rightarrow> error + bool" where
  "completedGame e =
     bind (dotOpt e ''status'' [Key ''type'', Key ''completed'']) (\<lambda>c. Inr (truthy c))"

text \<open>
  \<^verbatim>\<open>(e) => e.status?.type?.completed && e.competitions?.[0]?.competitors?.find((c) => c.winner)\<close>.
\<close>

definition wonGame :: "jsval \<Rightarrow> error + bool" where
  "wonGame e =
     bind (dotOpt e ''status'' [Key ''type'', Key ''completed'']) (\<lambda>c.
     if \<not> truthy c then Inr False
     else bind (dotOpt e ''competitions'' [Idx0, Key ''competitors'']) (\<lambda>cs.
          bind (optFind (\<lambda>c. bind (dot c ''winner'') (\<lambda>w. Inr (truthy w))) cs) (\<lambda>w.
          Inr (truthy w))))"

definition extractRecord :: "jsval \<Rightarrow> error + jsval" where
  "extractRecord schedule =
     bind (dot schedule ''events'') (\<lambda>events.
     bind (optFilterCount wonGame events) (\<lambda>wins.
     bind (optFilterCount completedGame events) (\<lambda>completed.
     Inr (JObj [
       (''wins'', JNum wins),
       (''losses'', JNum (completed - wins)),
       (''gamesPlayed'', JNum completed)]))))"

text \<open>\<open>generatedAt\<close> and \<open>now\<close> are the two clock readings of the handler.\<close>

definition matchup_output ::
  "string \<Rightarrow> string \<Rightarrow> string \<Rightarrow> string \<Rightarrow> jsval list \<Rightarrow> error + jsval" where
  "matchup_output homeTeam awayTeam generatedAt now vs =
     (let homeRoster = elem vs 0; awayRoster = elem vs 1;
          homeSchedule = elem vs 2; awaySchedule = elem vs 3 in
      object [(''output'', object [
        (''matchup'', Inr (JStr (toUpperCase awayTeam @ '' @ '' @ toUpperCase homeTeam))),
        (''homeTeam'',
           object (teamInfoFields homeRoster @ [(''record'', extractRecord homeSchedule)])),
        (''awayTeam'',
           object (teamInfoFields awayRoster @ [(''record'', extractRecord awaySchedule)])),
        (''analysis'', Inr (JObj [
           (''note'', JStr ''For betting odds and advanced analytics, consider additional data sources''),
           (''generatedAt'', JStr generatedAt)])),
        (''fetchedAt'', Inr (JStr now))])])"

definition matchup_handler ::
  "string \<Rightarrow> string \<Rightarrow> string \<Rightarrow> string \<Rightarrow> nat list \<Rightarrow>
   fetched \<Rightarrow> fetched \<Rightarrow> fetched \<Rightarrow> fetched \<Rightarrow> error + jsval" where
  "matchup_handler homeTeam awayTeam generatedAt now order f0 f1 f2 f3 =
     bind (resolveTeamId_p0 homeTeam) (\<lambda>homeId.
     bind (resolveTeamId_p0 awayTeam) (\<lambda>awayId.
     bind (promiseAll order [settled f0, settled f1, settled f2, settled f3])
       (matchup_output homeTeam awayTeam generatedAt now)))"

text \<open>
  \<^verbatim>\<open>athlete.draft ? `${athlete.draft.year} Round ${athlete.draft.round} Pick
  ${athlete.draft.selection}` : null\<close>.
\<close>

definition draftText :: "jsval \<Rightarrow> error + jsval" where
  "draftText draft =
     (if truthy draft
      then bind (toStringJS (member draft (Key ''year''))) (\<lambda>y.
           bind (toStringJS (member draft (Key ''round''))) (\<lambda>r.
           bind (toStringJS (member draft (Key ''selection''))) (\<lambda>s.
           Inr (JStr (y @ '' Round '' @ r @ '' Pick '' @ s)))))
      else Inr JNull)"

definition player_output_p0 :: "string \<Rightarrow> jsval \<Rightarrow> error + jsval" where
  "player_output_p0 now data =
     bind (dot data ''athlete'') (\<lambda>a.
     let athlete = orElse a (JObj []);
         stats = orElse (optPath athlete
                   [Key ''statsSummary'', Key ''statistics'', Idx0, Key ''stats'']) (JArr []);
         career = orElse (optPath athlete
                   [Key ''career'', Key ''stats'', Idx0, Key ''categories'', Idx0, Key ''stats''])
                   (JArr []) in
     object [(''output'', object [
       (''player'', object [
          (''id'', dot athlete ''id''),
          (''name'', dot athlete ''displayName''),
          (''firstName'', dot athlete ''firstName''),
          (''lastName'', dot athlete ''lastName''),
          (''jersey'', dot athlete ''jersey''),
          (''position'', dotOpt athlete ''position'' [Key ''name'']),
          (''team'', dotOpt athlete ''team'' [Key ''displayName'']),
          (''teamId'', dotOpt athlete ''team'' [Key ''id'']),
          (''height'', dot athlete ''displayHeight''),
          (''weight'', dot athlete ''displayWeight''),
          (''age'', dot athlete ''age''),
          (''birthDate'', dot athlete ''dateOfBirth''),
          (''birthPlace'', dotOpt athlete ''birthPlace'' [Key ''city'']),
          (''college'', dotOpt athlete ''college'' [Key ''name'']),
          (''draft'', bind (dot athlete ''draft'') draftText),
          (''experience'', dotOpt athlete ''experience'' [Key ''years'']),
          (''headshot'', dotOpt athlete ''headshot'' [Key ''href''])]),
       (''seasonStats'', objectFrom ''name'' ''value'' stats),
       (''careerStats'', objectFrom ''name'' ''value'' career),
       (''fetchedAt'', Inr (JStr now))])])"

definition player_handler_p0 :: "string \<Rightarrow> fetched \<Rightarrow> error + jsval" where
  "player_handler_p0 now f = bind (settled f) (player_output_p0 now)"

subsection \<open>Payload shapes\<close>

text \<open>
  What a payload must have for a normalizer to get through it without a throw: the
  entries of the lists it walks are neither \<^verbatim>\<open>null\<close> nor missing.
\<close>

definition competitorsOf :: "jsval \<Rightarrow> jsval" where
  "competitorsOf e = optPath e [Key ''competitions'', Idx0, Key ''competitors'']"

definition readableEvent :: "jsval \<Rightarrow> bool" where
  "readableEvent e = (\<not> nullish e \<and> readableList (competitorsOf e))"

text \<open>No competitor of the event carries a \<^verbatim>\<open>score\<close>.\<close>

definition noScoreFields :: "jsval \<Rightarrow> bool" where
  "noScoreFields e =
     (case competitorsOf e of
        JArr cs \<Rightarrow> list_all (\<lambda>c. member c (Key ''score'') = JUndefined) cs
      | _ \<Rightarrow> True)"

definition readableAthlete :: "jsval \<Rightarrow> bool" where
  "readableAthlete a =
     (\<not> nullish a \<and>
      (case orElse (optPath a [Key ''categories'', Idx0, Key ''stats'']) (JArr []) of
         JArr xs \<Rightarrow> list_all (\<lambda>s. \<not> nullish s) xs
       | _ \<Rightarrow> False))"

subsection \<open>What a normalizer is expected to return\<close>

text \<open>The entries of a list; an absent list has none.\<close>

definition listOf :: "jsval \<Rightarrow> jsval list" where
  "listOf v = (case v of JArr xs \<Rightarrow> xs | _ \<Rightarrow> [])"

text \<open>A list all of whose entries satisfy \<open>P\<close>, or no list at all.\<close>

definition listWhere :: "(jsval \<Rightarrow> bool) \<Rightarrow> jsval \<Rightarrow> bool" where
  "listWhere P v = (case v of JArr xs \<Rightarrow> list_all P xs | _ \<Rightarrow> nullish v)"

text \<open>
  The properties \<open>k\<close> that copy what the payload \<open>x\<close> has at the path \<open>p\<close>, which is
  \<^verbatim>\<open>undefined\<close> when \<open>x\<close> has nothing there.
\<close>

definition copyFields :: "jsval \<Rightarrow> (string \<times> step list) list \<Rightarrow> (string \<times> jsval) list" where
  "copyFields x fs = map (\<lambda>(k, p). (k, optPath x p)) fs"

text \<open>
  The first entry of a list whose field \<open>f\<close> is the string \<open>lit\<close>; \<^verbatim>\<open>undefined\<close> when
  there is none.
\<close>

definition firstWith :: "string \<Rightarrow> string \<Rightarrow> jsval \<Rightarrow> jsval" where
  "firstWith f lit v =
     (case find (\<lambda>c. member c (Key f) = JStr lit) (listOf v) of
        Some c \<Rightarrow> c | None \<Rightarrow> JUndefined)"

text \<open>
  In a list of \<open>key\<close>/\<open>val\<close> entries, the value of the last entry whose key prints as
  \<open>k\<close>; \<^verbatim>\<open>undefined\<close> when there is none.
\<close>

definition lastKeyed :: "string \<Rightarrow> string \<Rightarrow> string \<Rightarrow> jsval list \<Rightarrow> jsval" where
  "lastKeyed key val k xs =
     (case find (\<lambda>s. toStringJS (member s (Key key)) = Inr k) (rev xs) of
        Some s \<Rightarrow> member s (Key val) | None \<Rightarrow> JUndefined)"

text \<open>An entry that can be read and whose key can be printed.\<close>

definition keyed :: "string \<Rightarrow> jsval \<Rightarrow> bool" where
  "keyed key s = (\<not> nullish s \<and> \<not> isl (toStringJS (member s (Key key))))"

text \<open>A completed game, and a game with a competitor marked as the winner.\<close>

definition isCompleted :: "jsval \<Rightarrow> bool" where
  "isCompleted e = truthy (optPath e [Key ''status'', Key ''type'', Key ''completed''])"

definition hasWinner :: "jsval \<Rightarrow> bool" where
  "hasWinner e = list_ex (\<lambda>c. truthy (member c (Key ''winner''))) (listOf (competitorsOf e))"

subsection \<open>Sample payloads\<close>

definition scheduledEvent :: jsval where
  "scheduledEvent = JObj [
     (''id'', JStr ''401810001''),
     (''shortName'', JStr ''LAL @ BOS''),
     (''status'', JObj [(''type'', JObj [
        (''state'', JStr ''pre''), (''description'', JStr ''Scheduled''),
        (''shortDetail'', JStr ''1/31 - 7:30 PM EST'')])]),
     (''competitions'', JArr [JObj [(''competitors'', JArr [
        JObj [(''homeAway'', JStr ''home''), (''team'', JObj [(''abbreviation'', JStr ''BOS'')])],
        JObj [(''homeAway'', JStr ''away''), (''team'', JObj [(''abbreviation'', JStr ''LAL'')])]])]])]"

definition sixEvents :: "jsval list" where
  "sixEvents = map (\<lambda>k. JObj [(''shortName'', JStr k)])
     [''LAL @ BOS'', ''NYK @ MIA'', ''DEN @ PHX'', ''GSW @ SAC'', ''CHI @ MIL'', ''DAL @ HOU'']"

definition threeAthletes :: "jsval list" where
  "threeAthletes = [
     JObj [(''athlete'', JObj [(''displayName'', JStr ''P1'')])],
     JObj [(''athlete'', JObj [(''displayName'', JStr ''P2'')]),
           (''categories'', JArr [JObj [(''stats'', JArr [
              JObj [(''name'', JStr ''avgPoints''), (''value'', JNum 31)]])]])],
     JObj [(''athlete'', JObj [(''displayName'', JStr ''P3'')])]]"

text \<open>A call answered with status 200 and a JSON body, and one answered with an error status.\<close>

definition okResponse :: "jsval \<Rightarrow> fetched" where
  "okResponse v = Response \<lparr>status = 200, json = Some v\<rparr>"

definition failedResponse :: "nat \<Rightarrow> fetched" where
  "failedResponse n = Response \<lparr>status = n, json = Some JNull\<rparr>"

text \<open>Payloads that lack most of their fields.\<close>

definition bareScoreboard :: jsval where
  "bareScoreboard = JObj [(''events'', JArr [JObj [(''shortName'', JStr ''LAL @ BOS'')]])]"

definition completedSchedule :: jsval where
  "completedSchedule = JObj [(''events'', JArr [
     JObj [(''status'', JObj [(''type'', JObj [(''completed'', JBool True)])])]])]"

definition lakersTeam :: jsval where
  "lakersTeam = JObj [(''team'', JObj [(''displayName'', JStr ''Lakers'')])]"

definition celticsTeam :: jsval where
  "celticsTeam = JObj [(''team'', JObj [(''displayName'', JStr ''Celtics'')])]"

definition lakersRoster :: jsval where
  "lakersRoster = JObj [
     (''team'', JObj [(''displayName'', JStr ''Lakers'')]),
     (''athletes'', JArr [JObj [(''displayName'', JStr ''A. Davis'')]])]"

definition playerStats :: jsval where
  "playerStats = JObj [(''statistics'', JObj [(''splits'', JObj [(''categories'', JArr [
     JObj [(''stats'', JArr [
       JObj [(''abbreviation'', JStr ''PTS''), (''displayValue'', JStr ''27.1'')]])]])])])]"

definition athleteProfile :: jsval where
  "athleteProfile = JObj [(''athlete'', JObj [
     (''displayName'', JStr ''LeBron James''),
     (''statsSummary'', JObj [(''statistics'', JArr [
        JObj [(''stats'', JArr [JObj [(''name'', JStr ''avgPoints''), (''value'', JNum 27)]])]])])])]"

definition oneLeader :: jsval where
  "oneLeader = JObj [(''athletes'', JArr [
     JObj [(''athlete'', JObj [(''displayName'', JStr ''P1'')])]])]"

section \<open>Entity resolver\<close>

subsection \<open>Digit strings pass every normalisation unchanged\<close>

lemma digit_not_white: "isDigit c \<Longrightarrow> \<not> isWhite c"
  by (auto simp: isDigit_def isWhite_def)

lemma digit_lower: "isDigit c \<Longrightarrow> lowerChar c = c"
  by (simp add: isDigit_def lowerChar_def Let_def)

lemma digit_upper: "isDigit c \<Longrightarrow> upperChar c = c"
  by (simp add: isDigit_def upperChar_def Let_def)

lemma digit_radix10: "isDigit c \<Longrightarrow> digitOf c < 10"
  by (auto simp: isDigit_def digitOf_def Let_def)

lemma digits_toLowerCase: "list_all isDigit c \<Longrightarrow> toLowerCase c = c"
  by (induction c) (simp_all add: toLowerCase_def digit_lower)

lemma digits_toUpperCase: "list_all isDigit c \<Longrightarrow> toUpperCase c = c"
  by (induction c) (simp_all add: toUpperCase_def digit_upper)

lemma dropWhile_white_digits: "list_all isDigit c \<Longrightarrow> dropWhile isWhite c = c"
  by (cases c) (simp_all add: digit_not_white)

lemma digits_trim: "list_all isDigit c \<Longrightarrow> trim c = c"
proof -
  assume d: "list_all isDigit c"
  then have "list_all isDigit (rev c)" by (simp add: list_all_iff)
  then show ?thesis using d by (simp add: trim_def dropWhile_white_digits)
qed

lemma takeWhile_digits: "list_all isDigit c \<Longrightarrow> takeWhile (\<lambda>ch. digitOf ch < 10) c = c"
  by (induction c) (simp_all add: digit_radix10)

subsection \<open>No alias and no built-in is a digit string\<close>

lemma TEAM_IDS_keys_not_digits:
  "list_all (\<lambda>k. \<not> list_all isDigit k) (map fst TEAM_IDS)"
  by code_simp

lemma TEAM_ABBR_keys_not_digits:
  "list_all (\<lambda>k. \<not> list_all isDigit k) (map fst TEAM_ABBR_TO_ID)"
  by code_simp

lemma prototype_not_digits: "list_all (\<lambda>k. \<not> list_all isDigit k) objectPrototype"
  by code_simp

lemma getProperty_Missing:
  assumes "list_all (\<lambda>k. \<not> list_all isDigit k) (map fst tbl)" and "list_all isDigit c"
  shows "getProperty tbl c = Missing"
proof -
  have "c \<notin> set (map fst tbl)"
    using assms by (auto simp: list_all_iff)
  then have m: "map_of tbl c = None"
    by (simp add: map_of_eq_None_iff)
  have "c \<notin> set objectPrototype"
    using prototype_not_digits assms(2) by (auto simp: list_all_iff)
  with m show ?thesis
    by (simp add: getProperty_def)
qed

lemma parseInt_digits:
  assumes "c \<noteq> []" and "list_all isDigit c"
  shows "parseInt c = Some (int (digitsValue 10 c))"
proof -
  obtain a cs where c: "c = a # cs"
    using assms(1) by (cases c) auto
  have a: "isDigit a"
    using assms(2) c by simp
  have nosign: "a \<noteq> CHR ''-''" "a \<noteq> CHR ''+''"
    using a by (auto simp: isDigit_def)
  have nohex:
    "\<not> (case c of a # b # _ \<Rightarrow> a = CHR ''0'' \<and> (b = CHR ''x'' \<or> b = CHR ''X'') | _ \<Rightarrow> False)"
  proof (cases cs)
    case Nil
    then show ?thesis using c by simp
  next
    case (Cons b bs)
    then have "isDigit b"
      using assms(2) c by simp
    then have "b \<noteq> CHR ''x''" "b \<noteq> CHR ''X''"
      by (auto simp: isDigit_def)
    then show ?thesis using c Cons by simp
  qed
  have dw: "dropWhile isWhite c = c"
    by (rule dropWhile_white_digits[OF assms(2)])
  show ?thesis
    unfolding parseInt_def dw
    using nohex nosign assms(1) takeWhile_digits[OF assms(2)]
    by (simp add: c Let_def)
qed

subsection \<open>Every alias resolves to its canonical ID\<close>

lemma aliases_resolve:
  "list_all (\<lambda>(a, c). resolveTeamId a = Inr (TeamId c)) TEAM_IDS"
  by code_simp

lemma abbreviations_resolve:
  "list_all (\<lambda>(a, c). resolveTeamId_p0 a = Inr (TeamId c)) TEAM_ABBR_TO_ID"
  by code_simp

subsection \<open>Claims about the resolver\<close>

text \<open>
  C1. Every alias resolves to its canonical ID, and a string that is neither an alias
  nor a digits-only canonical ID is rejected; in particular a string that only starts
  with digits must be rejected. The resolver of \<^verbatim>\<open>index.ts\<close> reads the number with
  \<^verbatim>\<open>parseInt\<close>, which stops at the first character that is not a digit: it resolves
  \<^verbatim>\<open>13abc\<close> to team 13. The resolver of \<^verbatim>\<open>part_000\<close>, which tests the whole string
  against \<^verbatim>\<open>/^\d+$/\<close>, rejects the same input.
\<close>

theorem resolveTeamId_digit_prefix:
  "resolveTeamId ''13abc'' = Inr (TeamId 13) \<and>
   resolveTeamId_p0 ''13abc'' = Inl (UnknownTeam ''13abc'')"
  by code_simp

text \<open>
  C2. Numeric passthrough: a digits-only string resolves to itself. In \<^verbatim>\<open>part_000\<close>
  the string itself comes back, for every digit string. In \<^verbatim>\<open>index.ts\<close> the canonical
  ID is a number, bounded by 1 and 30: a digit string that denotes a number in these
  bounds resolves to that number.
\<close>

theorem numeric_passthrough:
  assumes "allDigits c"
  shows "resolveTeamId_p0 c = Inr (TeamId c) \<and>
         (1 \<le> digitsValue 10 c \<and> digitsValue 10 c \<le> 30 \<longrightarrow>
            resolveTeamId c = Inr (TeamId (int (digitsValue 10 c))))"
proof -
  from assms have ne: "c \<noteq> []" and d: "list_all isDigit c"
    by (simp_all add: allDigits_def)
  have p0: "resolveTeamId_p0 c = Inr (TeamId c)"
    using assms
    by (simp add: resolveTeamId_p0_def digits_toUpperCase[OF d]
        getProperty_Missing[OF TEAM_ABBR_keys_not_digits d] digitsTeamId_def)
  have ix: "resolveTeamId c = numericTeamId c"
    by (simp add: resolveTeamId_def digits_toLowerCase[OF d] digits_trim[OF d]
        getProperty_Missing[OF TEAM_IDS_keys_not_digits d])
  show ?thesis
    using p0 ix by (simp add: numericTeamId_def parseInt_digits[OF ne d])
qed

theorem numeric_passthrough_witness:
  "allDigits ''13'' \<and> 1 \<le> digitsValue 10 ''13'' \<and> digitsValue 10 ''13'' \<le> 30 \<and>
   resolveTeamId_p0 ''13'' = Inr (TeamId ''13'') \<and> resolveTeamId ''13'' = Inr (TeamId 13)"
  using numeric_passthrough [of "''13''"]
  by (simp add: allDigits_def isDigit_def digitsValue_def digitOf_def)

section \<open>Upstream client\<close>

text \<open>
  C9. \<^verbatim>\<open>fetchJSON\<close> fails exactly when the provider responds with a status that is not
  a success status, the error carries the status, and on a success status the parsed
  payload is returned; nothing is retried. As stated this fails: a response with a
  success status whose body is not JSON makes \<^verbatim>\<open>response.json()\<close> reject, so the call
  fails on a success status, with an error that has no status.
\<close>

theorem fetchJSON_unparsed_counterexample:
  "ok \<lparr>status = 200, json = None\<rparr> \<and>
   fst (fetchJSON ''/scoreboard''
          \<lparr>pending = [Response \<lparr>status = 200, json = None\<rparr>], requests = []\<rparr>)
     = Inl SyntaxError"
  by (simp add: ok_def fetchJSON_def fetch_def settled_def)

text \<open>
  C9, as amended. When the provider responds, \<^verbatim>\<open>fetchJSON\<close> fails with the error that
  carries the status exactly when the status is not a success status, whatever the
  body; on a success status it returns the parsed payload when the body is JSON, and
  fails with the parse error of \<^verbatim>\<open>response.json()\<close>, which has no status, when it is
  not. So the call fails exactly when the status is not a success status or the body
  is not JSON. One request is issued whatever the outcome: nothing is retried. (The
  status is part of the message text \<^verbatim>\<open>ESPN API error: 503\<close> of a plain \<^verbatim>\<open>Error\<close>, for which
  \<open>EspnApiError 503\<close> stands; the error has no status field.)
\<close>

theorem fetchJSON_outcome:
  assumes "pending net = Response r # rest"
  shows "fst (fetchJSON url net) =
           (if \<not> ok r then Inl (EspnApiError (status r))
            else (case json r of Some payload \<Rightarrow> Inr payload | None \<Rightarrow> Inl SyntaxError)) \<and>
         ((\<exists>s. fst (fetchJSON url net) = Inl (EspnApiError s)) \<longleftrightarrow> \<not> ok r) \<and>
         (isl (fst (fetchJSON url net)) \<longleftrightarrow> \<not> ok r \<or> json r = None) \<and>
         requests (snd (fetchJSON url net)) = requests net @ [url] \<and>
         pending (snd (fetchJSON url net)) = rest"
  using assms by (simp add: fetchJSON_def fetch_def settled_def split: option.splits)

theorem fetchJSON_outcome_witness:
  "fst (fetchJSON ''/scoreboard''
          \<lparr>pending = [Response \<lparr>status = 503, json = None\<rparr>], requests = []\<rparr>)
     = Inl (EspnApiError 503) \<and>
   fst (fetchJSON ''/scoreboard''
          \<lparr>pending = [Response \<lparr>status = 200, json = Some (JObj [])\<rparr>], requests = []\<rparr>)
     = Inr (JObj []) \<and>
   fst (fetchJSON ''/scoreboard''
          \<lparr>pending = [Response \<lparr>status = 204, json = None\<rparr>], requests = []\<rparr>)
     = Inl SyntaxError \<and>
   requests (snd (fetchJSON ''/scoreboard''
          \<lparr>pending = [Response \<lparr>status = 503, json = None\<rparr>], requests = []\<rparr>))
     = [''/scoreboard'']"
  using
    fetchJSON_outcome [of "\<lparr>pending = [Response \<lparr>status = 503, json = None\<rparr>], requests = []\<rparr>"
      "\<lparr>status = 503, json = None\<rparr>" "[]" "''/scoreboard''"]
    fetchJSON_outcome [of "\<lparr>pending = [Response \<lparr>status = 200, json = Some (JObj [])\<rparr>], requests = []\<rparr>"
      "\<lparr>status = 200, json = Some (JObj [])\<rparr>" "[]" "''/scoreboard''"]
    fetchJSON_outcome [of "\<lparr>pending = [Response \<lparr>status = 204, json = None\<rparr>], requests = []\<rparr>"
      "\<lparr>status = 204, json = None\<rparr>" "[]" "''/scoreboard''"]
  by (simp add: ok_def)

section \<open>Normalizers\<close>

text \<open>
  A handler with a single upstream call returns what its normalizer makes of the
  payload received.
\<close>

lemma single_call_handlers:
  assumes "settled f = Inr data"
  shows "overview_handler now f = overview_output now data"
    and "games_handler now f = games_output now data"
    and "scores_handler now f = scores_output now data"
    and "leaders_handler category now f = leaders_output category now data"
  using assms
  by (simp_all add: overview_handler_def games_handler_def scores_handler_def
      leaders_handler_def bind_def)

text \<open>
  C3. A normalizer never throws, whatever fields the payload lacks; in particular the
  team normalizer must cope with a payload that has no \<^verbatim>\<open>team\<close> object. The team
  handler of \<^verbatim>\<open>index.ts\<close> reads \<^verbatim>\<open>team.id\<close> from \<^verbatim>\<open>teamData.team\<close> without a guard
  and throws a TypeError on such a payload; the team handler of \<^verbatim>\<open>part_000\<close>, which
  reads \<^verbatim>\<open>roster.team || {}\<close>, returns a record for the same payloads.
\<close>

theorem team_handler_missing_team:
  "team_handler ''LAL'' ''2026-01-31T00:00:00.000Z'' [0, 1]
     (Response \<lparr>status = 200, json = Some (JObj [])\<rparr>)
     (Response \<lparr>status = 200, json = Some (JObj [(''athletes'', JArr [])])\<rparr>)
   = Inl TypeError \<and>
   \<not> isl (team_handler_p0 ''LAL'' ''2026-01-31T00:00:00.000Z'' [0, 1]
     (Response \<lparr>status = 200, json = Some (JObj [])\<rparr>)
     (Response \<lparr>status = 200, json = Some (JObj [(''athletes'', JArr [])])\<rparr>))"
  by code_simp


subsection \<open>Callbacks over lists\<close>

lemma mapM_Inr_length: "mapM f xs = Inr ys \<Longrightarrow> length ys = length xs"
  by (induction xs arbitrary: ys) (auto split: sum.splits)

lemma mapM_Inr_nth: "mapM f xs = Inr ys \<Longrightarrow> i < length xs \<Longrightarrow> f (xs ! i) = Inr (ys ! i)"
proof (induction xs arbitrary: ys i)
  case Nil
  then show ?case by simp
next
  case (Cons x xs)
  then show ?case by (cases i) (auto split: sum.splits)
qed

lemma mapM_total:
  assumes "\<And>x. x \<in> set xs \<Longrightarrow> \<exists>y. f x = Inr y"
  shows "\<exists>ys. mapM f xs = Inr ys"
  using assms
proof (induction xs)
  case Nil
  then show ?case by simp
next
  case (Cons x xs)
  then obtain y ys where "f x = Inr y" "mapM f xs = Inr ys" by (meson list.set_intros)
  then show ?case by simp
qed

lemma mapM_pointwise:
  assumes "\<And>x. x \<in> set xs \<Longrightarrow> \<exists>y. f x = Inr y \<and> P x y"
  shows "\<exists>ys. mapM f xs = Inr ys \<and> length ys = length xs \<and>
              (\<forall>i<length xs. P (xs ! i) (ys ! i))"
  using assms
proof (induction xs)
  case Nil
  then show ?case by simp
next
  case (Cons x xs)
  obtain y where y: "f x = Inr y" "P x y"
    using Cons.prems[of x] by auto
  obtain ys where ys: "mapM f xs = Inr ys" "length ys = length xs"
    "\<forall>i<length xs. P (xs ! i) (ys ! i)"
    using Cons.IH Cons.prems by auto
  have "\<forall>i<length (x # xs). P ((x # xs) ! i) ((y # ys) ! i)"
  proof (intro allI impI)
    fix i assume "i < length (x # xs)"
    then show "P ((x # xs) ! i) ((y # ys) ! i)"
      using y(2) ys(3) by (cases i) auto
  qed
  then show ?case using y(1) ys(1,2) by simp
qed

lemma mapM_enumerate:
  assumes "\<And>i a. a \<in> set xs \<Longrightarrow> \<exists>y. f i a = Inr y \<and> P i a y"
  shows "\<exists>ys. mapM (\<lambda>(i, a). f i a) (enumerate n xs) = Inr ys \<and> length ys = length xs \<and>
              (\<forall>j<length xs. P (n + j) (xs ! j) (ys ! j))"
  using assms
proof (induction xs arbitrary: n)
  case Nil
  then show ?case by simp
next
  case (Cons x xs)
  obtain y where y: "f n x = Inr y" "P n x y"
    using Cons.prems[of x n] by auto
  obtain ys where ys: "mapM (\<lambda>(i, a). f i a) (enumerate (Suc n) xs) = Inr ys"
    "length ys = length xs" "\<forall>j<length xs. P (Suc n + j) (xs ! j) (ys ! j)"
    using Cons.IH[of "Suc n"] Cons.prems by auto
  have "\<forall>j<length (x # xs). P (n + j) ((x # xs) ! j) ((y # ys) ! j)"
  proof (intro allI impI)
    fix j assume "j < length (x # xs)"
    then show "P (n + j) ((x # xs) ! j) ((y # ys) ! j)"
      using y(2) ys(3) by (cases j) auto
  qed
  then show ?case using y(1) ys(1,2) by simp
qed

subsection \<open>Property paths\<close>

lemma dotOpt_path: "\<not> nullish x \<Longrightarrow> dotOpt x f p = Inr (optPath x (Key f # p))"
  by (simp add: dotOpt_def dot_def bind_def)

lemma optPath_undefined: "optPath JUndefined p = JUndefined"
  by (cases p) simp_all

lemma optPath_null: "nullish x \<Longrightarrow> p \<noteq> [] \<Longrightarrow> optPath x p = JUndefined"
  by (cases p) simp_all

lemma optPath_append: "optPath x (p @ q) = optPath (optPath x p) q"
  by (induction p arbitrary: x) (simp_all add: optPath_undefined)

subsection \<open>The overview entrypoints\<close>

lemma overview_game_total: "\<not> nullish e \<Longrightarrow> \<exists>g. overview_game e = Inr g"
  by (simp add: overview_game_def object_def dot_def dotOpt_def bind_def)

lemma overview_game_p0_total: "\<not> nullish e \<Longrightarrow> \<exists>g. overview_game_p0 e = Inr g"
  by (simp add: overview_game_p0_def object_def dot_def dotOpt_def bind_def)

lemma headlines_total:
  assumes "readableList v"
  shows "\<exists>hs. optMap (\<lambda>a. dot a ''headline'') v = Inr hs"
proof (cases v)
  case (JArr xs)
  then have "\<And>x. x \<in> set xs \<Longrightarrow> \<exists>y. dot x ''headline'' = Inr y"
    using assms by (auto simp: readableList_def list_all_iff dot_def)
  then obtain ys where "mapM (\<lambda>a. dot a ''headline'') xs = Inr ys"
    using mapM_total[of xs "\<lambda>a. dot a ''headline''"] by blast
  then show ?thesis using JArr by (simp add: optMap_def arrayMap_def)
qed (use assms in \<open>auto simp: readableList_def optMap_def\<close>)

text \<open>
  C10. The free overview returns at most five games, the first five events of the
  scoreboard in payload order, while \<^verbatim>\<open>gamesCount\<close> is the number of all events of
  the payload: it can exceed the length of the list returned. Both overview handlers
  do so, for every scoreboard whose event entries can be read.
\<close>

theorem overview_games_capped:
  assumes "\<not> nullish data"
    and "member data (Key ''events'') = JArr es"
    and "\<forall>e\<in>set es. \<not> nullish e"
    and "\<not> nullish news"
    and "readableList (member news (Key ''articles''))"
  shows "(\<exists>out gs. overview_output now data = Inr (JObj [(''output'', out)]) \<and>
            mapM overview_game es = Inr gs \<and>
            member out (Key ''games'') = JArr (take 5 gs) \<and>
            length (take 5 gs) = min 5 (length es) \<and>
            member out (Key ''gamesCount'') = JNum (int (length es))) \<and>
         (\<exists>out gs. overview_output_p0 today now [data, news] = Inr (JObj [(''output'', out)]) \<and>
            mapM overview_game_p0 es = Inr gs \<and>
            member out (Key ''games'') = JArr (take 5 gs) \<and>
            length (take 5 gs) = min 5 (length es) \<and>
            member out (Key ''gamesCount'') = JNum (int (length es)))"
proof -
  obtain gs where gs: "mapM overview_game es = Inr gs"
    using mapM_total[of es overview_game] overview_game_total assms(3) by blast
  have len: "length gs = length es" by (rule mapM_Inr_length[OF gs])
  have first: "\<exists>out gs. overview_output now data = Inr (JObj [(''output'', out)]) \<and>
            mapM overview_game es = Inr gs \<and>
            member out (Key ''games'') = JArr (take 5 gs) \<and>
            length (take 5 gs) = min 5 (length es) \<and>
            member out (Key ''gamesCount'') = JNum (int (length es))"
    using assms(1,2) gs len
    by (simp add: overview_output_def dot_def bind_def optMap_def arrayMap_def orElse_def
        object_def slice0_def min_def)
  obtain gs' where gs': "mapM overview_game_p0 es = Inr gs'"
    using mapM_total[of es overview_game_p0] overview_game_p0_total assms(3) by blast
  have len': "length gs' = length es" by (rule mapM_Inr_length[OF gs'])
  obtain hs where hs: "optMap (\<lambda>a. dot a ''headline'') (member news (Key ''articles'')) = Inr hs"
    using headlines_total[OF assms(5)] by blast
  have second: "\<exists>out gs. overview_output_p0 today now [data, news] = Inr (JObj [(''output'', out)]) \<and>
            mapM overview_game_p0 es = Inr gs \<and>
            member out (Key ''games'') = JArr (take 5 gs) \<and>
            length (take 5 gs) = min 5 (length es) \<and>
            member out (Key ''gamesCount'') = JNum (int (length es))"
    using assms(1,2,4) gs' len' hs
    by (simp add: overview_output_p0_def elem_def dot_def dotOpt_def bind_def optMap_def
        arrayMap_def orElse_def object_def slice0_def min_def)
  from first second show ?thesis by blast
qed

theorem overview_games_capped_witness:
  "\<exists>out gs. overview_output ''t'' (JObj [(''events'', JArr sixEvents)])
       = Inr (JObj [(''output'', out)]) \<and>
     member out (Key ''gamesCount'') = JNum 6 \<and>
     member out (Key ''games'') = JArr gs \<and> length gs = 5"
proof -
  let ?data = "JObj [(''events'', JArr sixEvents)]"
  have h1: "\<not> nullish ?data" by simp
  have h2: "member ?data (Key ''events'') = JArr sixEvents" by simp
  have h3: "\<forall>e\<in>set sixEvents. \<not> nullish e" by (simp add: sixEvents_def)
  have h4: "\<not> nullish (JObj [])" by simp
  have h5: "readableList (member (JObj []) (Key ''articles''))" by (simp add: readableList_def)
  have six: "length sixEvents = 6" by (simp add: sixEvents_def)
  from overview_games_capped [OF h1 h2 h3 h4 h5, of "''t''" "''d''"] show ?thesis
    unfolding six by auto
qed

subsection \<open>The scoreboard entrypoints\<close>

lemma findM_found:
  "list_all (\<lambda>c. \<not> nullish c) cs \<Longrightarrow>
   \<exists>v. findM (fieldIs f lit) cs = Inr v \<and> (v = JUndefined \<or> v \<in> set cs)"
  by (induction cs) (auto simp: fieldIs_def dot_def bind_def)

text \<open>The competitor picked for one side is absent or one of the list.\<close>

lemma side_found:
  assumes "readableList cs"
  shows "\<exists>v. optFind (fieldIs f lit) cs = Inr v \<and>
             (v = JUndefined \<or> (\<exists>xs. cs = JArr xs \<and> v \<in> set xs))"
proof (cases cs)
  case (JArr xs)
  then have "list_all (\<lambda>c. \<not> nullish c) xs" using assms by (simp add: readableList_def)
  from findM_found[OF this, of f lit] show ?thesis
    using JArr by (auto simp: optFind_def arrayFind_def)
qed (use assms in \<open>auto simp: readableList_def optFind_def\<close>)

lemma side_no_score:
  assumes "noScoreFields e" and "v = JUndefined \<or> (\<exists>xs. competitorsOf e = JArr xs \<and> v \<in> set xs)"
  shows "optPath v [Key ''score''] = JUndefined"
  using assms by (auto simp: noScoreFields_def list_all_iff)

lemma competitors_of_comp:
  "\<not> nullish e \<Longrightarrow>
   optPath (optPath e [Key ''competitions'', Idx0]) [Key ''competitors''] = competitorsOf e"
  unfolding competitorsOf_def
  using optPath_append[of e "[Key ''competitions'', Idx0]" "[Key ''competitors'']"] by simp

lemma scores_game_explicit:
  assumes "readableEvent e"
  shows "\<exists>home away.
           (home = JUndefined \<or> (\<exists>xs. competitorsOf e = JArr xs \<and> home \<in> set xs)) \<and>
           (away = JUndefined \<or> (\<exists>xs. competitorsOf e = JArr xs \<and> away \<in> set xs)) \<and>
           scores_game e = Inr (JObj [
             (''id'', optPath e [Key ''id'']),
             (''matchup'', optPath e [Key ''shortName'']),
             (''status'', optPath e [Key ''status'', Key ''type'', Key ''shortDetail'']),
             (''statusState'', optPath e [Key ''status'', Key ''type'', Key ''state'']),
             (''homeTeam'', optPath home [Key ''team'', Key ''abbreviation'']),
             (''homeScore'', optPath home [Key ''score'']),
             (''awayTeam'', optPath away [Key ''team'', Key ''abbreviation'']),
             (''awayScore'', optPath away [Key ''score'']),
             (''venue'', optPath e [Key ''competitions'', Idx0, Key ''venue'', Key ''fullName'']),
             (''broadcast'', optPath e
                [Key ''competitions'', Idx0, Key ''broadcasts'', Idx0, Key ''names'', Idx0])])"
proof -
  from assms have e: "\<not> nullish e" and cs: "readableList (competitorsOf e)"
    by (simp_all add: readableEvent_def)
  obtain home where home: "optFind (fieldIs ''homeAway'' ''home'') (competitorsOf e) = Inr home"
    "home = JUndefined \<or> (\<exists>xs. competitorsOf e = JArr xs \<and> home \<in> set xs)"
    using side_found[OF cs] by blast
  obtain away where away: "optFind (fieldIs ''homeAway'' ''away'') (competitorsOf e) = Inr away"
    "away = JUndefined \<or> (\<exists>xs. competitorsOf e = JArr xs \<and> away \<in> set xs)"
    using side_found[OF cs] by blast
  have v: "optPath (optPath e [Key ''competitions'', Idx0]) [Key ''venue'', Key ''fullName'']
      = optPath e [Key ''competitions'', Idx0, Key ''venue'', Key ''fullName'']"
    using optPath_append[of e "[Key ''competitions'', Idx0]" "[Key ''venue'', Key ''fullName'']"]
    by simp
  have b: "optPath (optPath e [Key ''competitions'', Idx0])
        [Key ''broadcasts'', Idx0, Key ''names'', Idx0]
      = optPath e [Key ''competitions'', Idx0, Key ''broadcasts'', Idx0, Key ''names'', Idx0]"
    using optPath_append[of e "[Key ''competitions'', Idx0]"
        "[Key ''broadcasts'', Idx0, Key ''names'', Idx0]"]
    by simp
  have i: "member e (Key k) = optPath e [Key k]" for k
    using e by simp
  have g: "scores_game e = Inr (JObj [
             (''id'', optPath e [Key ''id'']),
             (''matchup'', optPath e [Key ''shortName'']),
             (''status'', optPath e [Key ''status'', Key ''type'', Key ''shortDetail'']),
             (''statusState'', optPath e [Key ''status'', Key ''type'', Key ''state'']),
             (''homeTeam'', optPath home [Key ''team'', Key ''abbreviation'']),
             (''homeScore'', optPath home [Key ''score'']),
             (''awayTeam'', optPath away [Key ''team'', Key ''abbreviation'']),
             (''awayScore'', optPath away [Key ''score'']),
             (''venue'', optPath e [Key ''competitions'', Idx0, Key ''venue'', Key ''fullName'']),
             (''broadcast'', optPath e
                [Key ''competitions'', Idx0, Key ''broadcasts'', Idx0, Key ''names'', Idx0])])"
    unfolding scores_game_def dotOpt_path[OF e] bind_def
    by (simp add: competitors_of_comp[OF e] home(1) away(1) object_def dot_def e i v b
        del: optPath.simps)
  from home(2) away(2) g show ?thesis by blast
qed

lemma games_game_explicit:
  assumes "readableEvent e"
  shows "\<exists>home away.
           (home = JUndefined \<or> (\<exists>xs. competitorsOf e = JArr xs \<and> home \<in> set xs)) \<and>
           (away = JUndefined \<or> (\<exists>xs. competitorsOf e = JArr xs \<and> away \<in> set xs)) \<and>
           games_game e = Inr (JObj [
             (''id'', optPath e [Key ''id'']),
             (''name'', optPath e [Key ''shortName'']),
             (''date'', optPath e [Key ''date'']),
             (''venue'', optPath e [Key ''competitions'', Idx0, Key ''venue'', Key ''fullName'']),
             (''status'', optPath e [Key ''status'', Key ''type'', Key ''description'']),
             (''period'', optPath e [Key ''status'', Key ''period'']),
             (''clock'', optPath e [Key ''status'', Key ''displayClock'']),
             (''homeTeam'', games_side home),
             (''awayTeam'', games_side away)])"
proof -
  from assms have e: "\<not> nullish e" and cs: "readableList (competitorsOf e)"
    by (simp_all add: readableEvent_def)
  obtain home where home: "optFind (fieldIs ''homeAway'' ''home'') (competitorsOf e) = Inr home"
    "home = JUndefined \<or> (\<exists>xs. competitorsOf e = JArr xs \<and> home \<in> set xs)"
    using side_found[OF cs] by blast
  obtain away where away: "optFind (fieldIs ''homeAway'' ''away'') (competitorsOf e) = Inr away"
    "away = JUndefined \<or> (\<exists>xs. competitorsOf e = JArr xs \<and> away \<in> set xs)"
    using side_found[OF cs] by blast
  have v: "optPath (optPath e [Key ''competitions'', Idx0]) [Key ''venue'', Key ''fullName'']
      = optPath e [Key ''competitions'', Idx0, Key ''venue'', Key ''fullName'']"
    using optPath_append[of e "[Key ''competitions'', Idx0]" "[Key ''venue'', Key ''fullName'']"]
    by simp
  have i: "member e (Key k) = optPath e [Key k]" for k
    using e by simp
  have g: "games_game e = Inr (JObj [
             (''id'', optPath e [Key ''id'']),
             (''name'', optPath e [Key ''shortName'']),
             (''date'', optPath e [Key ''date'']),
             (''venue'', optPath e [Key ''competitions'', Idx0, Key ''venue'', Key ''fullName'']),
             (''status'', optPath e [Key ''status'', Key ''type'', Key ''description'']),
             (''period'', optPath e [Key ''status'', Key ''period'']),
             (''clock'', optPath e [Key ''status'', Key ''displayClock'']),
             (''homeTeam'', games_side home),
             (''awayTeam'', games_side away)])"
    unfolding games_game_def dotOpt_path[OF e] bind_def
    by (simp add: competitors_of_comp[OF e] home(1) away(1) object_def dot_def e i v
        del: optPath.simps)
  from home(2) away(2) g show ?thesis by blast
qed

lemma scores_game_shape:
  assumes "readableEvent e"
  shows "\<exists>g. scores_game e = Inr g \<and>
           member g (Key ''status'') = optPath e [Key ''status'', Key ''type'', Key ''shortDetail''] \<and>
           (noScoreFields e \<longrightarrow>
              member g (Key ''homeScore'') = JUndefined \<and>
              member g (Key ''awayScore'') = JUndefined)"
proof -
  from scores_game_explicit[OF assms] obtain home away where
    h: "home = JUndefined \<or> (\<exists>xs. competitorsOf e = JArr xs \<and> home \<in> set xs)"
    and a: "away = JUndefined \<or> (\<exists>xs. competitorsOf e = JArr xs \<and> away \<in> set xs)"
    and g: "scores_game e = Inr (JObj [
             (''id'', optPath e [Key ''id'']),
             (''matchup'', optPath e [Key ''shortName'']),
             (''status'', optPath e [Key ''status'', Key ''type'', Key ''shortDetail'']),
             (''statusState'', optPath e [Key ''status'', Key ''type'', Key ''state'']),
             (''homeTeam'', optPath home [Key ''team'', Key ''abbreviation'']),
             (''homeScore'', optPath home [Key ''score'']),
             (''awayTeam'', optPath away [Key ''team'', Key ''abbreviation'']),
             (''awayScore'', optPath away [Key ''score'']),
             (''venue'', optPath e [Key ''competitions'', Idx0, Key ''venue'', Key ''fullName'']),
             (''broadcast'', optPath e
                [Key ''competitions'', Idx0, Key ''broadcasts'', Idx0, Key ''names'', Idx0])])"
    by blast
  have sc: "noScoreFields e \<Longrightarrow>
      optPath home [Key ''score''] = JUndefined \<and> optPath away [Key ''score''] = JUndefined"
    using side_no_score h a by blast
  show ?thesis unfolding g using sc by (simp del: optPath.simps)
qed

lemma games_game_shape:
  assumes "readableEvent e"
  shows "\<exists>g. games_game e = Inr g \<and>
           member g (Key ''status'') = optPath e [Key ''status'', Key ''type'', Key ''description''] \<and>
           (noScoreFields e \<longrightarrow>
              optPath g [Key ''homeTeam'', Key ''score''] = JUndefined \<and>
              optPath g [Key ''awayTeam'', Key ''score''] = JUndefined)"
proof -
  from games_game_explicit[OF assms] obtain home away where
    h: "home = JUndefined \<or> (\<exists>xs. competitorsOf e = JArr xs \<and> home \<in> set xs)"
    and a: "away = JUndefined \<or> (\<exists>xs. competitorsOf e = JArr xs \<and> away \<in> set xs)"
    and g: "games_game e = Inr (JObj [
             (''id'', optPath e [Key ''id'']),
             (''name'', optPath e [Key ''shortName'']),
             (''date'', optPath e [Key ''date'']),
             (''venue'', optPath e [Key ''competitions'', Idx0, Key ''venue'', Key ''fullName'']),
             (''status'', optPath e [Key ''status'', Key ''type'', Key ''description'']),
             (''period'', optPath e [Key ''status'', Key ''period'']),
             (''clock'', optPath e [Key ''status'', Key ''displayClock'']),
             (''homeTeam'', games_side home),
             (''awayTeam'', games_side away)])"
    by blast
  have sc: "noScoreFields e \<Longrightarrow>
      optPath home [Key ''score''] = JUndefined \<and> optPath away [Key ''score''] = JUndefined"
    using side_no_score h a by blast
  show ?thesis unfolding g using sc by (simp add: games_side_def)
qed

text \<open>
  C5. A scheduled event, one whose competitors carry no score, normalizes to a game
  whose home and away scores are absent, not zero, and whose status is the one of the
  payload. This holds for the \<^verbatim>\<open>scores\<close> handler (\<^verbatim>\<open>homeScore\<close>, \<^verbatim>\<open>awayScore\<close>) and for
  the \<^verbatim>\<open>games\<close> handler (\<^verbatim>\<open>homeTeam.score\<close>, \<^verbatim>\<open>awayTeam.score\<close>), at each position of
  a scoreboard whose entries can be read.
\<close>

theorem scheduled_scores_absent:
  assumes "\<not> nullish data"
    and "member data (Key ''events'') = JArr es"
    and "\<forall>e\<in>set es. readableEvent e"
    and "i < length es"
    and "noScoreFields (es ! i)"
  shows "(\<exists>out gs. scores_output now data = Inr (JObj [(''output'', out)]) \<and>
            member out (Key ''games'') = JArr gs \<and> length gs = length es \<and>
            member (gs ! i) (Key ''homeScore'') = JUndefined \<and>
            member (gs ! i) (Key ''awayScore'') = JUndefined \<and>
            member (gs ! i) (Key ''status'') =
              optPath (es ! i) [Key ''status'', Key ''type'', Key ''shortDetail'']) \<and>
         (\<exists>out gs. games_output now data = Inr (JObj [(''output'', out)]) \<and>
            member out (Key ''games'') = JArr gs \<and> length gs = length es \<and>
            optPath (gs ! i) [Key ''homeTeam'', Key ''score''] = JUndefined \<and>
            optPath (gs ! i) [Key ''awayTeam'', Key ''score''] = JUndefined \<and>
            member (gs ! i) (Key ''status'') =
              optPath (es ! i) [Key ''status'', Key ''type'', Key ''description''])"
proof -
  let ?P = "\<lambda>e g. member g (Key ''status'') =
                optPath e [Key ''status'', Key ''type'', Key ''shortDetail''] \<and>
              (noScoreFields e \<longrightarrow>
                 member g (Key ''homeScore'') = JUndefined \<and>
                 member g (Key ''awayScore'') = JUndefined)"
  let ?Q = "\<lambda>e g. member g (Key ''status'') =
                optPath e [Key ''status'', Key ''type'', Key ''description''] \<and>
              (noScoreFields e \<longrightarrow>
                 optPath g [Key ''homeTeam'', Key ''score''] = JUndefined \<and>
                 optPath g [Key ''awayTeam'', Key ''score''] = JUndefined)"
  have "\<And>e. e \<in> set es \<Longrightarrow> \<exists>g. scores_game e = Inr g \<and> ?P e g"
    using scores_game_shape assms(3) by blast
  from mapM_pointwise[of es scores_game ?P, OF this]
  obtain gs where gs: "mapM scores_game es = Inr gs" "length gs = length es"
    "\<forall>i<length es. ?P (es ! i) (gs ! i)"
    by blast
  have "\<And>e. e \<in> set es \<Longrightarrow> \<exists>g. games_game e = Inr g \<and> ?Q e g"
    using games_game_shape assms(3) by blast
  from mapM_pointwise[of es games_game ?Q, OF this]
  obtain hs where hs: "mapM games_game es = Inr hs" "length hs = length es"
    "\<forall>i<length es. ?Q (es ! i) (hs ! i)"
    by blast
  have p: "?P (es ! i) (gs ! i)" and q: "?Q (es ! i) (hs ! i)"
    using gs(3) hs(3) assms(4) by blast+
  have first: "\<exists>out gs. scores_output now data = Inr (JObj [(''output'', out)]) \<and>
            member out (Key ''games'') = JArr gs \<and> length gs = length es \<and>
            member (gs ! i) (Key ''homeScore'') = JUndefined \<and>
            member (gs ! i) (Key ''awayScore'') = JUndefined \<and>
            member (gs ! i) (Key ''status'') =
              optPath (es ! i) [Key ''status'', Key ''type'', Key ''shortDetail'']"
    using assms(1,2,5) gs(1,2) p
    by (simp add: scores_output_def dot_def dotOpt_def bind_def optMap_def arrayMap_def
        orElse_def object_def del: optPath.simps)
  have second: "\<exists>out gs. games_output now data = Inr (JObj [(''output'', out)]) \<and>
            member out (Key ''games'') = JArr gs \<and> length gs = length es \<and>
            optPath (gs ! i) [Key ''homeTeam'', Key ''score''] = JUndefined \<and>
            optPath (gs ! i) [Key ''awayTeam'', Key ''score''] = JUndefined \<and>
            member (gs ! i) (Key ''status'') =
              optPath (es ! i) [Key ''status'', Key ''type'', Key ''description'']"
    using assms(1,2,5) hs(1,2) q
    by (simp add: games_output_def dot_def dotOpt_def bind_def optMap_def arrayMap_def
        orElse_def object_def del: optPath.simps)
  from first second show ?thesis by blast
qed

theorem scheduled_scores_absent_witness:
  "(\<exists>out g. scores_output ''t'' (JObj [(''events'', JArr [scheduledEvent])])
        = Inr (JObj [(''output'', out)]) \<and>
      member out (Key ''games'') = JArr [g] \<and>
      member g (Key ''homeScore'') = JUndefined \<and>
      member g (Key ''awayScore'') = JUndefined \<and>
      member g (Key ''status'') = JStr ''1/31 - 7:30 PM EST'') \<and>
   (\<exists>out g. games_output ''t'' (JObj [(''events'', JArr [scheduledEvent])])
        = Inr (JObj [(''output'', out)]) \<and>
      member out (Key ''games'') = JArr [g] \<and>
      optPath g [Key ''homeTeam'', Key ''score''] = JUndefined \<and>
      optPath g [Key ''awayTeam'', Key ''score''] = JUndefined \<and>
      member g (Key ''status'') = JStr ''Scheduled'')"
proof -
  let ?data = "JObj [(''events'', JArr [scheduledEvent])]"
  have h1: "\<not> nullish ?data" by simp
  have h2: "member ?data (Key ''events'') = JArr [scheduledEvent]" by simp
  have h3: "\<forall>e\<in>set [scheduledEvent]. readableEvent e"
    by (simp add: readableEvent_def readableList_def competitorsOf_def scheduledEvent_def)
  have h4: "0 < length [scheduledEvent]" by simp
  have h5: "noScoreFields ([scheduledEvent] ! 0)"
    by (simp add: noScoreFields_def competitorsOf_def scheduledEvent_def)
  have s1: "optPath ([scheduledEvent] ! 0) [Key ''status'', Key ''type'', Key ''shortDetail'']
              = JStr ''1/31 - 7:30 PM EST''"
    by (simp add: scheduledEvent_def)
  have s2: "optPath ([scheduledEvent] ! 0) [Key ''status'', Key ''type'', Key ''description'']
              = JStr ''Scheduled''"
    by (simp add: scheduledEvent_def)
  from scheduled_scores_absent [OF h1 h2 h3 h4 h5, of "''t''"]
  obtain out gs out' hs where
    a: "scores_output ''t'' ?data = Inr (JObj [(''output'', out)])"
       "member out (Key ''games'') = JArr gs" "length gs = length [scheduledEvent]"
       "member (gs ! 0) (Key ''homeScore'') = JUndefined"
       "member (gs ! 0) (Key ''awayScore'') = JUndefined"
       "member (gs ! 0) (Key ''status'') = JStr ''1/31 - 7:30 PM EST''"
    and b: "games_output ''t'' ?data = Inr (JObj [(''output'', out')])"
       "member out' (Key ''games'') = JArr hs" "length hs = length [scheduledEvent]"
       "optPath (hs ! 0) [Key ''homeTeam'', Key ''score''] = JUndefined"
       "optPath (hs ! 0) [Key ''awayTeam'', Key ''score''] = JUndefined"
       "member (hs ! 0) (Key ''status'') = JStr ''Scheduled''"
    unfolding s1 s2 by blast
  from a(3) obtain g where g: "gs = [g]" by (cases gs) auto
  from b(3) obtain h where h: "hs = [h]" by (cases hs) auto
  have "\<exists>out g. scores_output ''t'' ?data = Inr (JObj [(''output'', out)]) \<and>
      member out (Key ''games'') = JArr [g] \<and>
      member g (Key ''homeScore'') = JUndefined \<and>
      member g (Key ''awayScore'') = JUndefined \<and>
      member g (Key ''status'') = JStr ''1/31 - 7:30 PM EST''"
    using a g by (intro exI[of _ out] exI[of _ g]) simp
  moreover have "\<exists>out g. games_output ''t'' ?data = Inr (JObj [(''output'', out)]) \<and>
      member out (Key ''games'') = JArr [g] \<and>
      optPath g [Key ''homeTeam'', Key ''score''] = JUndefined \<and>
      optPath g [Key ''awayTeam'', Key ''score''] = JUndefined \<and>
      member g (Key ''status'') = JStr ''Scheduled''"
    using b h by (intro exI[of _ out'] exI[of _ h]) (simp del: optPath.simps)
  ultimately show ?thesis by blast
qed

subsection \<open>The leaders entrypoint\<close>

lemma findM_total:
  "list_all (\<lambda>s. \<not> nullish s) xs \<Longrightarrow> \<exists>v. findM (fieldIs f lit) xs = Inr v"
  by (induction xs) (auto simp: fieldIs_def dot_def bind_def)

lemma statValue_total:
  "list_all (\<lambda>s. \<not> nullish s) xs \<Longrightarrow> \<exists>v. statValue (JArr xs) n = Inr v"
  using findM_total[of xs "''name''" n]
  by (auto simp: statValue_def arrayFind_def bind_def)

lemma leader_entry_shape:
  assumes "readableAthlete a"
  shows "\<exists>rest. leader_entry i a =
           Inr (JObj ((''rank'', JNum (int i + 1)) #
                      (''name'', optPath a [Key ''athlete'', Key ''displayName'']) # rest))"
proof -
  from assms have a: "\<not> nullish a" by (simp add: readableAthlete_def)
  from assms obtain xs where
    st: "orElse (optPath a [Key ''categories'', Idx0, Key ''stats'']) (JArr []) = JArr xs"
    and xs: "list_all (\<lambda>s. \<not> nullish s) xs"
    by (auto simp: readableAthlete_def split: jsval.splits)
  obtain v1 v2 v3 v4 v5 v6 where v:
    "statValue (JArr xs) ''gamesPlayed'' = Inr v1"
    "statValue (JArr xs) ''avgPoints'' = Inr v2"
    "statValue (JArr xs) ''avgRebounds'' = Inr v3"
    "statValue (JArr xs) ''avgAssists'' = Inr v4"
    "statValue (JArr xs) ''avgSteals'' = Inr v5"
    "statValue (JArr xs) ''avgBlocks'' = Inr v6"
    using statValue_total[OF xs] by metis
  show ?thesis
    unfolding leader_entry_def dotOpt_path[OF a] bind_def
    by (simp add: st v object_def del: optPath.simps)
qed

text \<open>
  C6. The rank of a leader is its position in the list received, counted from one; the
  entries come out in the order they came in, whatever their fields hold.
\<close>

theorem leaders_rank_by_position:
  assumes "\<not> nullish data"
    and "member data (Key ''athletes'') = JArr as"
    and "\<forall>a\<in>set as. readableAthlete a"
  shows "\<exists>out ls. leaders_output category now data = Inr (JObj [(''output'', out)]) \<and>
           member out (Key ''leaders'') = JArr ls \<and>
           length ls = length as \<and>
           (\<forall>j<length as.
              member (ls ! j) (Key ''rank'') = JNum (int j + 1) \<and>
              member (ls ! j) (Key ''name'') =
                optPath (as ! j) [Key ''athlete'', Key ''displayName''])"
proof -
  let ?P = "\<lambda>i a y. member y (Key ''rank'') = JNum (int i + 1) \<and>
                    member y (Key ''name'') = optPath a [Key ''athlete'', Key ''displayName'']"
  have "\<And>i a. a \<in> set as \<Longrightarrow> \<exists>y. leader_entry i a = Inr y \<and> ?P i a y"
  proof -
    fix i a assume "a \<in> set as"
    then have "readableAthlete a" using assms(3) by simp
    from leader_entry_shape[OF this, of i] obtain rest where
      "leader_entry i a = Inr (JObj ((''rank'', JNum (int i + 1)) #
                      (''name'', optPath a [Key ''athlete'', Key ''displayName'']) # rest))"
      by blast
    then show "\<exists>y. leader_entry i a = Inr y \<and> ?P i a y" by simp
  qed
  from mapM_enumerate[of as leader_entry ?P 0, OF this]
  obtain ls where ls: "mapM (\<lambda>(i, a). leader_entry i a) (enumerate 0 as) = Inr ls"
    "length ls = length as" "\<forall>j<length as. ?P j (as ! j) (ls ! j)"
    by auto
  show ?thesis
    using assms(1,2) ls
    by (simp add: leaders_output_def dot_def bind_def optMapIdx_def orElse_def object_def)
qed

theorem leaders_rank_by_position_witness:
  "\<exists>out ls. leaders_output ''points'' ''t'' (JObj [(''athletes'', JArr threeAthletes)])
       = Inr (JObj [(''output'', out)]) \<and>
     member out (Key ''leaders'') = JArr ls \<and>
     map (\<lambda>l. member l (Key ''rank'')) ls = [JNum 1, JNum 2, JNum 3] \<and>
     map (\<lambda>l. member l (Key ''name'')) ls = [JStr ''P1'', JStr ''P2'', JStr ''P3'']"
proof -
  let ?data = "JObj [(''athletes'', JArr threeAthletes)]"
  have h1: "\<not> nullish ?data" by simp
  have h2: "member ?data (Key ''athletes'') = JArr threeAthletes" by simp
  have h3: "\<forall>a\<in>set threeAthletes. readableAthlete a"
    by (simp add: threeAthletes_def readableAthlete_def orElse_def)
  from leaders_rank_by_position [OF h1 h2 h3, of "''points''" "''t''"]
  obtain out ls where
    o: "leaders_output ''points'' ''t'' ?data = Inr (JObj [(''output'', out)])"
       "member out (Key ''leaders'') = JArr ls"
    and l: "length ls = length threeAthletes"
    and r: "\<forall>j<length threeAthletes.
              member (ls ! j) (Key ''rank'') = JNum (int j + 1) \<and>
              member (ls ! j) (Key ''name'') =
                optPath (threeAthletes ! j) [Key ''athlete'', Key ''displayName'']"
    by blast
  from l obtain a b c where ls: "ls = [a, b, c]"
    by (auto simp: threeAthletes_def length_Suc_conv)
  have "member a (Key ''rank'') = JNum 1 \<and> member a (Key ''name'') = JStr ''P1''"
    using r[rule_format, of 0] by (simp add: ls threeAthletes_def)
  moreover have "member b (Key ''rank'') = JNum 2 \<and> member b (Key ''name'') = JStr ''P2''"
    using r[rule_format, of 1] by (simp add: ls threeAthletes_def)
  moreover have "member c (Key ''rank'') = JNum 3 \<and> member c (Key ''name'') = JStr ''P3''"
    using r[rule_format, of 2] by (simp add: ls threeAthletes_def)
  ultimately show ?thesis
    using o ls by auto
qed


subsection \<open>The team summaries\<close>

text \<open>
  C4. An optional field that is absent upstream is absent in the output, never a default,
  also for a count derived from an absent list. As stated this fails: both team
  summaries write \<^verbatim>\<open>roster.athletes?.length || 0\<close> and \<^verbatim>\<open>... || []\<close>, so a roster
  payload without an \<^verbatim>\<open>athletes\<close> list has roster size 0 and an empty list of players.
\<close>

theorem absent_athletes_counterexample:
  "member (JObj []) (Key ''athletes'') = JUndefined \<and>
   extractTeamInfo (JObj []) = Inr (JObj [
     (''name'', JUndefined), (''abbreviation'', JUndefined),
     (''rosterSize'', JNum 0), (''starters'', JArr [])])"
  by code_simp

subsection \<open>The record each normalizer returns\<close>

text \<open>
  Each normalizer is compared with the record it is expected to return, written with
  the plain functions \<open>copyFields\<close>, \<open>listOf\<close>, \<open>firstWith\<close> and \<open>lastKeyed\<close>:
  first the callbacks that build the record of one entry, then the counts and the
  statistics maps, then the entrypoints.
\<close>

lemma dot_path: "\<not> nullish x \<Longrightarrow> dot x f = Inr (optPath x [Key f])"
  by (simp add: dot_def)

lemma mapM_map:
  assumes "\<And>x. x \<in> set xs \<Longrightarrow> f x = Inr (g x)"
  shows "mapM f xs = Inr (map g xs)"
  using assms by (induction xs) simp_all

lemma optMap_expected:
  assumes "listWhere P v" and "\<And>x. P x \<Longrightarrow> f x = Inr (g x)"
  shows "\<exists>m. optMap f v = Inr m \<and> orElse m (JArr []) = JArr (map g (listOf v))"
proof (cases v)
  case (JArr xs)
  then have "mapM f xs = Inr (map g xs)"
    using assms by (intro mapM_map) (auto simp: listWhere_def list_all_iff)
  then show ?thesis
    using JArr by (simp add: optMap_def arrayMap_def orElse_def listOf_def)
qed (use assms(1) in \<open>auto simp: listWhere_def optMap_def orElse_def listOf_def\<close>)

lemma optFirst5Map_expected:
  assumes "listWhere P v" and "\<And>x. P x \<Longrightarrow> f x = Inr (g x)"
  shows "\<exists>m. optFirst5Map f v = Inr m \<and>
           orElse m (JArr []) = JArr (map g (take 5 (listOf v)))"
proof (cases v)
  case (JArr xs)
  then have "mapM f (take 5 xs) = Inr (map g (take 5 xs))"
    using assms by (intro mapM_map) (auto simp: listWhere_def list_all_iff dest: in_set_takeD)
  then show ?thesis
    using JArr
    by (simp add: optFirst5Map_def slice0_def bind_def arrayMap_def orElse_def listOf_def)
qed (use assms(1) in \<open>auto simp: listWhere_def optFirst5Map_def orElse_def listOf_def\<close>)

lemma length_expected:
  assumes "listWhere P v"
  shows "orElse (optPath v [Key ''length'']) (JNum 0) = JNum (int (length (listOf v)))"
  using assms by (cases v) (auto simp: listWhere_def orElse_def listOf_def)

lemma findM_firstWith:
  "list_all (\<lambda>c. \<not> nullish c) cs \<Longrightarrow>
   findM (fieldIs f lit) cs = Inr (firstWith f lit (JArr cs))"
  by (induction cs) (auto simp: fieldIs_def dot_def bind_def firstWith_def listOf_def)

lemma optFind_firstWith:
  assumes "readableList v"
  shows "optFind (fieldIs f lit) v = Inr (firstWith f lit v)"
proof (cases v)
  case (JArr xs)
  then show ?thesis
    using assms findM_firstWith[of xs f lit]
    by (simp add: readableList_def optFind_def arrayFind_def)
qed (use assms in \<open>auto simp: readableList_def optFind_def firstWith_def listOf_def\<close>)

lemma readableList_listWhere: "readableList v = listWhere (\<lambda>x. \<not> nullish x) v"
  by (simp add: readableList_def listWhere_def)

lemma competitors_path:
  "optPath e [Key ''competitions'', Idx0, Key ''competitors''] = competitorsOf e"
  by (simp add: competitorsOf_def)

lemma overview_game_expected:
  assumes "\<not> nullish e"
  shows "overview_game e = Inr (JObj (copyFields e [
           (''name'', [Key ''shortName'']),
           (''status'', [Key ''status'', Key ''type'', Key ''description'']),
           (''date'', [Key ''date''])]))"
  unfolding overview_game_def dotOpt_path[OF assms] dot_path[OF assms]
  by (simp add: object_def copyFields_def del: optPath.simps)

lemma overview_game_p0_expected:
  assumes "\<not> nullish e"
  shows "overview_game_p0 e = Inr (JObj (copyFields e [
           (''matchup'', [Key ''shortName'']),
           (''status'', [Key ''status'', Key ''type'', Key ''shortDetail'']),
           (''venue'', [Key ''competitions'', Idx0, Key ''venue'', Key ''fullName''])]))"
  unfolding overview_game_p0_def dotOpt_path[OF assms] dot_path[OF assms]
  by (simp add: object_def copyFields_def del: optPath.simps)

lemma team_player_expected:
  assumes "\<not> nullish a"
  shows "team_player a = Inr (JObj (copyFields a [
           (''id'', [Key ''id'']),
           (''name'', [Key ''displayName'']),
           (''jersey'', [Key ''jersey'']),
           (''position'', [Key ''position'', Key ''abbreviation'']),
           (''age'', [Key ''age''])]))"
  unfolding team_player_def dotOpt_path[OF assms] dot_path[OF assms]
  by (simp add: object_def copyFields_def del: optPath.simps)

lemma team_player_p0_expected:
  assumes "\<not> nullish p"
  shows "team_player_p0 p = Inr (JObj (copyFields p [
           (''name'', [Key ''displayName'']),
           (''jersey'', [Key ''jersey'']),
           (''position'', [Key ''position'', Key ''abbreviation'']),
           (''height'', [Key ''displayHeight'']),
           (''weight'', [Key ''displayWeight''])]))"
  unfolding team_player_p0_def dotOpt_path[OF assms] dot_path[OF assms]
  by (simp add: object_def copyFields_def del: optPath.simps)

lemma recentGame_expected:
  assumes "\<not> nullish e"
  shows "recentGame e = Inr (JObj (copyFields e [
           (''matchup'', [Key ''shortName'']),
           (''date'', [Key ''date'']),
           (''status'', [Key ''status'', Key ''type'', Key ''shortDetail''])]))"
  unfolding recentGame_def dotOpt_path[OF assms] dot_path[OF assms]
  by (simp add: object_def copyFields_def del: optPath.simps)

lemma keyPlayer_expected:
  assumes "\<not> nullish a"
  shows "keyPlayer a = Inr (JObj (copyFields a [
           (''name'', [Key ''displayName'']),
           (''position'', [Key ''position'', Key ''abbreviation''])]))"
  unfolding keyPlayer_def dotOpt_path[OF assms] dot_path[OF assms]
  by (simp add: object_def copyFields_def del: optPath.simps)

lemma starter_expected:
  assumes "\<not> nullish p"
  shows "starter p = Inr (JObj (copyFields p [
           (''name'', [Key ''displayName'']),
           (''position'', [Key ''position'', Key ''abbreviation'']),
           (''jersey'', [Key ''jersey''])]))"
  unfolding starter_def dotOpt_path[OF assms] dot_path[OF assms]
  by (simp add: object_def copyFields_def del: optPath.simps)

lemma player_game_expected:
  assumes "\<not> nullish e"
  shows "player_game e = Inr (JObj (copyFields e [
           (''date'', [Key ''gameDate'']),
           (''opponent'', [Key ''opponent'', Key ''displayName'']),
           (''result'', [Key ''gameResult'']),
           (''stats'', [Key ''stats''])]))"
  unfolding player_game_def dotOpt_path[OF assms] dot_path[OF assms]
  by (simp add: object_def copyFields_def del: optPath.simps)

lemma report_headline_expected:
  assumes "\<not> nullish a"
  shows "report_headline a = Inr (JObj (copyFields a [
           (''headline'', [Key ''headline'']),
           (''description'', [Key ''description'']),
           (''published'', [Key ''published'']),
           (''link'', [Key ''links'', Key ''web'', Key ''href''])]))"
  unfolding report_headline_def dotOpt_path[OF assms] dot_path[OF assms]
  by (simp add: object_def copyFields_def del: optPath.simps)

lemma headline_expected:
  assumes "\<not> nullish a"
  shows "dot a ''headline'' = Inr (optPath a [Key ''headline''])"
  by (rule dot_path[OF assms])

lemma games_game_expected:
  assumes "readableEvent e"
  shows "games_game e = Inr (JObj (
           copyFields e [
             (''id'', [Key ''id'']),
             (''name'', [Key ''shortName'']),
             (''date'', [Key ''date'']),
             (''venue'', [Key ''competitions'', Idx0, Key ''venue'', Key ''fullName'']),
             (''status'', [Key ''status'', Key ''type'', Key ''description'']),
             (''period'', [Key ''status'', Key ''period'']),
             (''clock'', [Key ''status'', Key ''displayClock''])] @
           [(''homeTeam'', JObj (copyFields (firstWith ''homeAway'' ''home'' (competitorsOf e)) [
               (''name'', [Key ''team'', Key ''displayName'']),
               (''abbreviation'', [Key ''team'', Key ''abbreviation'']),
               (''score'', [Key ''score'']),
               (''winner'', [Key ''winner''])])),
            (''awayTeam'', JObj (copyFields (firstWith ''homeAway'' ''away'' (competitorsOf e)) [
               (''name'', [Key ''team'', Key ''displayName'']),
               (''abbreviation'', [Key ''team'', Key ''abbreviation'']),
               (''score'', [Key ''score'']),
               (''winner'', [Key ''winner''])]))]))"
proof -
  from assms have e: "\<not> nullish e" and cs: "readableList (competitorsOf e)"
    by (simp_all add: readableEvent_def)
  note f = optFind_firstWith[OF cs]
  show ?thesis
    unfolding games_game_def dotOpt_path[OF e] dot_path[OF e] bind_def
    by (simp add: optPath_append[symmetric] competitors_path f object_def copyFields_def
        games_side_def del: optPath.simps)
qed

lemma report_game_expected:
  assumes "readableEvent e"
  shows "report_game e = Inr (JObj (
           copyFields e [
             (''id'', [Key ''id'']),
             (''name'', [Key ''name'']),
             (''shortName'', [Key ''shortName'']),
             (''date'', [Key ''date'']),
             (''venue'', [Key ''competitions'', Idx0, Key ''venue'', Key ''fullName'']),
             (''status'', [Key ''status'', Key ''type'', Key ''description'']),
             (''period'', [Key ''status'', Key ''period'']),
             (''clock'', [Key ''status'', Key ''displayClock''])] @
           [(''homeTeam'', JObj (copyFields (firstWith ''homeAway'' ''home'' (competitorsOf e)) [
               (''name'', [Key ''team'', Key ''displayName'']),
               (''abbreviation'', [Key ''team'', Key ''abbreviation'']),
               (''score'', [Key ''score'']),
               (''record'', [Key ''records'', Idx0, Key ''summary''])])),
            (''awayTeam'', JObj (copyFields (firstWith ''homeAway'' ''away'' (competitorsOf e)) [
               (''name'', [Key ''team'', Key ''displayName'']),
               (''abbreviation'', [Key ''team'', Key ''abbreviation'']),
               (''score'', [Key ''score'']),
               (''record'', [Key ''records'', Idx0, Key ''summary''])]))]))"
proof -
  from assms have e: "\<not> nullish e" and cs: "readableList (competitorsOf e)"
    by (simp_all add: readableEvent_def)
  note f = optFind_firstWith[OF cs]
  show ?thesis
    unfolding report_game_def dotOpt_path[OF e] dot_path[OF e] bind_def
    by (simp add: optPath_append[symmetric] competitors_path f object_def copyFields_def
        report_side_def del: optPath.simps)
qed

lemma scores_game_expected:
  assumes "readableEvent e"
  shows "scores_game e = Inr (JObj (
           copyFields e [
             (''id'', [Key ''id'']),
             (''matchup'', [Key ''shortName'']),
             (''status'', [Key ''status'', Key ''type'', Key ''shortDetail'']),
             (''statusState'', [Key ''status'', Key ''type'', Key ''state''])] @
           copyFields (firstWith ''homeAway'' ''home'' (competitorsOf e)) [
             (''homeTeam'', [Key ''team'', Key ''abbreviation'']),
             (''homeScore'', [Key ''score''])] @
           copyFields (firstWith ''homeAway'' ''away'' (competitorsOf e)) [
             (''awayTeam'', [Key ''team'', Key ''abbreviation'']),
             (''awayScore'', [Key ''score''])] @
           copyFields e [
             (''venue'', [Key ''competitions'', Idx0, Key ''venue'', Key ''fullName'']),
             (''broadcast'',
                [Key ''competitions'', Idx0, Key ''broadcasts'', Idx0, Key ''names'', Idx0])]))"
proof -
  from assms have e: "\<not> nullish e" and cs: "readableList (competitorsOf e)"
    by (simp_all add: readableEvent_def)
  note f = optFind_firstWith[OF cs]
  show ?thesis
    unfolding scores_game_def dotOpt_path[OF e] dot_path[OF e] bind_def
    by (simp add: optPath_append[symmetric] competitors_path f object_def copyFields_def
        del: optPath.simps)
qed

lemma statValue_expected:
  assumes "list_all (\<lambda>s. \<not> nullish s) xs"
  shows "statValue (JArr xs) n = Inr (optPath (firstWith ''name'' n (JArr xs)) [Key ''value''])"
  using findM_firstWith[OF assms, of "''name''" n]
  by (simp add: statValue_def arrayFind_def bind_def del: optPath.simps)

lemma leader_entry_expected:
  assumes "readableAthlete a"
  shows "leader_entry i a = Inr (JObj (
           (''rank'', JNum (int i + 1)) #
           copyFields a [
             (''name'', [Key ''athlete'', Key ''displayName'']),
             (''team'', [Key ''athlete'', Key ''teamShortName'']),
             (''position'', [Key ''athlete'', Key ''position'', Key ''abbreviation''])] @
           map (\<lambda>(k, n). (k, optPath
                  (firstWith ''name'' n
                     (orElse (optPath a [Key ''categories'', Idx0, Key ''stats'']) (JArr [])))
                  [Key ''value'']))
             [(''gamesPlayed'', ''gamesPlayed''), (''points'', ''avgPoints''),
              (''rebounds'', ''avgRebounds''), (''assists'', ''avgAssists''),
              (''steals'', ''avgSteals''), (''blocks'', ''avgBlocks'')]))"
proof -
  from assms have a: "\<not> nullish a" by (simp add: readableAthlete_def)
  from assms obtain xs where
    st: "orElse (optPath a [Key ''categories'', Idx0, Key ''stats'']) (JArr []) = JArr xs"
    and xs: "list_all (\<lambda>s. \<not> nullish s) xs"
    by (auto simp: readableAthlete_def split: jsval.splits)
  show ?thesis
    unfolding leader_entry_def dotOpt_path[OF a] bind_def
    by (simp add: st statValue_expected[OF xs] object_def copyFields_def Let_def
        del: optPath.simps)
qed

lemma bind_Inr: "bind (Inr x) f = f x"
  by (simp add: bind_def)

lemma bind_Inl: "bind (Inl e) f = Inl e"
  by (simp add: bind_def)

lemma filterM_filter:
  assumes "\<And>x. x \<in> set xs \<Longrightarrow> p x = Inr (q x)"
  shows "filterM p xs = Inr (filter q xs)"
  using assms by (induction xs) simp_all

lemma completedGame_expected:
  "\<not> nullish e \<Longrightarrow> completedGame e = Inr (isCompleted e)"
  by (simp add: completedGame_def dotOpt_path bind_def isCompleted_def del: optPath.simps)

lemma findM_winner:
  "list_all (\<lambda>c. \<not> nullish c) cs \<Longrightarrow>
   \<exists>w. findM (\<lambda>c. bind (dot c ''winner'') (\<lambda>w. Inr (truthy w))) cs = Inr w \<and>
       truthy w = list_ex (\<lambda>c. truthy (member c (Key ''winner''))) cs"
proof (induction cs)
  case Nil
  then show ?case by simp
next
  case (Cons c cs)
  show ?case
  proof (cases "truthy (member c (Key ''winner''))")
    case True
    then have "truthy c" by (cases c) auto
    then show ?thesis using True Cons.prems by (simp add: dot_def bind_def)
  next
    case False
    then show ?thesis using Cons by (simp add: dot_def bind_def)
  qed
qed

lemma wonGame_expected:
  assumes "readableEvent e"
  shows "wonGame e = Inr (isCompleted e \<and> hasWinner e)"
proof -
  from assms have e: "\<not> nullish e" and cs: "readableList (competitorsOf e)"
    by (simp_all add: readableEvent_def)
  have w: "\<exists>w. optFind (\<lambda>c. bind (dot c ''winner'') (\<lambda>w. Inr (truthy w))) (competitorsOf e) = Inr w \<and>
       truthy w = hasWinner e"
  proof (cases "competitorsOf e")
    case (JArr xs)
    then show ?thesis
      using cs findM_winner[of xs]
      by (simp add: readableList_def optFind_def arrayFind_def hasWinner_def listOf_def)
  qed (use cs in \<open>auto simp: readableList_def optFind_def hasWinner_def listOf_def\<close>)
  then obtain w where w: "optFind (\<lambda>c. bind (dot c ''winner'') (\<lambda>w. Inr (truthy w))) (competitorsOf e) = Inr w"
    "truthy w = hasWinner e" by blast
  show ?thesis
    unfolding wonGame_def dotOpt_path[OF e] competitors_path bind_Inr w(1)
    by (simp add: w(2) isCompleted_def del: optPath.simps)
qed

lemma optFilterCount_expected:
  assumes "listWhere P v" and "\<And>x. P x \<Longrightarrow> p x = Inr (q x)"
  shows "optFilterCount p v = Inr (int (length (filter q (listOf v))))"
proof (cases v)
  case (JArr xs)
  then have "filterM p xs = Inr (filter q xs)"
    using assms by (intro filterM_filter) (auto simp: listWhere_def list_all_iff)
  then show ?thesis
    using JArr by (simp add: optFilterCount_def listOf_def Let_def)
qed (use assms(1) in \<open>auto simp: listWhere_def optFilterCount_def listOf_def\<close>)

lemma extractRecord_expected:
  assumes "\<not> nullish schedule" and "listWhere readableEvent (member schedule (Key ''events''))"
  shows "extractRecord schedule = Inr (JObj [
           (''wins'', JNum (int (length (filter (\<lambda>e. isCompleted e \<and> hasWinner e)
                        (listOf (member schedule (Key ''events''))))))),
           (''losses'', JNum (int (length (filter isCompleted
                        (listOf (member schedule (Key ''events''))))) -
                      int (length (filter (\<lambda>e. isCompleted e \<and> hasWinner e)
                        (listOf (member schedule (Key ''events''))))))),
           (''gamesPlayed'', JNum (int (length (filter isCompleted
                        (listOf (member schedule (Key ''events'')))))))])"
proof -
  have c: "optFilterCount completedGame (member schedule (Key ''events'')) =
      Inr (int (length (filter isCompleted (listOf (member schedule (Key ''events''))))))"
    using optFilterCount_expected[OF assms(2), of completedGame isCompleted]
      completedGame_expected by (simp add: readableEvent_def)
  have w: "optFilterCount wonGame (member schedule (Key ''events'')) =
      Inr (int (length (filter (\<lambda>e. isCompleted e \<and> hasWinner e)
        (listOf (member schedule (Key ''events''))))))"
    using optFilterCount_expected[OF assms(2), of wonGame "\<lambda>e. isCompleted e \<and> hasWinner e"]
      wonGame_expected by simp
  show ?thesis
    using assms(1) by (simp add: extractRecord_def dot_def bind_def c w)
qed

lemma teamInfo_expected:
  assumes "\<not> nullish roster" and "readableList (member roster (Key ''athletes''))"
  shows "properties (teamInfoFields roster @ rest) =
         (case properties rest of Inl e \<Rightarrow> Inl e
          | Inr kvs \<Rightarrow> Inr (
           copyFields roster [
             (''name'', [Key ''team'', Key ''displayName'']),
             (''abbreviation'', [Key ''team'', Key ''abbreviation''])] @
           [(''rosterSize'', JNum (int (length (listOf (member roster (Key ''athletes'')))))),
            (''starters'', JArr (map (\<lambda>p. JObj (copyFields p [
                (''name'', [Key ''displayName'']),
                (''position'', [Key ''position'', Key ''abbreviation'']),
                (''jersey'', [Key ''jersey''])]))
              (take 5 (listOf (member roster (Key ''athletes''))))))] @ kvs))"
proof -
  let ?a = "member roster (Key ''athletes'')"
  have lw: "listWhere (\<lambda>x. \<not> nullish x) ?a"
    using assms(2) by (simp add: readableList_listWhere)
  from optFirst5Map_expected[OF lw, of starter "\<lambda>p. JObj (copyFields p [
                (''name'', [Key ''displayName'']),
                (''position'', [Key ''position'', Key ''abbreviation'']),
                (''jersey'', [Key ''jersey''])])"] starter_expected
  obtain m where m: "optFirst5Map starter ?a = Inr m"
    "orElse m (JArr []) = JArr (map (\<lambda>p. JObj (copyFields p [
                (''name'', [Key ''displayName'']),
                (''position'', [Key ''position'', Key ''abbreviation'']),
                (''jersey'', [Key ''jersey''])])) (take 5 (listOf ?a)))"
    by blast
  have n: "orElse (optPath roster [Key ''athletes'', Key ''length'']) (JNum 0) =
      JNum (int (length (listOf ?a)))"
    using length_expected[OF lw] assms(1) 
    by (cases "nullish ?a") (simp_all add: orElse_def listOf_def split: jsval.splits)
  show ?thesis
    unfolding teamInfoFields_def dotOpt_path[OF assms(1)]
    using assms(1)
    by (simp add: dot_def bind_Inr n m copyFields_def split: sum.splits del: optPath.simps)
qed

lemma map_of_insertKey:
  "map_of kvs k = None \<Longrightarrow>
   map_of (insertKey k v kvs) k' = (if k' = k then Some v else map_of kvs k')"
  by (induction kvs) (auto split: if_splits)

lemma map_of_replace:
  "map_of (map (\<lambda>(k', v'). if k' = k then (k', v) else (k', v')) kvs) k'' =
   (if k'' = k \<and> map_of kvs k \<noteq> None then Some v else map_of kvs k'')"
  by (induction kvs) auto

lemma map_of_assign:
  "k' \<noteq> ''__proto__'' \<Longrightarrow>
   map_of (fst (assign obj k v)) k' = (if k' = k then Some v else map_of (fst obj) k')"
  by (cases obj) (auto simp: assign_def map_of_insertKey map_of_replace)

lemma find_app:
  "find P (xs @ ys) = (case find P xs of None \<Rightarrow> find P ys | Some x \<Rightarrow> Some x)"
  by (induction xs) auto

lemma assignEach_expected:
  assumes "list_all (keyed key) xs"
  shows "\<exists>obj'. assignEach key val obj xs = Inr obj' \<and>
           (\<forall>k. k \<noteq> ''__proto__'' \<longrightarrow> map_of (fst obj') k =
              (case find (\<lambda>s. toStringJS (member s (Key key)) = Inr k) (rev xs) of
                 Some s \<Rightarrow> Some (member s (Key val))
               | None \<Rightarrow> map_of (fst obj) k))"
  using assms
proof (induction xs arbitrary: obj)
  case Nil
  then show ?case by simp
next
  case (Cons s ss)
  from Cons.prems have ks: "keyed key s" and ss: "list_all (keyed key) ss"
    by simp_all
  from ks have s: "\<not> nullish s"
    by (simp add: keyed_def)
  from ks obtain k0 where k0: "toStringJS (member s (Key key)) = Inr k0"
    by (cases "toStringJS (member s (Key key))") (auto simp: keyed_def)
  from Cons.IH[OF ss, of "assign obj k0 (member s (Key val))"] obtain obj' where
    kvs: "assignEach key val (assign obj k0 (member s (Key val))) ss = Inr obj'"
    and look: "\<And>k. k \<noteq> ''__proto__'' \<Longrightarrow> map_of (fst obj') k =
              (case find (\<lambda>s. toStringJS (member s (Key key)) = Inr k) (rev ss) of
                 Some s' \<Rightarrow> Some (member s' (Key val))
               | None \<Rightarrow> map_of (fst (assign obj k0 (member s (Key val)))) k)"
    by blast
  have "assignEach key val obj (s # ss) = Inr obj'"
    using s k0 kvs by simp
  moreover have "map_of (fst obj') k =
              (case find (\<lambda>s. toStringJS (member s (Key key)) = Inr k) (rev (s # ss)) of
                 Some s \<Rightarrow> Some (member s (Key val))
               | None \<Rightarrow> map_of (fst obj) k)" if "k \<noteq> ''__proto__''" for k
    using look[OF that] k0 that
    by (auto simp: find_app map_of_assign split: option.splits)
  ultimately show ?case by blast
qed

lemma objectFrom_expected:
  assumes "listWhere (keyed key) v" and "\<not> nullish v"
  shows "\<exists>kvs. objectFrom key val v = Inr (JObj kvs) \<and>
           (\<forall>k. k \<noteq> ''__proto__'' \<longrightarrow>
              member (JObj kvs) (Key k) = lastKeyed key val k (listOf v))"
proof (cases v)
  case (JArr xs)
  then have "list_all (keyed key) xs" using assms(1) by (simp add: listWhere_def)
  from assignEach_expected[OF this, of val "([], OrdinaryProto)"] obtain obj' where
    k: "assignEach key val ([], OrdinaryProto) xs = Inr obj'"
    and l: "\<And>k. k \<noteq> ''__proto__'' \<Longrightarrow> map_of (fst obj') k =
              (case find (\<lambda>s. toStringJS (member s (Key key)) = Inr k) (rev xs) of
                 Some s \<Rightarrow> Some (member s (Key val))
               | None \<Rightarrow> map_of (fst ([], OrdinaryProto)) k)"
    by blast
  have "member (JObj (fst obj')) (Key k) = lastKeyed key val k (listOf v)"
    if "k \<noteq> ''__proto__''" for k
    using l[OF that] JArr by (auto simp: lastKeyed_def listOf_def split: option.splits)
  then show ?thesis using k JArr by (simp add: objectFrom_def)
qed (use assms in \<open>auto simp: listWhere_def\<close>)

lemma orElse_path:
  assumes "k \<noteq> ''length''"
  shows "optPath (orElse t (JObj [])) (Key k # p) = optPath t (Key k # p)"
  using assms by (cases t) (auto simp: orElse_def optPath_undefined)

lemma optMapIdx_expected:
  assumes "listWhere P v" and "\<And>i x. P x \<Longrightarrow> f i x = Inr (g i x)"
  shows "\<exists>m. optMapIdx f v = Inr m \<and>
           orElse m (JArr []) = JArr (map (\<lambda>(i, x). g i x) (enumerate 0 (listOf v)))"
proof (cases v)
  case (JArr xs)
  have "mapM (\<lambda>(i, a). f i a) (enumerate 0 xs) = Inr (map (\<lambda>(i, x). g i x) (enumerate 0 xs))"
    using assms JArr
    by (intro mapM_map) (auto simp: listWhere_def list_all_iff in_set_enumerate_eq)
  then show ?thesis
    using JArr by (simp add: optMapIdx_def orElse_def listOf_def)
qed (use assms(1) in \<open>auto simp: listWhere_def optMapIdx_def orElse_def listOf_def\<close>)

lemma overview_output_expected:
  assumes "\<not> nullish data" and "readableList (member data (Key ''events''))"
  shows "overview_output now data = Inr (JObj [(''output'', JObj (
           (''league'', JStr ''NBA'') #
           copyFields data [(''season'', [Key ''season''])] @
           [(''gamesCount'', JNum (int (length (listOf (member data (Key ''events'')))))),
            (''games'', JArr (take 5 (map (\<lambda>e. JObj (copyFields e [
                (''name'', [Key ''shortName'']),
                (''status'', [Key ''status'', Key ''type'', Key ''description'']),
                (''date'', [Key ''date''])]))
              (listOf (member data (Key ''events'')))))),
            (''fetchedAt'', JStr now),
            (''dataSource'', JStr ''ESPN API (live)'')]))])"
proof -
  have lw: "listWhere (\<lambda>x. \<not> nullish x) (member data (Key ''events''))"
    using assms(2) by (simp add: readableList_listWhere)
  from optMap_expected[OF lw, of overview_game "\<lambda>e. JObj (copyFields e [
                (''name'', [Key ''shortName'']),
                (''status'', [Key ''status'', Key ''type'', Key ''description'']),
                (''date'', [Key ''date''])])"] overview_game_expected
  obtain m where m: "optMap overview_game (member data (Key ''events'')) = Inr m"
    "orElse m (JArr []) = JArr (map (\<lambda>e. JObj (copyFields e [
                (''name'', [Key ''shortName'']),
                (''status'', [Key ''status'', Key ''type'', Key ''description'']),
                (''date'', [Key ''date''])])) (listOf (member data (Key ''events''))))"
    by blast
  show ?thesis
    using assms(1)
    by (simp add: overview_output_def dot_def bind_Inr m object_def slice0_def
        copyFields_def take_map)
qed

lemma games_output_expected:
  assumes "\<not> nullish data" and "listWhere readableEvent (member data (Key ''events''))"
  shows "games_output now data = Inr (JObj [(''output'', JObj (
           copyFields data [(''date'', [Key ''day'', Key ''date''])] @
           [(''gamesCount'', JNum (int (length (listOf (member data (Key ''events'')))))),
            (''games'', JArr (map (\<lambda>e. JObj (
               copyFields e [
                 (''id'', [Key ''id'']),
                 (''name'', [Key ''shortName'']),
                 (''date'', [Key ''date'']),
                 (''venue'', [Key ''competitions'', Idx0, Key ''venue'', Key ''fullName'']),
                 (''status'', [Key ''status'', Key ''type'', Key ''description'']),
                 (''period'', [Key ''status'', Key ''period'']),
                 (''clock'', [Key ''status'', Key ''displayClock''])] @
               [(''homeTeam'', JObj (copyFields (firstWith ''homeAway'' ''home'' (competitorsOf e)) [
                   (''name'', [Key ''team'', Key ''displayName'']),
                   (''abbreviation'', [Key ''team'', Key ''abbreviation'']),
                   (''score'', [Key ''score'']),
                   (''winner'', [Key ''winner''])])),
                (''awayTeam'', JObj (copyFields (firstWith ''homeAway'' ''away'' (competitorsOf e)) [
                   (''name'', [Key ''team'', Key ''displayName'']),
                   (''abbreviation'', [Key ''team'', Key ''abbreviation'']),
                   (''score'', [Key ''score'']),
                   (''winner'', [Key ''winner''])]))]))
              (listOf (member data (Key ''events''))))),
            (''fetchedAt'', JStr now)]))])"
proof -
  from optMap_expected[OF assms(2), of games_game, OF games_game_expected]
  obtain m where m: "optMap games_game (member data (Key ''events'')) = Inr m"
    "orElse m (JArr []) = JArr (map (\<lambda>e. JObj (
               copyFields e [
                 (''id'', [Key ''id'']),
                 (''name'', [Key ''shortName'']),
                 (''date'', [Key ''date'']),
                 (''venue'', [Key ''competitions'', Idx0, Key ''venue'', Key ''fullName'']),
                 (''status'', [Key ''status'', Key ''type'', Key ''description'']),
                 (''period'', [Key ''status'', Key ''period'']),
                 (''clock'', [Key ''status'', Key ''displayClock''])] @
               [(''homeTeam'', JObj (copyFields (firstWith ''homeAway'' ''home'' (competitorsOf e)) [
                   (''name'', [Key ''team'', Key ''displayName'']),
                   (''abbreviation'', [Key ''team'', Key ''abbreviation'']),
                   (''score'', [Key ''score'']),
                   (''winner'', [Key ''winner''])])),
                (''awayTeam'', JObj (copyFields (firstWith ''homeAway'' ''away'' (competitorsOf e)) [
                   (''name'', [Key ''team'', Key ''displayName'']),
                   (''abbreviation'', [Key ''team'', Key ''abbreviation'']),
                   (''score'', [Key ''score'']),
                   (''winner'', [Key ''winner''])]))]))
              (listOf (member data (Key ''events''))))"
    by blast
  show ?thesis
    unfolding games_output_def dotOpt_path[OF assms(1)]
    using assms(1)
    by (simp add: dot_def bind_Inr m object_def copyFields_def del: optPath.simps)
qed

lemma orElse_not_nullish: "truthy b \<Longrightarrow> \<not> nullish (orElse a b)"
  by (cases a; cases b) (auto simp: orElse_def)

lemma team_output_expected:
  assumes "\<not> nullish teamData" and "\<not> nullish (member teamData (Key ''team''))"
    and "\<not> nullish rosterData" and "readableList (member rosterData (Key ''athletes''))"
  shows "team_output now teamData rosterData = Inr (JObj [(''output'', JObj [
           (''team'', JObj (copyFields teamData [
              (''id'', [Key ''team'', Key ''id'']),
              (''name'', [Key ''team'', Key ''displayName'']),
              (''abbreviation'', [Key ''team'', Key ''abbreviation'']),
              (''location'', [Key ''team'', Key ''location'']),
              (''color'', [Key ''team'', Key ''color'']),
              (''logo'', [Key ''team'', Key ''logos'', Idx0, Key ''href''])])),
           (''rosterCount'', JNum (int (length (listOf (member rosterData (Key ''athletes'')))))),
           (''roster'', JArr (take 15 (map (\<lambda>a. JObj (copyFields a [
              (''id'', [Key ''id'']),
              (''name'', [Key ''displayName'']),
              (''jersey'', [Key ''jersey'']),
              (''position'', [Key ''position'', Key ''abbreviation'']),
              (''age'', [Key ''age''])]))
             (listOf (member rosterData (Key ''athletes'')))))),
           (''fetchedAt'', JStr now)])])"
proof -
  have lw: "listWhere (\<lambda>x. \<not> nullish x) (member rosterData (Key ''athletes''))"
    using assms(4) by (simp add: readableList_listWhere)
  from optMap_expected[OF lw, of team_player "\<lambda>a. JObj (copyFields a [
              (''id'', [Key ''id'']),
              (''name'', [Key ''displayName'']),
              (''jersey'', [Key ''jersey'']),
              (''position'', [Key ''position'', Key ''abbreviation'']),
              (''age'', [Key ''age''])])"] team_player_expected
  obtain m where m: "optMap team_player (member rosterData (Key ''athletes'')) = Inr m"
    "orElse m (JArr []) = JArr (map (\<lambda>a. JObj (copyFields a [
              (''id'', [Key ''id'']),
              (''name'', [Key ''displayName'']),
              (''jersey'', [Key ''jersey'']),
              (''position'', [Key ''position'', Key ''abbreviation'']),
              (''age'', [Key ''age''])])) (listOf (member rosterData (Key ''athletes''))))"
    by blast
  show ?thesis
    using assms(1,2,3)
    by (simp add: team_output_def dot_def dotOpt_def bind_Inr m object_def slice0_def
        copyFields_def)
qed

lemma recentGames_expected:
  assumes "list_all (\<lambda>e. \<not> nullish e) xs"
  shows "mapM player_game xs = Inr (map (\<lambda>e. JObj (copyFields e [
                  (''date'', [Key ''gameDate'']),
                  (''opponent'', [Key ''opponent'', Key ''displayName'']),
                  (''result'', [Key ''gameResult'']),
                  (''stats'', [Key ''stats''])])) xs)"
  using assms by (intro mapM_map player_game_expected) (simp add: list_all_iff)

lemma player_output_steps:
  assumes "\<not> nullish data"
    and k: "objectFrom ''abbreviation'' ''displayValue''
           (orElse (optPath data [Key ''statistics'', Key ''splits'', Key ''categories'', Idx0,
              Key ''stats'']) (JArr [])) = Inr (JObj kvs)"
    and g: "mapM player_game
           (take 5 (objectValues (orElse (optPath data [Key ''gameLog'', Key ''events''])
              (JObj [])))) = Inr gs"
  shows "player_output playerId now data = Inr (JObj [(''output'', JObj (
             (''playerId'', JStr playerId) #
             copyFields data [(''name'', [Key ''news'', Key ''header''])] @
             [(''stats'', JObj kvs),
              (''recentGames'', JArr gs)] @
             copyFields data [(''fantasy'', [Key ''fantasy''])] @
             [(''fetchedAt'', JStr now)]))])"
  unfolding player_output_def dotOpt_path[OF assms(1)] dot_path[OF assms(1)] bind_Inr Let_def
      k g
  by (simp add: object_def copyFields_def del: optPath.simps)

lemma player_output_expected:
  assumes "\<not> nullish data"
    and "listWhere (keyed ''abbreviation'')
           (orElse (optPath data [Key ''statistics'', Key ''splits'', Key ''categories'', Idx0,
              Key ''stats'']) (JArr []))"
    and "list_all (\<lambda>e. \<not> nullish e)
           (take 5 (objectValues (orElse (optPath data [Key ''gameLog'', Key ''events''])
              (JObj []))))"
  shows "\<exists>statMap. player_output playerId now data = Inr (JObj [(''output'', JObj (
             (''playerId'', JStr playerId) #
             copyFields data [(''name'', [Key ''news'', Key ''header''])] @
             [(''stats'', JObj statMap),
              (''recentGames'', JArr (map (\<lambda>e. JObj (copyFields e [
                  (''date'', [Key ''gameDate'']),
                  (''opponent'', [Key ''opponent'', Key ''displayName'']),
                  (''result'', [Key ''gameResult'']),
                  (''stats'', [Key ''stats''])]))
                (take 5 (objectValues
                   (orElse (optPath data [Key ''gameLog'', Key ''events'']) (JObj []))))))] @
             copyFields data [(''fantasy'', [Key ''fantasy''])] @
             [(''fetchedAt'', JStr now)]))]) \<and>
           (\<forall>k. k \<noteq> ''__proto__'' \<longrightarrow> member (JObj statMap) (Key k) =
              lastKeyed ''abbreviation'' ''displayValue'' k
                 (listOf (orElse (optPath data [Key ''statistics'', Key ''splits'',
                    Key ''categories'', Idx0, Key ''stats'']) (JArr []))))"
proof -
  let ?s = "orElse (optPath data [Key ''statistics'', Key ''splits'', Key ''categories'', Idx0,
              Key ''stats'']) (JArr [])"
  let ?ev = "orElse (optPath data [Key ''gameLog'', Key ''events'']) (JObj [])"
  have "\<not> nullish ?s" by (simp add: orElse_not_nullish)
  from objectFrom_expected[OF assms(2) this, of "''displayValue''"] obtain kvs where
    kl: "objectFrom ''abbreviation'' ''displayValue'' ?s = Inr (JObj kvs) \<and>
         (\<forall>k. k \<noteq> ''__proto__'' \<longrightarrow> member (JObj kvs) (Key k) =
              lastKeyed ''abbreviation'' ''displayValue'' k (listOf ?s))"
    ..
  note k = kl[THEN conjunct1] and l = kl[THEN conjunct2]
  note g = recentGames_expected[OF assms(3)]
  note o = player_output_steps[OF assms(1) k g, of playerId now]
  show ?thesis
    by (rule exI[of _ kvs], rule conjI, rule o, rule l)
qed

lemma extractTeam_expected:
  assumes "\<not> nullish data" and "\<not> nullish (member data (Key ''team''))"
    and "\<not> nullish roster" and "readableList (member roster (Key ''athletes''))"
  shows "extractTeam data roster = Inr (JObj (
           copyFields data [
             (''name'', [Key ''team'', Key ''displayName'']),
             (''abbreviation'', [Key ''team'', Key ''abbreviation'']),
             (''color'', [Key ''team'', Key ''color''])] @
           [(''rosterSize'', JNum (int (length (listOf (member roster (Key ''athletes'')))))),
            (''keyPlayers'', JArr (map (\<lambda>a. JObj (copyFields a [
                (''name'', [Key ''displayName'']),
                (''position'', [Key ''position'', Key ''abbreviation''])]))
              (take 5 (listOf (member roster (Key ''athletes''))))))]))"
proof -
  let ?a = "member roster (Key ''athletes'')"
  have lw: "listWhere (\<lambda>x. \<not> nullish x) ?a"
    using assms(4) by (simp add: readableList_listWhere)
  from optFirst5Map_expected[OF lw, of keyPlayer "\<lambda>a. JObj (copyFields a [
                (''name'', [Key ''displayName'']),
                (''position'', [Key ''position'', Key ''abbreviation''])])"] keyPlayer_expected
  obtain m where m: "optFirst5Map keyPlayer ?a = Inr m"
    "orElse m (JArr []) = JArr (map (\<lambda>a. JObj (copyFields a [
                (''name'', [Key ''displayName'']),
                (''position'', [Key ''position'', Key ''abbreviation''])]))
              (take 5 (listOf ?a)))"
    by blast
  have n: "orElse (optPath ?a [Key ''length'']) (JNum 0) = JNum (int (length (listOf ?a)))"
    by (rule length_expected[OF lw])
  have p: "dotOpt roster ''athletes'' [Key ''length''] = Inr (optPath ?a [Key ''length''])"
    using assms(3) by (simp add: dotOpt_def dot_def bind_Inr)
  show ?thesis
    unfolding extractTeam_def p bind_Inr n
    using assms(1,2,3)
    by (simp add: dot_def bind_Inr m object_def copyFields_def del: optPath.simps)
      (simp add: assms(1,2))
qed

lemma compare_output_expected:
  assumes "extractTeam v0 v2 = Inr t1" and "extractTeam v1 v3 = Inr t2"
  shows "compare_output now [v0, v1, v2, v3] = Inr (JObj [(''output'', JObj [
           (''team1'', t1), (''team2'', t2), (''fetchedAt'', JStr now)])])"
  using assms by (simp add: compare_output_def elem_def object_def)

lemma report_output_expected:
  assumes "\<not> nullish scoreboard"
    and "listWhere readableEvent (member scoreboard (Key ''events''))"
    and "\<not> nullish news" and "readableList (member news (Key ''articles''))"
  shows "report_output now [scoreboard, news] = Inr (JObj [(''output'', JObj (
           copyFields scoreboard [
             (''date'', [Key ''day'', Key ''date'']),
             (''season'', [Key ''season''])] @
           [(''gamesCount'', JNum (int (length (listOf (member scoreboard (Key ''events'')))))),
            (''games'', JArr (map (\<lambda>e. JObj (
               copyFields e [
                 (''id'', [Key ''id'']),
                 (''name'', [Key ''name'']),
                 (''shortName'', [Key ''shortName'']),
                 (''date'', [Key ''date'']),
                 (''venue'', [Key ''competitions'', Idx0, Key ''venue'', Key ''fullName'']),
                 (''status'', [Key ''status'', Key ''type'', Key ''description'']),
                 (''period'', [Key ''status'', Key ''period'']),
                 (''clock'', [Key ''status'', Key ''displayClock''])] @
               [(''homeTeam'', JObj (copyFields (firstWith ''homeAway'' ''home'' (competitorsOf e)) [
                   (''name'', [Key ''team'', Key ''displayName'']),
                   (''abbreviation'', [Key ''team'', Key ''abbreviation'']),
                   (''score'', [Key ''score'']),
                   (''record'', [Key ''records'', Idx0, Key ''summary''])])),
                (''awayTeam'', JObj (copyFields (firstWith ''homeAway'' ''away'' (competitorsOf e)) [
                   (''name'', [Key ''team'', Key ''displayName'']),
                   (''abbreviation'', [Key ''team'', Key ''abbreviation'']),
                   (''score'', [Key ''score'']),
                   (''record'', [Key ''records'', Idx0, Key ''summary''])]))]))
              (listOf (member scoreboard (Key ''events''))))),
            (''newsCount'', JNum (int (length (listOf (member news (Key ''articles'')))))),
            (''news'', JArr (map (\<lambda>a. JObj (copyFields a [
                (''headline'', [Key ''headline'']),
                (''description'', [Key ''description'']),
                (''published'', [Key ''published'']),
                (''link'', [Key ''links'', Key ''web'', Key ''href''])]))
              (listOf (member news (Key ''articles''))))),
            (''fetchedAt'', JStr now),
            (''dataSource'', JStr ''ESPN API (live)'')]))])"
proof -
  from optMap_expected[OF assms(2), of report_game, OF report_game_expected]
  obtain m where m: "optMap report_game (member scoreboard (Key ''events'')) = Inr m"
    "orElse m (JArr []) = JArr (map (\<lambda>e. JObj (
               copyFields e [
                 (''id'', [Key ''id'']),
                 (''name'', [Key ''name'']),
                 (''shortName'', [Key ''shortName'']),
                 (''date'', [Key ''date'']),
                 (''venue'', [Key ''competitions'', Idx0, Key ''venue'', Key ''fullName'']),
                 (''status'', [Key ''status'', Key ''type'', Key ''description'']),
                 (''period'', [Key ''status'', Key ''period'']),
                 (''clock'', [Key ''status'', Key ''displayClock''])] @
               [(''homeTeam'', JObj (copyFields (firstWith ''homeAway'' ''home'' (competitorsOf e)) [
                   (''name'', [Key ''team'', Key ''displayName'']),
                   (''abbreviation'', [Key ''team'', Key ''abbreviation'']),
                   (''score'', [Key ''score'']),
                   (''record'', [Key ''records'', Idx0, Key ''summary''])])),
                (''awayTeam'', JObj (copyFields (firstWith ''homeAway'' ''away'' (competitorsOf e)) [
                   (''name'', [Key ''team'', Key ''displayName'']),
                   (''abbreviation'', [Key ''team'', Key ''abbreviation'']),
                   (''score'', [Key ''score'']),
                   (''record'', [Key ''records'', Idx0, Key ''summary''])]))]))
              (listOf (member scoreboard (Key ''events''))))"
    by blast
  have lw: "listWhere (\<lambda>x. \<not> nullish x) (member news (Key ''articles''))"
    using assms(4) by (simp add: readableList_listWhere)
  from optMap_expected[OF lw, of report_headline "\<lambda>a. JObj (copyFields a [
                (''headline'', [Key ''headline'']),
                (''description'', [Key ''description'']),
                (''published'', [Key ''published'']),
                (''link'', [Key ''links'', Key ''web'', Key ''href''])])"]
    report_headline_expected
  obtain h where h: "optMap report_headline (member news (Key ''articles'')) = Inr h"
    "orElse h (JArr []) = JArr (map (\<lambda>a. JObj (copyFields a [
                (''headline'', [Key ''headline'']),
                (''description'', [Key ''description'']),
                (''published'', [Key ''published'']),
                (''link'', [Key ''links'', Key ''web'', Key ''href''])]))
              (listOf (member news (Key ''articles''))))"
    by blast
  show ?thesis
    unfolding report_output_def Let_def elem_def
    using assms(1,3)
    by (simp add: dotOpt_path dot_def bind_Inr m h object_def copyFields_def
        del: optPath.simps) (simp add: assms(1))
qed

lemma overview_output_p0_expected:
  assumes "\<not> nullish scoreboard" and "readableList (member scoreboard (Key ''events''))"
    and "\<not> nullish news" and "readableList (member news (Key ''articles''))"
  shows "overview_output_p0 today now [scoreboard, news] = Inr (JObj [(''output'', JObj [
           (''date'', orElse (optPath scoreboard [Key ''day'', Key ''date'']) (JStr today)),
           (''gamesCount'', JNum (int (length (listOf (member scoreboard (Key ''events'')))))),
           (''games'', JArr (take 5 (map (\<lambda>e. JObj (copyFields e [
               (''matchup'', [Key ''shortName'']),
               (''status'', [Key ''status'', Key ''type'', Key ''shortDetail'']),
               (''venue'', [Key ''competitions'', Idx0, Key ''venue'', Key ''fullName''])]))
             (listOf (member scoreboard (Key ''events'')))))),
           (''latestNews'', JArr (map (\<lambda>a. optPath a [Key ''headline''])
             (listOf (member news (Key ''articles''))))),
           (''fetchedAt'', JStr now),
           (''dataSource'', JStr ''ESPN NBA API (live)'')])])"
proof -
  have lw: "listWhere (\<lambda>x. \<not> nullish x) (member scoreboard (Key ''events''))"
    using assms(2) by (simp add: readableList_listWhere)
  from optMap_expected[OF lw, of overview_game_p0 "\<lambda>e. JObj (copyFields e [
               (''matchup'', [Key ''shortName'']),
               (''status'', [Key ''status'', Key ''type'', Key ''shortDetail'']),
               (''venue'', [Key ''competitions'', Idx0, Key ''venue'', Key ''fullName''])])"]
    overview_game_p0_expected
  obtain m where m: "optMap overview_game_p0 (member scoreboard (Key ''events'')) = Inr m"
    "orElse m (JArr []) = JArr (map (\<lambda>e. JObj (copyFields e [
               (''matchup'', [Key ''shortName'']),
               (''status'', [Key ''status'', Key ''type'', Key ''shortDetail'']),
               (''venue'', [Key ''competitions'', Idx0, Key ''venue'', Key ''fullName''])]))
             (listOf (member scoreboard (Key ''events''))))"
    by blast
  have la: "listWhere (\<lambda>x. \<not> nullish x) (member news (Key ''articles''))"
    using assms(4) by (simp add: readableList_listWhere)
  from optMap_expected[OF la, of "\<lambda>a. dot a ''headline''" "\<lambda>a. optPath a [Key ''headline'']"]
    headline_expected
  obtain h where h: "optMap (\<lambda>a. dot a ''headline'') (member news (Key ''articles'')) = Inr h"
    "orElse h (JArr []) = JArr (map (\<lambda>a. optPath a [Key ''headline''])
             (listOf (member news (Key ''articles''))))"
    by blast
  have d: "dot scoreboard ''events'' = Inr (member scoreboard (Key ''events''))"
    "dot news ''articles'' = Inr (member news (Key ''articles''))"
    using assms(1,3) by (simp_all add: dot_def)
  have l: "dot (JArr xs) ''length'' = Inr (JNum (int (length xs)))" for xs
    by (simp add: dot_def)
  show ?thesis
    unfolding overview_output_p0_def Let_def elem_def
    using assms(1,3)
    by (simp add: dotOpt_path d l bind_Inr m h object_def slice0_def take_map
        del: optPath.simps)
qed

lemma scores_output_expected:
  assumes "\<not> nullish data" and "listWhere readableEvent (member data (Key ''events''))"
  shows "scores_output now data = Inr (JObj [(''output'', JObj (
           copyFields data [(''date'', [Key ''day'', Key ''date''])] @
           [(''games'', JArr (map (\<lambda>e. JObj (
               copyFields e [
                 (''id'', [Key ''id'']),
                 (''matchup'', [Key ''shortName'']),
                 (''status'', [Key ''status'', Key ''type'', Key ''shortDetail'']),
                 (''statusState'', [Key ''status'', Key ''type'', Key ''state''])] @
               copyFields (firstWith ''homeAway'' ''home'' (competitorsOf e)) [
                 (''homeTeam'', [Key ''team'', Key ''abbreviation'']),
                 (''homeScore'', [Key ''score''])] @
               copyFields (firstWith ''homeAway'' ''away'' (competitorsOf e)) [
                 (''awayTeam'', [Key ''team'', Key ''abbreviation'']),
                 (''awayScore'', [Key ''score''])] @
               copyFields e [
                 (''venue'', [Key ''competitions'', Idx0, Key ''venue'', Key ''fullName'']),
                 (''broadcast'',
                    [Key ''competitions'', Idx0, Key ''broadcasts'', Idx0, Key ''names'', Idx0])]))
              (listOf (member data (Key ''events''))))),
            (''fetchedAt'', JStr now)]))])"
proof -
  from optMap_expected[OF assms(2), of scores_game, OF scores_game_expected]
  obtain m where m: "optMap scores_game (member data (Key ''events'')) = Inr m"
    "orElse m (JArr []) = JArr (map (\<lambda>e. JObj (
               copyFields e [
                 (''id'', [Key ''id'']),
                 (''matchup'', [Key ''shortName'']),
                 (''status'', [Key ''status'', Key ''type'', Key ''shortDetail'']),
                 (''statusState'', [Key ''status'', Key ''type'', Key ''state''])] @
               copyFields (firstWith ''homeAway'' ''home'' (competitorsOf e)) [
                 (''homeTeam'', [Key ''team'', Key ''abbreviation'']),
                 (''homeScore'', [Key ''score''])] @
               copyFields (firstWith ''homeAway'' ''away'' (competitorsOf e)) [
                 (''awayTeam'', [Key ''team'', Key ''abbreviation'']),
                 (''awayScore'', [Key ''score''])] @
               copyFields e [
                 (''venue'', [Key ''competitions'', Idx0, Key ''venue'', Key ''fullName'']),
                 (''broadcast'',
                    [Key ''competitions'', Idx0, Key ''broadcasts'', Idx0, Key ''names'', Idx0])]))
              (listOf (member data (Key ''events''))))"
    by blast
  show ?thesis
    unfolding scores_output_def dotOpt_path[OF assms(1)]
    using assms(1)
    by (simp add: dot_def bind_Inr m object_def copyFields_def del: optPath.simps)
qed

lemma teamInfo_member:
  assumes "\<not> nullish roster" and "k \<noteq> ''length''"
  shows "dot (orElse (member roster (Key ''team'')) (JObj [])) k =
         Inr (optPath roster [Key ''team'', Key k])"
  using assms by (cases "member roster (Key ''team'')") (auto simp: orElse_def dot_def)

lemma team_output_p0_expected:
  assumes "\<not> nullish roster" and "readableList (member roster (Key ''athletes''))"
    and "\<not> nullish schedule" and "readableList (member schedule (Key ''events''))"
  shows "team_output_p0 teamId now [roster, schedule] = Inr (JObj [(''output'', JObj [
           (''team'', JObj ((''id'', idValue teamId) # copyFields roster [
              (''name'', [Key ''team'', Key ''displayName'']),
              (''abbreviation'', [Key ''team'', Key ''abbreviation'']),
              (''location'', [Key ''team'', Key ''location'']),
              (''color'', [Key ''team'', Key ''color'']),
              (''logo'', [Key ''team'', Key ''logo''])])),
           (''rosterSize'', JNum (int (length (listOf (member roster (Key ''athletes'')))))),
           (''roster'', JArr (map (\<lambda>p. JObj (copyFields p [
              (''name'', [Key ''displayName'']),
              (''jersey'', [Key ''jersey'']),
              (''position'', [Key ''position'', Key ''abbreviation'']),
              (''height'', [Key ''displayHeight'']),
              (''weight'', [Key ''displayWeight''])]))
             (listOf (member roster (Key ''athletes''))))),
           (''recentGames'', JArr (map (\<lambda>e. JObj (copyFields e [
              (''matchup'', [Key ''shortName'']),
              (''date'', [Key ''date'']),
              (''status'', [Key ''status'', Key ''type'', Key ''shortDetail''])]))
             (take 5 (listOf (member schedule (Key ''events'')))))),
           (''fetchedAt'', JStr now)])])"
proof -
  have la: "listWhere (\<lambda>x. \<not> nullish x) (member roster (Key ''athletes''))"
    using assms(2) by (simp add: readableList_listWhere)
  from optMap_expected[OF la, of team_player_p0 "\<lambda>p. JObj (copyFields p [
              (''name'', [Key ''displayName'']),
              (''jersey'', [Key ''jersey'']),
              (''position'', [Key ''position'', Key ''abbreviation'']),
              (''height'', [Key ''displayHeight'']),
              (''weight'', [Key ''displayWeight''])])"] team_player_p0_expected
  obtain m where m: "optMap team_player_p0 (member roster (Key ''athletes'')) = Inr m"
    "orElse m (JArr []) = JArr (map (\<lambda>p. JObj (copyFields p [
              (''name'', [Key ''displayName'']),
              (''jersey'', [Key ''jersey'']),
              (''position'', [Key ''position'', Key ''abbreviation'']),
              (''height'', [Key ''displayHeight'']),
              (''weight'', [Key ''displayWeight''])]))
             (listOf (member roster (Key ''athletes''))))"
    by blast
  have le: "listWhere (\<lambda>x. \<not> nullish x) (member schedule (Key ''events''))"
    using assms(4) by (simp add: readableList_listWhere)
  from optFirst5Map_expected[OF le, of recentGame "\<lambda>e. JObj (copyFields e [
              (''matchup'', [Key ''shortName'']),
              (''date'', [Key ''date'']),
              (''status'', [Key ''status'', Key ''type'', Key ''shortDetail''])])"]
    recentGame_expected
  obtain r where r: "optFirst5Map recentGame (member schedule (Key ''events'')) = Inr r"
    "orElse r (JArr []) = JArr (map (\<lambda>e. JObj (copyFields e [
              (''matchup'', [Key ''shortName'']),
              (''date'', [Key ''date'']),
              (''status'', [Key ''status'', Key ''type'', Key ''shortDetail''])]))
             (take 5 (listOf (member schedule (Key ''events'')))))"
    by blast
  have d: "dot roster ''team'' = Inr (member roster (Key ''team''))"
    "dot roster ''athletes'' = Inr (member roster (Key ''athletes''))"
    "dot schedule ''events'' = Inr (member schedule (Key ''events''))"
    using assms(1,3) by (simp_all add: dot_def)
  show ?thesis
    unfolding team_output_p0_def Let_def elem_def
    by (simp add: d bind_Inr m r teamInfo_member[OF assms(1)] object_def copyFields_def
        del: optPath.simps) (simp add: dot_def)
qed

lemma leaders_output_expected:
  assumes "\<not> nullish data" and "listWhere readableAthlete (member data (Key ''athletes''))"
  shows "leaders_output category now data = Inr (JObj [(''output'', JObj [
           (''category'', JStr category),
           (''season'', JStr ''2025-26''),
           (''leaders'', JArr (map (\<lambda>(i, a). JObj (
              (''rank'', JNum (int i + 1)) #
              copyFields a [
                (''name'', [Key ''athlete'', Key ''displayName'']),
                (''team'', [Key ''athlete'', Key ''teamShortName'']),
                (''position'', [Key ''athlete'', Key ''position'', Key ''abbreviation''])] @
              map (\<lambda>(k, n). (k, optPath
                     (firstWith ''name'' n
                        (orElse (optPath a [Key ''categories'', Idx0, Key ''stats'']) (JArr [])))
                     [Key ''value'']))
                [(''gamesPlayed'', ''gamesPlayed''), (''points'', ''avgPoints''),
                 (''rebounds'', ''avgRebounds''), (''assists'', ''avgAssists''),
                 (''steals'', ''avgSteals''), (''blocks'', ''avgBlocks'')]))
             (enumerate 0 (listOf (member data (Key ''athletes'')))))),
           (''fetchedAt'', JStr now)])])"
proof -
  from optMapIdx_expected[OF assms(2), of leader_entry, OF leader_entry_expected]
  obtain m where m: "optMapIdx leader_entry (member data (Key ''athletes'')) = Inr m"
    "orElse m (JArr []) = JArr (map (\<lambda>(i, a). JObj (
              (''rank'', JNum (int i + 1)) #
              copyFields a [
                (''name'', [Key ''athlete'', Key ''displayName'']),
                (''team'', [Key ''athlete'', Key ''teamShortName'']),
                (''position'', [Key ''athlete'', Key ''position'', Key ''abbreviation''])] @
              map (\<lambda>(k, n). (k, optPath
                     (firstWith ''name'' n
                        (orElse (optPath a [Key ''categories'', Idx0, Key ''stats'']) (JArr [])))
                     [Key ''value'']))
                [(''gamesPlayed'', ''gamesPlayed''), (''points'', ''avgPoints''),
                 (''rebounds'', ''avgRebounds''), (''assists'', ''avgAssists''),
                 (''steals'', ''avgSteals''), (''blocks'', ''avgBlocks'')]))
             (enumerate 0 (listOf (member data (Key ''athletes'')))))"
    by blast
  have d: "dot data ''athletes'' = Inr (member data (Key ''athletes''))"
    using assms(1) by (simp add: dot_def)
  show ?thesis
    unfolding leaders_output_def Let_def d bind_Inr m
    by (simp add: object_def)
qed

lemma properties_append:
  "properties (xs @ ys) =
     (case properties xs of Inl e \<Rightarrow> Inl e
      | Inr a \<Rightarrow> (case properties ys of Inl e \<Rightarrow> Inl e | Inr b \<Rightarrow> Inr (a @ b)))"
  by (induction xs rule: properties.induct) (auto split: sum.splits)

lemma matchup_output_roles:
  assumes "extractTeamInfo v0 = Inr (JObj hi)" and "extractTeamInfo v1 = Inr (JObj ai)"
    and "extractRecord v2 = Inr hrec" and "extractRecord v3 = Inr arec"
  shows "matchup_output homeTeam awayTeam generatedAt now [v0, v1, v2, v3] =
         Inr (JObj [(''output'', JObj [
           (''matchup'', JStr (toUpperCase awayTeam @ '' @ '' @ toUpperCase homeTeam)),
           (''homeTeam'', JObj (hi @ [(''record'', hrec)])),
           (''awayTeam'', JObj (ai @ [(''record'', arec)])),
           (''analysis'', JObj [
              (''note'', JStr ''For betting odds and advanced analytics, consider additional data sources''),
              (''generatedAt'', JStr generatedAt)]),
           (''fetchedAt'', JStr now)])])"
proof -
  have h: "properties (teamInfoFields v0) = Inr hi"
    using assms(1) by (simp add: extractTeamInfo_def object_def split: sum.splits)
  have a: "properties (teamInfoFields v1) = Inr ai"
    using assms(2) by (simp add: extractTeamInfo_def object_def split: sum.splits)
  show ?thesis
    unfolding matchup_output_def Let_def elem_def
    by (simp add: object_def properties_append h a assms(3,4))
qed

lemma extractTeamInfo_expected:
  assumes "\<not> nullish roster" and "readableList (member roster (Key ''athletes''))"
  shows "extractTeamInfo roster = Inr (JObj (
           copyFields roster [
             (''name'', [Key ''team'', Key ''displayName'']),
             (''abbreviation'', [Key ''team'', Key ''abbreviation''])] @
           [(''rosterSize'', JNum (int (length (listOf (member roster (Key ''athletes'')))))),
            (''starters'', JArr (map (\<lambda>p. JObj (copyFields p [
                (''name'', [Key ''displayName'']),
                (''position'', [Key ''position'', Key ''abbreviation'']),
                (''jersey'', [Key ''jersey''])]))
              (take 5 (listOf (member roster (Key ''athletes''))))))]))"
  using teamInfo_expected[OF assms, of "[]"] by (simp add: extractTeamInfo_def object_def)

lemma draftText_expected:
  assumes "toStringJS (optPath draft [Key ''year'']) = Inr y"
    and "toStringJS (optPath draft [Key ''round'']) = Inr r"
    and "toStringJS (optPath draft [Key ''selection'']) = Inr s"
  shows "draftText draft =
         Inr (if truthy draft then JStr (y @ '' Round '' @ r @ '' Pick '' @ s) else JNull)"
proof (cases "truthy draft")
  case True
  then have "\<not> nullish draft" by (cases draft) auto
  then show ?thesis
    using assms True by (simp add: draftText_def bind_Inr)
qed (simp add: draftText_def)

lemma athlete_path:
  assumes "\<not> nullish data" and "k \<noteq> ''length''"
  shows "optPath (orElse (member data (Key ''athlete'')) (JObj [])) (Key k # p) =
         optPath data (Key ''athlete'' # Key k # p)"
  using assms orElse_path[of k "member data (Key ''athlete'')" p]
  by simp

lemma player_output_p0_steps:
  assumes n: "\<not> nullish data"
    and k1: "objectFrom ''name'' ''value''
       (orElse (optPath data [Key ''athlete'', Key ''statsSummary'', Key ''statistics'', Idx0,
          Key ''stats'']) (JArr [])) = Inr season"
    and k2: "objectFrom ''name'' ''value''
       (orElse (optPath data [Key ''athlete'', Key ''career'', Key ''stats'', Idx0,
          Key ''categories'', Idx0, Key ''stats'']) (JArr [])) = Inr career"
    and d: "draftText (optPath data [Key ''athlete'', Key ''draft'']) = Inr draft"
  shows "player_output_p0 now data = Inr (JObj [(''output'', JObj [
           (''player'', JObj (
              copyFields data [
                (''id'', [Key ''athlete'', Key ''id'']),
                (''name'', [Key ''athlete'', Key ''displayName'']),
                (''firstName'', [Key ''athlete'', Key ''firstName'']),
                (''lastName'', [Key ''athlete'', Key ''lastName'']),
                (''jersey'', [Key ''athlete'', Key ''jersey'']),
                (''position'', [Key ''athlete'', Key ''position'', Key ''name'']),
                (''team'', [Key ''athlete'', Key ''team'', Key ''displayName'']),
                (''teamId'', [Key ''athlete'', Key ''team'', Key ''id'']),
                (''height'', [Key ''athlete'', Key ''displayHeight'']),
                (''weight'', [Key ''athlete'', Key ''displayWeight'']),
                (''age'', [Key ''athlete'', Key ''age'']),
                (''birthDate'', [Key ''athlete'', Key ''dateOfBirth'']),
                (''birthPlace'', [Key ''athlete'', Key ''birthPlace'', Key ''city'']),
                (''college'', [Key ''athlete'', Key ''college'', Key ''name''])] @
              [(''draft'', draft)] @
              copyFields data [
                (''experience'', [Key ''athlete'', Key ''experience'', Key ''years'']),
                (''headshot'', [Key ''athlete'', Key ''headshot'', Key ''href''])])),
           (''seasonStats'', season),
           (''careerStats'', career),
           (''fetchedAt'', JStr now)])])"
proof -
  let ?a = "orElse (member data (Key ''athlete'')) (JObj [])"
  have a: "\<not> nullish ?a" by (simp add: orElse_not_nullish)
  have da: "dot data ''athlete'' = Inr (member data (Key ''athlete''))"
    using n by (simp add: dot_def)
  show ?thesis
    unfolding player_output_p0_def da bind_Inr Let_def dotOpt_path[OF a] dot_path[OF a]
    using n
    by (simp add: athlete_path[OF n] k1 k2 d bind_Inr object_def copyFields_def
        del: optPath.simps)
qed

lemma player_output_p0_expected:
  assumes "\<not> nullish data"
    and "listWhere (keyed ''name'')
       (orElse (optPath data [Key ''athlete'', Key ''statsSummary'', Key ''statistics'', Idx0,
          Key ''stats'']) (JArr []))"
    and "listWhere (keyed ''name'')
       (orElse (optPath data [Key ''athlete'', Key ''career'', Key ''stats'', Idx0,
          Key ''categories'', Idx0, Key ''stats'']) (JArr []))"
    and "toStringJS (optPath data [Key ''athlete'', Key ''draft'', Key ''year'']) = Inr y"
    and "toStringJS (optPath data [Key ''athlete'', Key ''draft'', Key ''round'']) = Inr r"
    and "toStringJS (optPath data [Key ''athlete'', Key ''draft'', Key ''selection'']) = Inr s"
  shows "\<exists>season career. player_output_p0 now data = Inr (JObj [(''output'', JObj [
           (''player'', JObj (
              copyFields data [
                (''id'', [Key ''athlete'', Key ''id'']),
                (''name'', [Key ''athlete'', Key ''displayName'']),
                (''firstName'', [Key ''athlete'', Key ''firstName'']),
                (''lastName'', [Key ''athlete'', Key ''lastName'']),
                (''jersey'', [Key ''athlete'', Key ''jersey'']),
                (''position'', [Key ''athlete'', Key ''position'', Key ''name'']),
                (''team'', [Key ''athlete'', Key ''team'', Key ''displayName'']),
                (''teamId'', [Key ''athlete'', Key ''team'', Key ''id'']),
                (''height'', [Key ''athlete'', Key ''displayHeight'']),
                (''weight'', [Key ''athlete'', Key ''displayWeight'']),
                (''age'', [Key ''athlete'', Key ''age'']),
                (''birthDate'', [Key ''athlete'', Key ''dateOfBirth'']),
                (''birthPlace'', [Key ''athlete'', Key ''birthPlace'', Key ''city'']),
                (''college'', [Key ''athlete'', Key ''college'', Key ''name''])] @
              [(''draft'',
                 if truthy (optPath data [Key ''athlete'', Key ''draft''])
                 then JStr (y @ '' Round '' @ r @ '' Pick '' @ s) else JNull)] @
              copyFields data [
                (''experience'', [Key ''athlete'', Key ''experience'', Key ''years'']),
                (''headshot'', [Key ''athlete'', Key ''headshot'', Key ''href''])])),
           (''seasonStats'', JObj season),
           (''careerStats'', JObj career),
           (''fetchedAt'', JStr now)])]) \<and>
         (\<forall>k. k \<noteq> ''__proto__'' \<longrightarrow> member (JObj season) (Key k) =
              lastKeyed ''name'' ''value'' k
               (listOf (orElse (optPath data [Key ''athlete'', Key ''statsSummary'',
                  Key ''statistics'', Idx0, Key ''stats'']) (JArr [])))) \<and>
         (\<forall>k. k \<noteq> ''__proto__'' \<longrightarrow> member (JObj career) (Key k) =
              lastKeyed ''name'' ''value'' k
               (listOf (orElse (optPath data [Key ''athlete'', Key ''career'', Key ''stats'', Idx0,
                  Key ''categories'', Idx0, Key ''stats'']) (JArr []))))"
proof -
  let ?s = "orElse (optPath data [Key ''athlete'', Key ''statsSummary'', Key ''statistics'', Idx0,
          Key ''stats'']) (JArr [])"
  let ?c = "orElse (optPath data [Key ''athlete'', Key ''career'', Key ''stats'', Idx0,
          Key ''categories'', Idx0, Key ''stats'']) (JArr [])"
  let ?d = "optPath data [Key ''athlete'', Key ''draft'']"
  have "\<not> nullish ?s" by (simp add: orElse_not_nullish)
  from objectFrom_expected[OF assms(2) this, of "''value''"] obtain season where
    sl: "objectFrom ''name'' ''value'' ?s = Inr (JObj season) \<and>
         (\<forall>k. k \<noteq> ''__proto__'' \<longrightarrow> member (JObj season) (Key k) =
              lastKeyed ''name'' ''value'' k (listOf ?s))"
    ..
  have "\<not> nullish ?c" by (simp add: orElse_not_nullish)
  from objectFrom_expected[OF assms(3) this, of "''value''"] obtain career where
    cl: "objectFrom ''name'' ''value'' ?c = Inr (JObj career) \<and>
         (\<forall>k. k \<noteq> ''__proto__'' \<longrightarrow> member (JObj career) (Key k) =
              lastKeyed ''name'' ''value'' k (listOf ?c))"
    ..
  have p: "optPath ?d [Key f] = optPath data [Key ''athlete'', Key ''draft'', Key f]" for f
    using optPath_append[of data "[Key ''athlete'', Key ''draft'']" "[Key f]"] by simp
  have d: "draftText ?d =
      Inr (if truthy ?d then JStr (y @ '' Round '' @ r @ '' Pick '' @ s) else JNull)"
    by (rule draftText_expected) (simp_all only: p assms(4,5,6))
  note o = player_output_p0_steps[OF assms(1) sl[THEN conjunct1] cl[THEN conjunct1] d, of now]
  show ?thesis
    by (rule exI[of _ season], rule exI[of _ career], intro conjI, rule o,
        rule sl[THEN conjunct2], rule cl[THEN conjunct2])
qed

text \<open>
  C4, as amended. For a payload that can be read, every normalizer returns exactly the
  record stated below, for the overview, games, team, player, compare and report
  entrypoints of \<^verbatim>\<open>index.ts\<close> and the overview, scores, team, leaders, player and
  matchup entrypoints of \<^verbatim>\<open>part_000\<close>. Each field of a record is of one of four
  kinds. A field that copies an upstream field holds what the payload has at the path,
  so it is absent (\<^verbatim>\<open>undefined\<close>) when the payload has nothing there, and is never a
  default such as 0 or the empty string. A field derived from a list takes an absent
  list for the empty list: the list field is \<^verbatim>\<open>[]\<close> and the count is 0 (\<open>gamesCount\<close>,
  \<open>games\<close>, \<open>rosterCount\<close>, \<open>rosterSize\<close>, \<open>roster\<close>, \<open>keyPlayers\<close>, \<open>starters\<close>,
  \<open>recentGames\<close>, \<open>newsCount\<close>, \<open>news\<close>, \<open>latestNews\<close>, \<open>leaders\<close>, and the \<open>wins\<close>,
  \<open>losses\<close> and \<open>gamesPlayed\<close> of a record); a statistics map of a player holds, under
  every key other than \<^verbatim>\<open>__proto__\<close>, the value of the last entry whose key prints as
  that key, so it has no such entry when the list is absent. Two fields have a default
  of their own: the date of the \<^verbatim>\<open>part_000\<close> overview is today's date when the
  scoreboard has none, and the \<open>draft\<close> of a player is \<^verbatim>\<open>null\<close> when the athlete has
  none. The other fields are constants and inputs of the call (\<open>league\<close>, the \<open>season\<close>
  of the leaders, \<open>dataSource\<close>, the \<open>analysis\<close> note, \<open>playerId\<close>, \<open>category\<close>, the
  \<open>id\<close> of a \<^verbatim>\<open>part_000\<close> team, the \<open>matchup\<close> title, the \<open>rank\<close> and the clock
  readings). The comparison and the matchup are stated over the summaries and the
  records of their four payloads, which \<^verbatim>\<open>extractTeam\<close>, \<^verbatim>\<open>extractTeamInfo\<close> and
  \<^verbatim>\<open>extractRecord\<close> return as stated. A payload can be read when it is not \<^verbatim>\<open>null\<close>, the entries of the lists
  the normalizer walks are not \<^verbatim>\<open>null\<close> (nor the competitors of an event, nor the
  statistics of a leader), the keys of the statistics entries can be printed and, for
  the team payloads of \<^verbatim>\<open>index.ts\<close>, the \<^verbatim>\<open>team\<close> object is there.
\<close>

theorem absent_fields:
  "(\<not> nullish data \<and>
    readableList (member data (Key ''events'')) \<longrightarrow>
     overview_output now data = Inr (JObj [(''output'', JObj (
       (''league'', JStr ''NBA'') #
       copyFields data [(''season'', [Key ''season''])] @
       [(''gamesCount'', JNum (int (length (listOf (member data (Key ''events'')))))),
        (''games'', JArr (take 5 (map (\<lambda>e. JObj (copyFields e [
            (''name'', [Key ''shortName'']),
            (''status'', [Key ''status'', Key ''type'', Key ''description'']),
            (''date'', [Key ''date''])]))
          (listOf (member data (Key ''events'')))))),
        (''fetchedAt'', JStr now),
        (''dataSource'', JStr ''ESPN API (live)'')]))])) \<and>
   (\<not> nullish data \<and>
    listWhere readableEvent (member data (Key ''events'')) \<longrightarrow>
     games_output now data = Inr (JObj [(''output'', JObj (
       copyFields data [(''date'', [Key ''day'', Key ''date''])] @
       [(''gamesCount'', JNum (int (length (listOf (member data (Key ''events'')))))),
        (''games'', JArr (map (\<lambda>e. JObj (
           copyFields e [
             (''id'', [Key ''id'']),
             (''name'', [Key ''shortName'']),
             (''date'', [Key ''date'']),
             (''venue'', [Key ''competitions'', Idx0, Key ''venue'', Key ''fullName'']),
             (''status'', [Key ''status'', Key ''type'', Key ''description'']),
             (''period'', [Key ''status'', Key ''period'']),
             (''clock'', [Key ''status'', Key ''displayClock''])] @
           [(''homeTeam'', JObj (copyFields (firstWith ''homeAway'' ''home'' (competitorsOf e)) [
               (''name'', [Key ''team'', Key ''displayName'']),
               (''abbreviation'', [Key ''team'', Key ''abbreviation'']),
               (''score'', [Key ''score'']),
               (''winner'', [Key ''winner''])])),
            (''awayTeam'', JObj (copyFields (firstWith ''homeAway'' ''away'' (competitorsOf e)) [
               (''name'', [Key ''team'', Key ''displayName'']),
               (''abbreviation'', [Key ''team'', Key ''abbreviation'']),
               (''score'', [Key ''score'']),
               (''winner'', [Key ''winner''])]))]))
          (listOf (member data (Key ''events''))))),
        (''fetchedAt'', JStr now)]))])) \<and>
   (\<not> nullish teamData \<and>
    \<not> nullish (member teamData (Key ''team'')) \<and>
    \<not> nullish rosterData \<and>
    readableList (member rosterData (Key ''athletes'')) \<longrightarrow>
     team_output now teamData rosterData = Inr (JObj [(''output'', JObj [
       (''team'', JObj (copyFields teamData [
          (''id'', [Key ''team'', Key ''id'']),
          (''name'', [Key ''team'', Key ''displayName'']),
          (''abbreviation'', [Key ''team'', Key ''abbreviation'']),
          (''location'', [Key ''team'', Key ''location'']),
          (''color'', [Key ''team'', Key ''color'']),
          (''logo'', [Key ''team'', Key ''logos'', Idx0, Key ''href''])])),
       (''rosterCount'', JNum (int (length (listOf (member rosterData (Key ''athletes'')))))),
       (''roster'', JArr (take 15 (map (\<lambda>a. JObj (copyFields a [
          (''id'', [Key ''id'']),
          (''name'', [Key ''displayName'']),
          (''jersey'', [Key ''jersey'']),
          (''position'', [Key ''position'', Key ''abbreviation'']),
          (''age'', [Key ''age''])]))
         (listOf (member rosterData (Key ''athletes'')))))),
       (''fetchedAt'', JStr now)])])) \<and>
   (\<not> nullish data \<and>
    listWhere (keyed ''abbreviation'')
      (orElse (optPath data [Key ''statistics'', Key ''splits'', Key ''categories'', Idx0,
         Key ''stats'']) (JArr [])) \<and>
    list_all (\<lambda>e. \<not> nullish e)
      (take 5 (objectValues (orElse (optPath data [Key ''gameLog'', Key ''events''])
         (JObj [])))) \<longrightarrow>
     (\<exists>statMap. player_output playerId now data = Inr (JObj [(''output'', JObj (
         (''playerId'', JStr playerId) #
         copyFields data [(''name'', [Key ''news'', Key ''header''])] @
         [(''stats'', JObj statMap),
          (''recentGames'', JArr (map (\<lambda>e. JObj (copyFields e [
              (''date'', [Key ''gameDate'']),
              (''opponent'', [Key ''opponent'', Key ''displayName'']),
              (''result'', [Key ''gameResult'']),
              (''stats'', [Key ''stats''])]))
            (take 5 (objectValues
               (orElse (optPath data [Key ''gameLog'', Key ''events'']) (JObj []))))))] @
         copyFields data [(''fantasy'', [Key ''fantasy''])] @
         [(''fetchedAt'', JStr now)]))]) \<and>
       (\<forall>k. k \<noteq> ''__proto__'' \<longrightarrow> member (JObj statMap) (Key k) =
          lastKeyed ''abbreviation'' ''displayValue'' k
             (listOf (orElse (optPath data [Key ''statistics'', Key ''splits'',
                Key ''categories'', Idx0, Key ''stats'']) (JArr [])))))) \<and>
   (\<not> nullish data \<and>
    \<not> nullish (member data (Key ''team'')) \<and>
    \<not> nullish roster \<and>
    readableList (member roster (Key ''athletes'')) \<longrightarrow>
     extractTeam data roster = Inr (JObj (
       copyFields data [
         (''name'', [Key ''team'', Key ''displayName'']),
         (''abbreviation'', [Key ''team'', Key ''abbreviation'']),
         (''color'', [Key ''team'', Key ''color''])] @
       [(''rosterSize'', JNum (int (length (listOf (member roster (Key ''athletes'')))))),
        (''keyPlayers'', JArr (map (\<lambda>a. JObj (copyFields a [
            (''name'', [Key ''displayName'']),
            (''position'', [Key ''position'', Key ''abbreviation''])]))
          (take 5 (listOf (member roster (Key ''athletes''))))))]))) \<and>
   (extractTeam v0 v2 = Inr t1 \<and>
    extractTeam v1 v3 = Inr t2 \<longrightarrow>
     compare_output now [v0, v1, v2, v3] = Inr (JObj [(''output'', JObj [
       (''team1'', t1), (''team2'', t2), (''fetchedAt'', JStr now)])])) \<and>
   (\<not> nullish scoreboard \<and>
    listWhere readableEvent (member scoreboard (Key ''events'')) \<and>
    \<not> nullish news \<and>
    readableList (member news (Key ''articles'')) \<longrightarrow>
     report_output now [scoreboard, news] = Inr (JObj [(''output'', JObj (
       copyFields scoreboard [
         (''date'', [Key ''day'', Key ''date'']),
         (''season'', [Key ''season''])] @
       [(''gamesCount'', JNum (int (length (listOf (member scoreboard (Key ''events'')))))),
        (''games'', JArr (map (\<lambda>e. JObj (
           copyFields e [
             (''id'', [Key ''id'']),
             (''name'', [Key ''name'']),
             (''shortName'', [Key ''shortName'']),
             (''date'', [Key ''date'']),
             (''venue'', [Key ''competitions'', Idx0, Key ''venue'', Key ''fullName'']),
             (''status'', [Key ''status'', Key ''type'', Key ''description'']),
             (''period'', [Key ''status'', Key ''period'']),
             (''clock'', [Key ''status'', Key ''displayClock''])] @
           [(''homeTeam'', JObj (copyFields (firstWith ''homeAway'' ''home'' (competitorsOf e)) [
               (''name'', [Key ''team'', Key ''displayName'']),
               (''abbreviation'', [Key ''team'', Key ''abbreviation'']),
               (''score'', [Key ''score'']),
               (''record'', [Key ''records'', Idx0, Key ''summary''])])),
            (''awayTeam'', JObj (copyFields (firstWith ''homeAway'' ''away'' (competitorsOf e)) [
               (''name'', [Key ''team'', Key ''displayName'']),
               (''abbreviation'', [Key ''team'', Key ''abbreviation'']),
               (''score'', [Key ''score'']),
               (''record'', [Key ''records'', Idx0, Key ''summary''])]))]))
          (listOf (member scoreboard (Key ''events''))))),
        (''newsCount'', JNum (int (length (listOf (member news (Key ''articles'')))))),
        (''news'', JArr (map (\<lambda>a. JObj (copyFields a [
            (''headline'', [Key ''headline'']),
            (''description'', [Key ''description'']),
            (''published'', [Key ''published'']),
            (''link'', [Key ''links'', Key ''web'', Key ''href''])]))
          (listOf (member news (Key ''articles''))))),
        (''fetchedAt'', JStr now),
        (''dataSource'', JStr ''ESPN API (live)'')]))])) \<and>
   (\<not> nullish scoreboard \<and>
    readableList (member scoreboard (Key ''events'')) \<and>
    \<not> nullish news \<and>
    readableList (member news (Key ''articles'')) \<longrightarrow>
     overview_output_p0 today now [scoreboard, news] = Inr (JObj [(''output'', JObj [
       (''date'', orElse (optPath scoreboard [Key ''day'', Key ''date'']) (JStr today)),
       (''gamesCount'', JNum (int (length (listOf (member scoreboard (Key ''events'')))))),
       (''games'', JArr (take 5 (map (\<lambda>e. JObj (copyFields e [
           (''matchup'', [Key ''shortName'']),
           (''status'', [Key ''status'', Key ''type'', Key ''shortDetail'']),
           (''venue'', [Key ''competitions'', Idx0, Key ''venue'', Key ''fullName''])]))
         (listOf (member scoreboard (Key ''events'')))))),
       (''latestNews'', JArr (map (\<lambda>a. optPath a [Key ''headline''])
         (listOf (member news (Key ''articles''))))),
       (''fetchedAt'', JStr now),
       (''dataSource'', JStr ''ESPN NBA API (live)'')])])) \<and>
   (\<not> nullish data \<and>
    listWhere readableEvent (member data (Key ''events'')) \<longrightarrow>
     scores_output now data = Inr (JObj [(''output'', JObj (
       copyFields data [(''date'', [Key ''day'', Key ''date''])] @
       [(''games'', JArr (map (\<lambda>e. JObj (
           copyFields e [
             (''id'', [Key ''id'']),
             (''matchup'', [Key ''shortName'']),
             (''status'', [Key ''status'', Key ''type'', Key ''shortDetail'']),
             (''statusState'', [Key ''status'', Key ''type'', Key ''state''])] @
           copyFields (firstWith ''homeAway'' ''home'' (competitorsOf e)) [
             (''homeTeam'', [Key ''team'', Key ''abbreviation'']),
             (''homeScore'', [Key ''score''])] @
           copyFields (firstWith ''homeAway'' ''away'' (competitorsOf e)) [
             (''awayTeam'', [Key ''team'', Key ''abbreviation'']),
             (''awayScore'', [Key ''score''])] @
           copyFields e [
             (''venue'', [Key ''competitions'', Idx0, Key ''venue'', Key ''fullName'']),
             (''broadcast'',
                [Key ''competitions'', Idx0, Key ''broadcasts'', Idx0, Key ''names'', Idx0])]))
          (listOf (member data (Key ''events''))))),
        (''fetchedAt'', JStr now)]))])) \<and>
   (\<not> nullish roster \<and>
    readableList (member roster (Key ''athletes'')) \<and>
    \<not> nullish schedule \<and>
    readableList (member schedule (Key ''events'')) \<longrightarrow>
     team_output_p0 teamId now [roster, schedule] = Inr (JObj [(''output'', JObj [
       (''team'', JObj ((''id'', idValue teamId) # copyFields roster [
          (''name'', [Key ''team'', Key ''displayName'']),
          (''abbreviation'', [Key ''team'', Key ''abbreviation'']),
          (''location'', [Key ''team'', Key ''location'']),
          (''color'', [Key ''team'', Key ''color'']),
          (''logo'', [Key ''team'', Key ''logo''])])),
       (''rosterSize'', JNum (int (length (listOf (member roster (Key ''athletes'')))))),
       (''roster'', JArr (map (\<lambda>p. JObj (copyFields p [
          (''name'', [Key ''displayName'']),
          (''jersey'', [Key ''jersey'']),
          (''position'', [Key ''position'', Key ''abbreviation'']),
          (''height'', [Key ''displayHeight'']),
          (''weight'', [Key ''displayWeight''])]))
         (listOf (member roster (Key ''athletes''))))),
       (''recentGames'', JArr (map (\<lambda>e. JObj (copyFields e [
          (''matchup'', [Key ''shortName'']),
          (''date'', [Key ''date'']),
          (''status'', [Key ''status'', Key ''type'', Key ''shortDetail''])]))
         (take 5 (listOf (member schedule (Key ''events'')))))),
       (''fetchedAt'', JStr now)])])) \<and>
   (\<not> nullish data \<and>
    listWhere readableAthlete (member data (Key ''athletes'')) \<longrightarrow>
     leaders_output category now data = Inr (JObj [(''output'', JObj [
       (''category'', JStr category),
       (''season'', JStr ''2025-26''),
       (''leaders'', JArr (map (\<lambda>(i, a). JObj (
          (''rank'', JNum (int i + 1)) #
          copyFields a [
            (''name'', [Key ''athlete'', Key ''displayName'']),
            (''team'', [Key ''athlete'', Key ''teamShortName'']),
            (''position'', [Key ''athlete'', Key ''position'', Key ''abbreviation''])] @
          map (\<lambda>(k, n). (k, optPath
                 (firstWith ''name'' n
                    (orElse (optPath a [Key ''categories'', Idx0, Key ''stats'']) (JArr [])))
                 [Key ''value'']))
            [(''gamesPlayed'', ''gamesPlayed''), (''points'', ''avgPoints''),
             (''rebounds'', ''avgRebounds''), (''assists'', ''avgAssists''),
             (''steals'', ''avgSteals''), (''blocks'', ''avgBlocks'')]))
         (enumerate 0 (listOf (member data (Key ''athletes'')))))),
       (''fetchedAt'', JStr now)])])) \<and>
   (\<not> nullish data \<and>
    listWhere (keyed ''name'')
      (orElse (optPath data [Key ''athlete'', Key ''statsSummary'', Key ''statistics'', Idx0,
         Key ''stats'']) (JArr [])) \<and>
    listWhere (keyed ''name'')
      (orElse (optPath data [Key ''athlete'', Key ''career'', Key ''stats'', Idx0,
         Key ''categories'', Idx0, Key ''stats'']) (JArr [])) \<and>
    toStringJS (optPath data [Key ''athlete'', Key ''draft'', Key ''year'']) = Inr y \<and>
    toStringJS (optPath data [Key ''athlete'', Key ''draft'', Key ''round'']) = Inr r \<and>
    toStringJS (optPath data [Key ''athlete'', Key ''draft'', Key ''selection'']) = Inr s \<longrightarrow>
     (\<exists>season career. player_output_p0 now data = Inr (JObj [(''output'', JObj [
         (''player'', JObj (
            copyFields data [
              (''id'', [Key ''athlete'', Key ''id'']),
              (''name'', [Key ''athlete'', Key ''displayName'']),
              (''firstName'', [Key ''athlete'', Key ''firstName'']),
              (''lastName'', [Key ''athlete'', Key ''lastName'']),
              (''jersey'', [Key ''athlete'', Key ''jersey'']),
              (''position'', [Key ''athlete'', Key ''position'', Key ''name'']),
              (''team'', [Key ''athlete'', Key ''team'', Key ''displayName'']),
              (''teamId'', [Key ''athlete'', Key ''team'', Key ''id'']),
              (''height'', [Key ''athlete'', Key ''displayHeight'']),
              (''weight'', [Key ''athlete'', Key ''displayWeight'']),
              (''age'', [Key ''athlete'', Key ''age'']),
              (''birthDate'', [Key ''athlete'', Key ''dateOfBirth'']),
              (''birthPlace'', [Key ''athlete'', Key ''birthPlace'', Key ''city'']),
              (''college'', [Key ''athlete'', Key ''college'', Key ''name''])] @
            [(''draft'',
               if truthy (optPath data [Key ''athlete'', Key ''draft''])
               then JStr (y @ '' Round '' @ r @ '' Pick '' @ s) else JNull)] @
            copyFields data [
              (''experience'', [Key ''athlete'', Key ''experience'', Key ''years'']),
              (''headshot'', [Key ''athlete'', Key ''headshot'', Key ''href''])])),
         (''seasonStats'', JObj season),
         (''careerStats'', JObj career),
         (''fetchedAt'', JStr now)])]) \<and>
       (\<forall>k. k \<noteq> ''__proto__'' \<longrightarrow> member (JObj season) (Key k) =
            lastKeyed ''name'' ''value'' k
             (listOf (orElse (optPath data [Key ''athlete'', Key ''statsSummary'',
                Key ''statistics'', Idx0, Key ''stats'']) (JArr [])))) \<and>
       (\<forall>k. k \<noteq> ''__proto__'' \<longrightarrow> member (JObj career) (Key k) =
            lastKeyed ''name'' ''value'' k
             (listOf (orElse (optPath data [Key ''athlete'', Key ''career'', Key ''stats'', Idx0,
                Key ''categories'', Idx0, Key ''stats'']) (JArr [])))))) \<and>
   (\<not> nullish roster \<and>
    readableList (member roster (Key ''athletes'')) \<longrightarrow>
     extractTeamInfo roster = Inr (JObj (
       copyFields roster [
         (''name'', [Key ''team'', Key ''displayName'']),
         (''abbreviation'', [Key ''team'', Key ''abbreviation''])] @
       [(''rosterSize'', JNum (int (length (listOf (member roster (Key ''athletes'')))))),
        (''starters'', JArr (map (\<lambda>p. JObj (copyFields p [
            (''name'', [Key ''displayName'']),
            (''position'', [Key ''position'', Key ''abbreviation'']),
            (''jersey'', [Key ''jersey''])]))
          (take 5 (listOf (member roster (Key ''athletes''))))))]))) \<and>
   (\<not> nullish schedule \<and>
    listWhere readableEvent (member schedule (Key ''events'')) \<longrightarrow>
     extractRecord schedule = Inr (JObj [
       (''wins'', JNum (int (length (filter (\<lambda>e. isCompleted e \<and> hasWinner e)
                    (listOf (member schedule (Key ''events''))))))),
       (''losses'', JNum (int (length (filter isCompleted
                    (listOf (member schedule (Key ''events''))))) -
                  int (length (filter (\<lambda>e. isCompleted e \<and> hasWinner e)
                    (listOf (member schedule (Key ''events''))))))),
       (''gamesPlayed'', JNum (int (length (filter isCompleted
                    (listOf (member schedule (Key ''events'')))))))])) \<and>
   (extractTeamInfo v0 = Inr (JObj hi) \<and>
    extractTeamInfo v1 = Inr (JObj ai) \<and>
    extractRecord v2 = Inr hrec \<and>
    extractRecord v3 = Inr arec \<longrightarrow>
     matchup_output homeTeam awayTeam generatedAt now [v0, v1, v2, v3] =
       Inr (JObj [(''output'', JObj [
         (''matchup'', JStr (toUpperCase awayTeam @ '' @ '' @ toUpperCase homeTeam)),
         (''homeTeam'', JObj (hi @ [(''record'', hrec)])),
         (''awayTeam'', JObj (ai @ [(''record'', arec)])),
         (''analysis'', JObj [
            (''note'', JStr ''For betting odds and advanced analytics, consider additional data sources''),
            (''generatedAt'', JStr generatedAt)]),
         (''fetchedAt'', JStr now)])]))"
  apply (intro conjI impI)
  subgoal by (elim conjE) (rule overview_output_expected; assumption)
  subgoal by (elim conjE) (rule games_output_expected; assumption)
  subgoal by (elim conjE) (rule team_output_expected; assumption)
  subgoal by (elim conjE) (rule player_output_expected; assumption)
  subgoal by (elim conjE) (rule extractTeam_expected; assumption)
  subgoal by (elim conjE) (rule compare_output_expected; assumption)
  subgoal by (elim conjE) (rule report_output_expected; assumption)
  subgoal by (elim conjE) (rule overview_output_p0_expected; assumption)
  subgoal by (elim conjE) (rule scores_output_expected; assumption)
  subgoal by (elim conjE) (rule team_output_p0_expected; assumption)
  subgoal by (elim conjE) (rule leaders_output_expected; assumption)
  subgoal by (elim conjE) (rule player_output_p0_expected; assumption)
  subgoal by (elim conjE) (rule extractTeamInfo_expected; assumption)
  subgoal by (elim conjE) (rule extractRecord_expected; assumption)
  subgoal by (elim conjE) (rule matchup_output_roles; assumption)
  done

theorem absent_fields_witness:
  "overview_output ''t'' bareScoreboard = Inr (JObj [(''output'', JObj [
      (''league'', JStr ''NBA''), (''season'', JUndefined), (''gamesCount'', JNum 1),
      (''games'', JArr [JObj [
         (''name'', JStr ''LAL @ BOS''), (''status'', JUndefined), (''date'', JUndefined)]]),
      (''fetchedAt'', JStr ''t''), (''dataSource'', JStr ''ESPN API (live)'')])]) \<and>
   games_output ''t'' bareScoreboard = Inr (JObj [(''output'', JObj [
      (''date'', JUndefined), (''gamesCount'', JNum 1),
      (''games'', JArr [JObj [
         (''id'', JUndefined), (''name'', JStr ''LAL @ BOS''), (''date'', JUndefined),
         (''venue'', JUndefined), (''status'', JUndefined), (''period'', JUndefined),
         (''clock'', JUndefined),
         (''homeTeam'', JObj [(''name'', JUndefined), (''abbreviation'', JUndefined),
            (''score'', JUndefined), (''winner'', JUndefined)]),
         (''awayTeam'', JObj [(''name'', JUndefined), (''abbreviation'', JUndefined),
            (''score'', JUndefined), (''winner'', JUndefined)])]]),
      (''fetchedAt'', JStr ''t'')])]) \<and>
   team_output ''t'' lakersTeam (JObj []) = Inr (JObj [(''output'', JObj [
      (''team'', JObj [(''id'', JUndefined), (''name'', JStr ''Lakers''),
         (''abbreviation'', JUndefined), (''location'', JUndefined),
         (''color'', JUndefined), (''logo'', JUndefined)]),
      (''rosterCount'', JNum 0), (''roster'', JArr []), (''fetchedAt'', JStr ''t'')])]) \<and>
   (\<exists>statMap. player_output ''2544'' ''t'' playerStats = Inr (JObj [(''output'', JObj [
      (''playerId'', JStr ''2544''), (''name'', JUndefined), (''stats'', JObj statMap),
      (''recentGames'', JArr []), (''fantasy'', JUndefined), (''fetchedAt'', JStr ''t'')])]) \<and>
      member (JObj statMap) (Key ''PTS'') = JStr ''27.1'' \<and>
      member (JObj statMap) (Key ''REB'') = JUndefined) \<and>
   extractTeam lakersTeam lakersRoster = Inr (JObj [
      (''name'', JStr ''Lakers''), (''abbreviation'', JUndefined), (''color'', JUndefined),
      (''rosterSize'', JNum 1),
      (''keyPlayers'', JArr [JObj [(''name'', JStr ''A. Davis''), (''position'', JUndefined)]])]) \<and>
   compare_output ''t'' [lakersTeam, celticsTeam, lakersRoster, JObj []] =
      Inr (JObj [(''output'', JObj [
        (''team1'', JObj [
           (''name'', JStr ''Lakers''), (''abbreviation'', JUndefined), (''color'', JUndefined),
           (''rosterSize'', JNum 1),
           (''keyPlayers'', JArr [JObj [(''name'', JStr ''A. Davis''), (''position'', JUndefined)]])]),
        (''team2'', JObj [
           (''name'', JStr ''Celtics''), (''abbreviation'', JUndefined), (''color'', JUndefined),
           (''rosterSize'', JNum 0), (''keyPlayers'', JArr [])]),
        (''fetchedAt'', JStr ''t'')])]) \<and>
   report_output ''t'' [bareScoreboard, JObj []] = Inr (JObj [(''output'', JObj [
      (''date'', JUndefined), (''season'', JUndefined), (''gamesCount'', JNum 1),
      (''games'', JArr [JObj [
         (''id'', JUndefined), (''name'', JUndefined), (''shortName'', JStr ''LAL @ BOS''),
         (''date'', JUndefined), (''venue'', JUndefined), (''status'', JUndefined),
         (''period'', JUndefined), (''clock'', JUndefined),
         (''homeTeam'', JObj [(''name'', JUndefined), (''abbreviation'', JUndefined),
            (''score'', JUndefined), (''record'', JUndefined)]),
         (''awayTeam'', JObj [(''name'', JUndefined), (''abbreviation'', JUndefined),
            (''score'', JUndefined), (''record'', JUndefined)])]]),
      (''newsCount'', JNum 0), (''news'', JArr []),
      (''fetchedAt'', JStr ''t''), (''dataSource'', JStr ''ESPN API (live)'')])]) \<and>
   overview_output_p0 ''2026-01-01'' ''t'' [bareScoreboard, JObj []] =
      Inr (JObj [(''output'', JObj [
        (''date'', JStr ''2026-01-01''), (''gamesCount'', JNum 1),
        (''games'', JArr [JObj [
           (''matchup'', JStr ''LAL @ BOS''), (''status'', JUndefined), (''venue'', JUndefined)]]),
        (''latestNews'', JArr []), (''fetchedAt'', JStr ''t''),
        (''dataSource'', JStr ''ESPN NBA API (live)'')])]) \<and>
   scores_output ''t'' bareScoreboard = Inr (JObj [(''output'', JObj [
      (''date'', JUndefined),
      (''games'', JArr [JObj [
         (''id'', JUndefined), (''matchup'', JStr ''LAL @ BOS''), (''status'', JUndefined),
         (''statusState'', JUndefined), (''homeTeam'', JUndefined), (''homeScore'', JUndefined),
         (''awayTeam'', JUndefined), (''awayScore'', JUndefined), (''venue'', JUndefined),
         (''broadcast'', JUndefined)]]),
      (''fetchedAt'', JStr ''t'')])]) \<and>
   team_output_p0 (TeamId ''13'') ''t'' [JObj [], completedSchedule] =
      Inr (JObj [(''output'', JObj [
        (''team'', JObj [(''id'', JStr ''13''), (''name'', JUndefined),
           (''abbreviation'', JUndefined), (''location'', JUndefined),
           (''color'', JUndefined), (''logo'', JUndefined)]),
        (''rosterSize'', JNum 0), (''roster'', JArr []),
        (''recentGames'', JArr [JObj [
           (''matchup'', JUndefined), (''date'', JUndefined), (''status'', JUndefined)]]),
        (''fetchedAt'', JStr ''t'')])]) \<and>
   leaders_output ''scoring'' ''t'' oneLeader = Inr (JObj [(''output'', JObj [
      (''category'', JStr ''scoring''), (''season'', JStr ''2025-26''),
      (''leaders'', JArr [JObj [
         (''rank'', JNum 1), (''name'', JStr ''P1''), (''team'', JUndefined),
         (''position'', JUndefined), (''gamesPlayed'', JUndefined), (''points'', JUndefined),
         (''rebounds'', JUndefined), (''assists'', JUndefined), (''steals'', JUndefined),
         (''blocks'', JUndefined)]]),
      (''fetchedAt'', JStr ''t'')])]) \<and>
   (\<exists>season career. player_output_p0 ''t'' athleteProfile = Inr (JObj [(''output'', JObj [
      (''player'', JObj [
         (''id'', JUndefined), (''name'', JStr ''LeBron James''), (''firstName'', JUndefined),
         (''lastName'', JUndefined), (''jersey'', JUndefined), (''position'', JUndefined),
         (''team'', JUndefined), (''teamId'', JUndefined), (''height'', JUndefined),
         (''weight'', JUndefined), (''age'', JUndefined), (''birthDate'', JUndefined),
         (''birthPlace'', JUndefined), (''college'', JUndefined), (''draft'', JNull),
         (''experience'', JUndefined), (''headshot'', JUndefined)]),
      (''seasonStats'', JObj season), (''careerStats'', JObj career),
      (''fetchedAt'', JStr ''t'')])]) \<and>
      member (JObj season) (Key ''avgPoints'') = JNum 27 \<and>
      member (JObj career) (Key ''avgPoints'') = JUndefined) \<and>
   extractTeamInfo lakersRoster = Inr (JObj [
      (''name'', JStr ''Lakers''), (''abbreviation'', JUndefined), (''rosterSize'', JNum 1),
      (''starters'', JArr [JObj [
         (''name'', JStr ''A. Davis''), (''position'', JUndefined), (''jersey'', JUndefined)]])]) \<and>
   extractRecord completedSchedule = Inr (JObj [
      (''wins'', JNum 0), (''losses'', JNum 1), (''gamesPlayed'', JNum 1)]) \<and>
   matchup_output ''LAL'' ''BOS'' ''g'' ''t'' [lakersRoster, JObj [], completedSchedule, JObj []] =
      Inr (JObj [(''output'', JObj [
        (''matchup'', JStr ''BOS @ LAL''),
        (''homeTeam'', JObj [
           (''name'', JStr ''Lakers''), (''abbreviation'', JUndefined), (''rosterSize'', JNum 1),
           (''starters'', JArr [JObj [
              (''name'', JStr ''A. Davis''), (''position'', JUndefined), (''jersey'', JUndefined)]]),
           (''record'', JObj [
              (''wins'', JNum 0), (''losses'', JNum 1), (''gamesPlayed'', JNum 1)])]),
        (''awayTeam'', JObj [
           (''name'', JUndefined), (''abbreviation'', JUndefined), (''rosterSize'', JNum 0),
           (''starters'', JArr []),
           (''record'', JObj [
              (''wins'', JNum 0), (''losses'', JNum 0), (''gamesPlayed'', JNum 0)])]),
        (''analysis'', JObj [
           (''note'', JStr ''For betting odds and advanced analytics, consider additional data sources''),
           (''generatedAt'', JStr ''g'')]),
        (''fetchedAt'', JStr ''t'')])])"
proof -
  have w_overview: "overview_output ''t'' bareScoreboard = Inr (JObj [(''output'', JObj [
      (''league'', JStr ''NBA''), (''season'', JUndefined), (''gamesCount'', JNum 1),
      (''games'', JArr [JObj [
         (''name'', JStr ''LAL @ BOS''), (''status'', JUndefined), (''date'', JUndefined)]]),
      (''fetchedAt'', JStr ''t''), (''dataSource'', JStr ''ESPN API (live)'')])])"
    using absent_fields [where data = "bareScoreboard" and now = "''t''", THEN conjunct1]
    by (simp add: bareScoreboard_def readableList_def listWhere_def readableEvent_def competitorsOf_def readableAthlete_def keyed_def orElse_def copyFields_def listOf_def firstWith_def isCompleted_def hasWinner_def objectValues_def lastKeyed_def )
  have w_games: "games_output ''t'' bareScoreboard = Inr (JObj [(''output'', JObj [
      (''date'', JUndefined), (''gamesCount'', JNum 1),
      (''games'', JArr [JObj [
         (''id'', JUndefined), (''name'', JStr ''LAL @ BOS''), (''date'', JUndefined),
         (''venue'', JUndefined), (''status'', JUndefined), (''period'', JUndefined),
         (''clock'', JUndefined),
         (''homeTeam'', JObj [(''name'', JUndefined), (''abbreviation'', JUndefined),
            (''score'', JUndefined), (''winner'', JUndefined)]),
         (''awayTeam'', JObj [(''name'', JUndefined), (''abbreviation'', JUndefined),
            (''score'', JUndefined), (''winner'', JUndefined)])]]),
      (''fetchedAt'', JStr ''t'')])])"
    using absent_fields [where data = "bareScoreboard" and now = "''t''", THEN conjunct2, THEN conjunct1]
    by (simp add: bareScoreboard_def readableList_def listWhere_def readableEvent_def competitorsOf_def readableAthlete_def keyed_def orElse_def copyFields_def listOf_def firstWith_def isCompleted_def hasWinner_def objectValues_def lastKeyed_def )
  have w_team: "team_output ''t'' lakersTeam (JObj []) = Inr (JObj [(''output'', JObj [
      (''team'', JObj [(''id'', JUndefined), (''name'', JStr ''Lakers''),
         (''abbreviation'', JUndefined), (''location'', JUndefined),
         (''color'', JUndefined), (''logo'', JUndefined)]),
      (''rosterCount'', JNum 0), (''roster'', JArr []), (''fetchedAt'', JStr ''t'')])])"
    using absent_fields [where teamData = "lakersTeam" and rosterData = "JObj []" and now = "''t''", THEN conjunct2, THEN conjunct2, THEN conjunct1]
    by (simp add: lakersTeam_def readableList_def listWhere_def readableEvent_def competitorsOf_def readableAthlete_def keyed_def orElse_def copyFields_def listOf_def firstWith_def isCompleted_def hasWinner_def objectValues_def lastKeyed_def )
  have w_player: "\<exists>statMap. player_output ''2544'' ''t'' playerStats = Inr (JObj [(''output'', JObj [
      (''playerId'', JStr ''2544''), (''name'', JUndefined), (''stats'', JObj statMap),
      (''recentGames'', JArr []), (''fantasy'', JUndefined), (''fetchedAt'', JStr ''t'')])]) \<and>
      member (JObj statMap) (Key ''PTS'') = JStr ''27.1'' \<and>
      member (JObj statMap) (Key ''REB'') = JUndefined"
  proof -
    have h: "\<not> nullish playerStats \<and>
      listWhere (keyed ''abbreviation'')
        (orElse (optPath playerStats [Key ''statistics'', Key ''splits'', Key ''categories'', Idx0,
           Key ''stats'']) (JArr [])) \<and>
      list_all (\<lambda>e. \<not> nullish e)
        (take 5 (objectValues (orElse (optPath playerStats [Key ''gameLog'', Key ''events''])
           (JObj []))))"
      by (simp add: playerStats_def listWhere_def keyed_def orElse_def objectValues_def)
    from absent_fields [where data = playerStats and playerId = "''2544''" and now = "''t''",
        THEN conjunct2, THEN conjunct2, THEN conjunct2, THEN conjunct1, THEN mp, OF h]
    obtain statMap where s: "player_output ''2544'' ''t'' playerStats = Inr (JObj [(''output'', JObj (
        (''playerId'', JStr ''2544'') #
        copyFields playerStats [(''name'', [Key ''news'', Key ''header''])] @
        [(''stats'', JObj statMap),
         (''recentGames'', JArr (map (\<lambda>e. JObj (copyFields e [
             (''date'', [Key ''gameDate'']),
             (''opponent'', [Key ''opponent'', Key ''displayName'']),
             (''result'', [Key ''gameResult'']),
             (''stats'', [Key ''stats''])]))
           (take 5 (objectValues
              (orElse (optPath playerStats [Key ''gameLog'', Key ''events'']) (JObj []))))))] @
        copyFields playerStats [(''fantasy'', [Key ''fantasy''])] @
        [(''fetchedAt'', JStr ''t'')]))]) \<and>
      (\<forall>k. k \<noteq> ''__proto__'' \<longrightarrow> member (JObj statMap) (Key k) =
         lastKeyed ''abbreviation'' ''displayValue'' k
            (listOf (orElse (optPath playerStats [Key ''statistics'', Key ''splits'',
               Key ''categories'', Idx0, Key ''stats'']) (JArr []))))"
      ..
    have o: "player_output ''2544'' ''t'' playerStats = Inr (JObj [(''output'', JObj [
      (''playerId'', JStr ''2544''), (''name'', JUndefined), (''stats'', JObj statMap),
      (''recentGames'', JArr []), (''fantasy'', JUndefined), (''fetchedAt'', JStr ''t'')])])"
      using s[THEN conjunct1]
      by (simp add: playerStats_def copyFields_def orElse_def objectValues_def)
    have l: "member (JObj statMap) (Key ''PTS'') = JStr ''27.1''"
      "member (JObj statMap) (Key ''REB'') = JUndefined"
      using s[THEN conjunct2, rule_format, of "''PTS''"] s[THEN conjunct2, rule_format, of "''REB''"]
      by (simp_all add: playerStats_def orElse_def listOf_def lastKeyed_def)
    show ?thesis
      by (rule exI[of _ statMap]) (intro conjI o l)
  qed
  have w_extractTeam: "extractTeam lakersTeam lakersRoster = Inr (JObj [
      (''name'', JStr ''Lakers''), (''abbreviation'', JUndefined), (''color'', JUndefined),
      (''rosterSize'', JNum 1),
      (''keyPlayers'', JArr [JObj [(''name'', JStr ''A. Davis''), (''position'', JUndefined)]])])"
    using absent_fields [where data = "lakersTeam" and roster = "lakersRoster", THEN conjunct2, THEN conjunct2, THEN conjunct2, THEN conjunct2, THEN conjunct1]
    by (simp add: lakersTeam_def lakersRoster_def readableList_def listWhere_def readableEvent_def competitorsOf_def readableAthlete_def keyed_def orElse_def copyFields_def listOf_def firstWith_def isCompleted_def hasWinner_def objectValues_def lastKeyed_def )
  have w_extractTeam2: "extractTeam celticsTeam (JObj []) = Inr (JObj [
      (''name'', JStr ''Celtics''), (''abbreviation'', JUndefined), (''color'', JUndefined),
      (''rosterSize'', JNum 0), (''keyPlayers'', JArr [])])"
    using absent_fields [where data = "celticsTeam" and roster = "JObj []", THEN conjunct2, THEN conjunct2, THEN conjunct2, THEN conjunct2, THEN conjunct1]
    by (simp add: celticsTeam_def readableList_def listWhere_def readableEvent_def competitorsOf_def readableAthlete_def keyed_def orElse_def copyFields_def listOf_def firstWith_def isCompleted_def hasWinner_def objectValues_def lastKeyed_def )
  have w_compare: "compare_output ''t'' [lakersTeam, celticsTeam, lakersRoster, JObj []] =
      Inr (JObj [(''output'', JObj [
        (''team1'', JObj [
           (''name'', JStr ''Lakers''), (''abbreviation'', JUndefined), (''color'', JUndefined),
           (''rosterSize'', JNum 1),
           (''keyPlayers'', JArr [JObj [(''name'', JStr ''A. Davis''), (''position'', JUndefined)]])]),
        (''team2'', JObj [
           (''name'', JStr ''Celtics''), (''abbreviation'', JUndefined), (''color'', JUndefined),
           (''rosterSize'', JNum 0), (''keyPlayers'', JArr [])]),
        (''fetchedAt'', JStr ''t'')])])"
    by (rule absent_fields [THEN conjunct2, THEN conjunct2, THEN conjunct2, THEN conjunct2, THEN conjunct2, THEN conjunct1, THEN mp]) (simp only: w_extractTeam w_extractTeam2)
  have w_report: "report_output ''t'' [bareScoreboard, JObj []] = Inr (JObj [(''output'', JObj [
      (''date'', JUndefined), (''season'', JUndefined), (''gamesCount'', JNum 1),
      (''games'', JArr [JObj [
         (''id'', JUndefined), (''name'', JUndefined), (''shortName'', JStr ''LAL @ BOS''),
         (''date'', JUndefined), (''venue'', JUndefined), (''status'', JUndefined),
         (''period'', JUndefined), (''clock'', JUndefined),
         (''homeTeam'', JObj [(''name'', JUndefined), (''abbreviation'', JUndefined),
            (''score'', JUndefined), (''record'', JUndefined)]),
         (''awayTeam'', JObj [(''name'', JUndefined), (''abbreviation'', JUndefined),
            (''score'', JUndefined), (''record'', JUndefined)])]]),
      (''newsCount'', JNum 0), (''news'', JArr []),
      (''fetchedAt'', JStr ''t''), (''dataSource'', JStr ''ESPN API (live)'')])])"
    using absent_fields [where scoreboard = "bareScoreboard" and news = "JObj []" and now = "''t''", THEN conjunct2, THEN conjunct2, THEN conjunct2, THEN conjunct2, THEN conjunct2, THEN conjunct2, THEN conjunct1]
    by (simp add: bareScoreboard_def readableList_def listWhere_def readableEvent_def competitorsOf_def readableAthlete_def keyed_def orElse_def copyFields_def listOf_def firstWith_def isCompleted_def hasWinner_def objectValues_def lastKeyed_def )
  have w_overview_p0: "overview_output_p0 ''2026-01-01'' ''t'' [bareScoreboard, JObj []] =
      Inr (JObj [(''output'', JObj [
        (''date'', JStr ''2026-01-01''), (''gamesCount'', JNum 1),
        (''games'', JArr [JObj [
           (''matchup'', JStr ''LAL @ BOS''), (''status'', JUndefined), (''venue'', JUndefined)]]),
        (''latestNews'', JArr []), (''fetchedAt'', JStr ''t''),
        (''dataSource'', JStr ''ESPN NBA API (live)'')])])"
    using absent_fields [where scoreboard = "bareScoreboard" and news = "JObj []" and now = "''t''" and today = "''2026-01-01''", THEN conjunct2, THEN conjunct2, THEN conjunct2, THEN conjunct2, THEN conjunct2, THEN conjunct2, THEN conjunct2, THEN conjunct1]
    by (simp add: bareScoreboard_def readableList_def listWhere_def readableEvent_def competitorsOf_def readableAthlete_def keyed_def orElse_def copyFields_def listOf_def firstWith_def isCompleted_def hasWinner_def objectValues_def lastKeyed_def )
  have w_scores: "scores_output ''t'' bareScoreboard = Inr (JObj [(''output'', JObj [
      (''date'', JUndefined),
      (''games'', JArr [JObj [
         (''id'', JUndefined), (''matchup'', JStr ''LAL @ BOS''), (''status'', JUndefined),
         (''statusState'', JUndefined), (''homeTeam'', JUndefined), (''homeScore'', JUndefined),
         (''awayTeam'', JUndefined), (''awayScore'', JUndefined), (''venue'', JUndefined),
         (''broadcast'', JUndefined)]]),
      (''fetchedAt'', JStr ''t'')])])"
    using absent_fields [where data = "bareScoreboard" and now = "''t''", THEN conjunct2, THEN conjunct2, THEN conjunct2, THEN conjunct2, THEN conjunct2, THEN conjunct2, THEN conjunct2, THEN conjunct2, THEN conjunct1]
    by (simp add: bareScoreboard_def readableList_def listWhere_def readableEvent_def competitorsOf_def readableAthlete_def keyed_def orElse_def copyFields_def listOf_def firstWith_def isCompleted_def hasWinner_def objectValues_def lastKeyed_def )
  have w_team_p0: "team_output_p0 (TeamId ''13'') ''t'' [JObj [], completedSchedule] =
      Inr (JObj [(''output'', JObj [
        (''team'', JObj [(''id'', JStr ''13''), (''name'', JUndefined),
           (''abbreviation'', JUndefined), (''location'', JUndefined),
           (''color'', JUndefined), (''logo'', JUndefined)]),
        (''rosterSize'', JNum 0), (''roster'', JArr []),
        (''recentGames'', JArr [JObj [
           (''matchup'', JUndefined), (''date'', JUndefined), (''status'', JUndefined)]]),
        (''fetchedAt'', JStr ''t'')])])"
    using absent_fields [where roster = "JObj []" and schedule = "completedSchedule" and teamId = "TeamId ''13''" and now = "''t''", THEN conjunct2, THEN conjunct2, THEN conjunct2, THEN conjunct2, THEN conjunct2, THEN conjunct2, THEN conjunct2, THEN conjunct2, THEN conjunct2, THEN conjunct1]
    by (simp add: completedSchedule_def readableList_def listWhere_def readableEvent_def competitorsOf_def readableAthlete_def keyed_def orElse_def copyFields_def listOf_def firstWith_def isCompleted_def hasWinner_def objectValues_def lastKeyed_def )
  have w_leaders: "leaders_output ''scoring'' ''t'' oneLeader = Inr (JObj [(''output'', JObj [
      (''category'', JStr ''scoring''), (''season'', JStr ''2025-26''),
      (''leaders'', JArr [JObj [
         (''rank'', JNum 1), (''name'', JStr ''P1''), (''team'', JUndefined),
         (''position'', JUndefined), (''gamesPlayed'', JUndefined), (''points'', JUndefined),
         (''rebounds'', JUndefined), (''assists'', JUndefined), (''steals'', JUndefined),
         (''blocks'', JUndefined)]]),
      (''fetchedAt'', JStr ''t'')])])"
    using absent_fields [where data = "oneLeader" and category = "''scoring''" and now = "''t''", THEN conjunct2, THEN conjunct2, THEN conjunct2, THEN conjunct2, THEN conjunct2, THEN conjunct2, THEN conjunct2, THEN conjunct2, THEN conjunct2, THEN conjunct2, THEN conjunct1]
    by (simp add: oneLeader_def readableList_def listWhere_def readableEvent_def competitorsOf_def readableAthlete_def keyed_def orElse_def copyFields_def listOf_def firstWith_def isCompleted_def hasWinner_def objectValues_def lastKeyed_def )
  have w_player_p0: "\<exists>season career. player_output_p0 ''t'' athleteProfile = Inr (JObj [(''output'', JObj [
      (''player'', JObj [
         (''id'', JUndefined), (''name'', JStr ''LeBron James''), (''firstName'', JUndefined),
         (''lastName'', JUndefined), (''jersey'', JUndefined), (''position'', JUndefined),
         (''team'', JUndefined), (''teamId'', JUndefined), (''height'', JUndefined),
         (''weight'', JUndefined), (''age'', JUndefined), (''birthDate'', JUndefined),
         (''birthPlace'', JUndefined), (''college'', JUndefined), (''draft'', JNull),
         (''experience'', JUndefined), (''headshot'', JUndefined)]),
      (''seasonStats'', JObj season), (''careerStats'', JObj career),
      (''fetchedAt'', JStr ''t'')])]) \<and>
      member (JObj season) (Key ''avgPoints'') = JNum 27 \<and>
      member (JObj career) (Key ''avgPoints'') = JUndefined"
  proof -
    have h: "\<not> nullish athleteProfile \<and>
      listWhere (keyed ''name'')
        (orElse (optPath athleteProfile [Key ''athlete'', Key ''statsSummary'', Key ''statistics'',
           Idx0, Key ''stats'']) (JArr [])) \<and>
      listWhere (keyed ''name'')
        (orElse (optPath athleteProfile [Key ''athlete'', Key ''career'', Key ''stats'', Idx0,
           Key ''categories'', Idx0, Key ''stats'']) (JArr [])) \<and>
      toStringJS (optPath athleteProfile [Key ''athlete'', Key ''draft'', Key ''year'']) =
        Inr ''undefined'' \<and>
      toStringJS (optPath athleteProfile [Key ''athlete'', Key ''draft'', Key ''round'']) =
        Inr ''undefined'' \<and>
      toStringJS (optPath athleteProfile [Key ''athlete'', Key ''draft'', Key ''selection'']) =
        Inr ''undefined''"
      by (simp add: athleteProfile_def listWhere_def keyed_def orElse_def)
    from absent_fields [where data = athleteProfile and now = "''t''" and y = "''undefined''"
        and r = "''undefined''" and s = "''undefined''",
        THEN conjunct2, THEN conjunct2, THEN conjunct2, THEN conjunct2, THEN conjunct2, THEN conjunct2, THEN conjunct2, THEN conjunct2, THEN conjunct2, THEN conjunct2, THEN conjunct2, THEN conjunct1, THEN mp, OF h]
    obtain season where "\<exists>career. player_output_p0 ''t'' athleteProfile = Inr (JObj [(''output'', JObj [
        (''player'', JObj (
           copyFields athleteProfile [
             (''id'', [Key ''athlete'', Key ''id'']),
             (''name'', [Key ''athlete'', Key ''displayName'']),
             (''firstName'', [Key ''athlete'', Key ''firstName'']),
             (''lastName'', [Key ''athlete'', Key ''lastName'']),
             (''jersey'', [Key ''athlete'', Key ''jersey'']),
             (''position'', [Key ''athlete'', Key ''position'', Key ''name'']),
             (''team'', [Key ''athlete'', Key ''team'', Key ''displayName'']),
             (''teamId'', [Key ''athlete'', Key ''team'', Key ''id'']),
             (''height'', [Key ''athlete'', Key ''displayHeight'']),
             (''weight'', [Key ''athlete'', Key ''displayWeight'']),
             (''age'', [Key ''athlete'', Key ''age'']),
             (''birthDate'', [Key ''athlete'', Key ''dateOfBirth'']),
             (''birthPlace'', [Key ''athlete'', Key ''birthPlace'', Key ''city'']),
             (''college'', [Key ''athlete'', Key ''college'', Key ''name''])] @
           [(''draft'',
              if truthy (optPath athleteProfile [Key ''athlete'', Key ''draft''])
              then JStr (''undefined'' @ '' Round '' @ ''undefined'' @ '' Pick '' @ ''undefined'') else JNull)] @
           copyFields athleteProfile [
             (''experience'', [Key ''athlete'', Key ''experience'', Key ''years'']),
             (''headshot'', [Key ''athlete'', Key ''headshot'', Key ''href''])])),
        (''seasonStats'', JObj season),
        (''careerStats'', JObj career),
        (''fetchedAt'', JStr ''t'')])]) \<and>
      (\<forall>k. k \<noteq> ''__proto__'' \<longrightarrow> member (JObj season) (Key k) =
           lastKeyed ''name'' ''value'' k
            (listOf (orElse (optPath athleteProfile [Key ''athlete'', Key ''statsSummary'',
               Key ''statistics'', Idx0, Key ''stats'']) (JArr [])))) \<and>
      (\<forall>k. k \<noteq> ''__proto__'' \<longrightarrow> member (JObj career) (Key k) =
           lastKeyed ''name'' ''value'' k
            (listOf (orElse (optPath athleteProfile [Key ''athlete'', Key ''career'', Key ''stats'', Idx0,
               Key ''categories'', Idx0, Key ''stats'']) (JArr []))))"
      ..
    then obtain career where s: "player_output_p0 ''t'' athleteProfile = Inr (JObj [(''output'', JObj [
        (''player'', JObj (
           copyFields athleteProfile [
             (''id'', [Key ''athlete'', Key ''id'']),
             (''name'', [Key ''athlete'', Key ''displayName'']),
             (''firstName'', [Key ''athlete'', Key ''firstName'']),
             (''lastName'', [Key ''athlete'', Key ''lastName'']),
             (''jersey'', [Key ''athlete'', Key ''jersey'']),
             (''position'', [Key ''athlete'', Key ''position'', Key ''name'']),
             (''team'', [Key ''athlete'', Key ''team'', Key ''displayName'']),
             (''teamId'', [Key ''athlete'', Key ''team'', Key ''id'']),
             (''height'', [Key ''athlete'', Key ''displayHeight'']),
             (''weight'', [Key ''athlete'', Key ''displayWeight'']),
             (''age'', [Key ''athlete'', Key ''age'']),
             (''birthDate'', [Key ''athlete'', Key ''dateOfBirth'']),
             (''birthPlace'', [Key ''athlete'', Key ''birthPlace'', Key ''city'']),
             (''college'', [Key ''athlete'', Key ''college'', Key ''name''])] @
           [(''draft'',
              if truthy (optPath athleteProfile [Key ''athlete'', Key ''draft''])
              then JStr (''undefined'' @ '' Round '' @ ''undefined'' @ '' Pick '' @ ''undefined'') else JNull)] @
           copyFields athleteProfile [
             (''experience'', [Key ''athlete'', Key ''experience'', Key ''years'']),
             (''headshot'', [Key ''athlete'', Key ''headshot'', Key ''href''])])),
        (''seasonStats'', JObj season),
        (''careerStats'', JObj career),
        (''fetchedAt'', JStr ''t'')])]) \<and>
      (\<forall>k. k \<noteq> ''__proto__'' \<longrightarrow> member (JObj season) (Key k) =
           lastKeyed ''name'' ''value'' k
            (listOf (orElse (optPath athleteProfile [Key ''athlete'', Key ''statsSummary'',
               Key ''statistics'', Idx0, Key ''stats'']) (JArr [])))) \<and>
      (\<forall>k. k \<noteq> ''__proto__'' \<longrightarrow> member (JObj career) (Key k) =
           lastKeyed ''name'' ''value'' k
            (listOf (orElse (optPath athleteProfile [Key ''athlete'', Key ''career'', Key ''stats'', Idx0,
               Key ''categories'', Idx0, Key ''stats'']) (JArr []))))"
      ..
    have o: "player_output_p0 ''t'' athleteProfile = Inr (JObj [(''output'', JObj [
      (''player'', JObj [
         (''id'', JUndefined), (''name'', JStr ''LeBron James''), (''firstName'', JUndefined),
         (''lastName'', JUndefined), (''jersey'', JUndefined), (''position'', JUndefined),
         (''team'', JUndefined), (''teamId'', JUndefined), (''height'', JUndefined),
         (''weight'', JUndefined), (''age'', JUndefined), (''birthDate'', JUndefined),
         (''birthPlace'', JUndefined), (''college'', JUndefined), (''draft'', JNull),
         (''experience'', JUndefined), (''headshot'', JUndefined)]),
      (''seasonStats'', JObj season), (''careerStats'', JObj career),
      (''fetchedAt'', JStr ''t'')])])"
      using s[THEN conjunct1]
      by (simp add: athleteProfile_def copyFields_def)
    have l: "member (JObj season) (Key ''avgPoints'') = JNum 27"
      "member (JObj career) (Key ''avgPoints'') = JUndefined"
      using s[THEN conjunct2, THEN conjunct1, rule_format, of "''avgPoints''"]
        s[THEN conjunct2, THEN conjunct2, rule_format, of "''avgPoints''"]
      by (simp_all add: athleteProfile_def orElse_def listOf_def lastKeyed_def)
    show ?thesis
      by (rule exI[of _ season], rule exI[of _ career]) (intro conjI o l)
  qed
  have w_info: "extractTeamInfo lakersRoster = Inr (JObj [
      (''name'', JStr ''Lakers''), (''abbreviation'', JUndefined), (''rosterSize'', JNum 1),
      (''starters'', JArr [JObj [
         (''name'', JStr ''A. Davis''), (''position'', JUndefined), (''jersey'', JUndefined)]])])"
    using absent_fields [where roster = "lakersRoster", THEN conjunct2, THEN conjunct2, THEN conjunct2, THEN conjunct2, THEN conjunct2, THEN conjunct2, THEN conjunct2, THEN conjunct2, THEN conjunct2, THEN conjunct2, THEN conjunct2, THEN conjunct2, THEN conjunct1]
    by (simp add: lakersRoster_def readableList_def listWhere_def readableEvent_def competitorsOf_def readableAthlete_def keyed_def orElse_def copyFields_def listOf_def firstWith_def isCompleted_def hasWinner_def objectValues_def lastKeyed_def )
  have w_info2: "extractTeamInfo (JObj []) = Inr (JObj [
      (''name'', JUndefined), (''abbreviation'', JUndefined), (''rosterSize'', JNum 0),
      (''starters'', JArr [])])"
    using absent_fields [where roster = "JObj []", THEN conjunct2, THEN conjunct2, THEN conjunct2, THEN conjunct2, THEN conjunct2, THEN conjunct2, THEN conjunct2, THEN conjunct2, THEN conjunct2, THEN conjunct2, THEN conjunct2, THEN conjunct2, THEN conjunct1]
    by (simp add:  readableList_def listWhere_def readableEvent_def competitorsOf_def readableAthlete_def keyed_def orElse_def copyFields_def listOf_def firstWith_def isCompleted_def hasWinner_def objectValues_def lastKeyed_def )
  have w_record: "extractRecord completedSchedule = Inr (JObj [
      (''wins'', JNum 0), (''losses'', JNum 1), (''gamesPlayed'', JNum 1)])"
    using absent_fields [where schedule = "completedSchedule", THEN conjunct2, THEN conjunct2, THEN conjunct2, THEN conjunct2, THEN conjunct2, THEN conjunct2, THEN conjunct2, THEN conjunct2, THEN conjunct2, THEN conjunct2, THEN conjunct2, THEN conjunct2, THEN conjunct2, THEN conjunct1]
    by (simp add: completedSchedule_def readableList_def listWhere_def readableEvent_def competitorsOf_def readableAthlete_def keyed_def orElse_def copyFields_def listOf_def firstWith_def isCompleted_def hasWinner_def objectValues_def lastKeyed_def )
  have w_record2: "extractRecord (JObj []) = Inr (JObj [
      (''wins'', JNum 0), (''losses'', JNum 0), (''gamesPlayed'', JNum 0)])"
    using absent_fields [where schedule = "JObj []", THEN conjunct2, THEN conjunct2, THEN conjunct2, THEN conjunct2, THEN conjunct2, THEN conjunct2, THEN conjunct2, THEN conjunct2, THEN conjunct2, THEN conjunct2, THEN conjunct2, THEN conjunct2, THEN conjunct2, THEN conjunct1]
    by (simp add:  readableList_def listWhere_def readableEvent_def competitorsOf_def readableAthlete_def keyed_def orElse_def copyFields_def listOf_def firstWith_def isCompleted_def hasWinner_def objectValues_def lastKeyed_def )
  have w_matchup: "matchup_output ''LAL'' ''BOS'' ''g'' ''t'' [lakersRoster, JObj [], completedSchedule, JObj []] =
      Inr (JObj [(''output'', JObj [
        (''matchup'', JStr ''BOS @ LAL''),
        (''homeTeam'', JObj [
           (''name'', JStr ''Lakers''), (''abbreviation'', JUndefined), (''rosterSize'', JNum 1),
           (''starters'', JArr [JObj [
              (''name'', JStr ''A. Davis''), (''position'', JUndefined), (''jersey'', JUndefined)]]),
           (''record'', JObj [
              (''wins'', JNum 0), (''losses'', JNum 1), (''gamesPlayed'', JNum 1)])]),
        (''awayTeam'', JObj [
           (''name'', JUndefined), (''abbreviation'', JUndefined), (''rosterSize'', JNum 0),
           (''starters'', JArr []),
           (''record'', JObj [
              (''wins'', JNum 0), (''losses'', JNum 0), (''gamesPlayed'', JNum 0)])]),
        (''analysis'', JObj [
           (''note'', JStr ''For betting odds and advanced analytics, consider additional data sources''),
           (''generatedAt'', JStr ''g'')]),
        (''fetchedAt'', JStr ''t'')])])"
  proof -
    have u: "toUpperCase ''BOS'' = ''BOS''" "toUpperCase ''LAL'' = ''LAL''"
      by code_simp+
    have "matchup_output ''LAL'' ''BOS'' ''g'' ''t'' [lakersRoster, JObj [], completedSchedule, JObj []] =
      Inr (JObj [(''output'', JObj [
        (''matchup'', JStr (toUpperCase ''BOS'' @ '' @ '' @ toUpperCase ''LAL'')),
        (''homeTeam'', JObj ([
           (''name'', JStr ''Lakers''), (''abbreviation'', JUndefined), (''rosterSize'', JNum 1),
           (''starters'', JArr [JObj [
              (''name'', JStr ''A. Davis''), (''position'', JUndefined), (''jersey'', JUndefined)]])] @
           [(''record'', JObj [
              (''wins'', JNum 0), (''losses'', JNum 1), (''gamesPlayed'', JNum 1)])])),
        (''awayTeam'', JObj ([
           (''name'', JUndefined), (''abbreviation'', JUndefined), (''rosterSize'', JNum 0),
           (''starters'', JArr [])] @
           [(''record'', JObj [
              (''wins'', JNum 0), (''losses'', JNum 0), (''gamesPlayed'', JNum 0)])])),
        (''analysis'', JObj [
           (''note'', JStr ''For betting odds and advanced analytics, consider additional data sources''),
           (''generatedAt'', JStr ''g'')]),
        (''fetchedAt'', JStr ''t'')])])"
      by (rule absent_fields [THEN conjunct2, THEN conjunct2, THEN conjunct2, THEN conjunct2, THEN conjunct2, THEN conjunct2, THEN conjunct2, THEN conjunct2, THEN conjunct2, THEN conjunct2, THEN conjunct2, THEN conjunct2, THEN conjunct2, THEN conjunct2, THEN mp]) (simp only: w_info w_info2 w_record w_record2)
    then show ?thesis
      by (simp add: u)
  qed
  show ?thesis
    by (intro conjI w_overview w_games w_team w_player w_extractTeam w_compare w_report w_overview_p0 w_scores w_team_p0 w_leaders w_player_p0 w_info w_record w_matchup)
qed

section \<open>Fetch orchestration\<close>

subsection \<open>\<^verbatim>\<open>Promise.all\<close>\<close>

lemma mapM_values: "mapM (\<lambda>r. r) (map Inr vs) = Inr vs"
  by (induction vs) simp_all

lemma mapM_values_only: "mapM (\<lambda>r. r) rs = Inr vs \<Longrightarrow> rs = map Inr vs"
  by (induction rs arbitrary: vs) (auto split: sum.splits)

lemma firstRejected_None:
  "firstRejected order rs = None \<longleftrightarrow> (\<forall>i\<in>set order. i < length rs \<longrightarrow> \<not> isl (rs ! i))"
  by (induction order) (auto split: sum.splits)

lemma firstRejected_first:
  assumes "i < length rs" and "rs ! i = Inl e"
    and "\<forall>j\<in>set pre. j < length rs \<longrightarrow> \<not> isl (rs ! j)"
  shows "firstRejected (pre @ i # post) rs = Some e"
  using assms by (induction pre) (auto split: sum.splits)

lemma first_failure:
  assumes "k \<in> set order" and "k < length rs" and "isl (rs ! k)"
  shows "\<exists>pre i post e. order = pre @ i # post \<and> i < length rs \<and> rs ! i = Inl e \<and>
           (\<forall>j\<in>set pre. j < length rs \<longrightarrow> \<not> isl (rs ! j))"
  using assms
proof (induction order)
  case Nil
  then show ?case by simp
next
  case (Cons a order)
  show ?case
  proof (cases "a < length rs \<and> isl (rs ! a)")
    case True
    then obtain e where "rs ! a = Inl e" by (cases "rs ! a") auto
    then have "a # order = [] @ a # order \<and> a < length rs \<and> rs ! a = Inl e \<and>
        (\<forall>j\<in>set []. j < length rs \<longrightarrow> \<not> isl (rs ! j))"
      using True by simp
    then show ?thesis by blast
  next
    case False
    then have "k \<in> set order" using Cons.prems by auto
    from Cons.IH[OF this Cons.prems(2,3)] obtain pre i post e where
      s: "order = pre @ i # post" "i < length rs" "rs ! i = Inl e"
         "\<forall>j\<in>set pre. j < length rs \<longrightarrow> \<not> isl (rs ! j)"
      by blast
    have "a # order = (a # pre) @ i # post \<and> i < length rs \<and> rs ! i = Inl e \<and>
        (\<forall>j\<in>set (a # pre). j < length rs \<longrightarrow> \<not> isl (rs ! j))"
      using s False by auto
    then show ?thesis by blast
  qed
qed

lemma promiseAll_rejects:
  assumes "k \<in> set order" and "k < length rs" and "isl (rs ! k)"
  shows "\<exists>pre i post e. order = pre @ i # post \<and> i < length rs \<and> rs ! i = Inl e \<and>
           (\<forall>j\<in>set pre. j < length rs \<longrightarrow> \<not> isl (rs ! j)) \<and>
           promiseAll order rs = Inl e"
proof -
  from first_failure[OF assms] obtain pre i post e where
    s: "order = pre @ i # post" "i < length rs" "rs ! i = Inl e"
       "\<forall>j\<in>set pre. j < length rs \<longrightarrow> \<not> isl (rs ! j)"
    by blast
  have "promiseAll order rs = Inl e"
    using firstRejected_first[OF s(2,3,4), of post] s(1) by (simp add: promiseAll_def)
  with s show ?thesis by blast
qed

lemma promiseAll_fulfilled: "promiseAll order (map Inr vs) = Inr vs"
proof -
  have "firstRejected order (map Inr vs) = None"
    by (simp add: firstRejected_None)
  then show ?thesis by (simp add: promiseAll_def mapM_values)
qed

lemma promiseAll_value_iff: "promiseAll order rs = Inr vs \<longleftrightarrow> rs = map Inr vs"
proof
  assume "rs = map Inr vs"
  then show "promiseAll order rs = Inr vs" by (simp add: promiseAll_fulfilled)
next
  assume a: "promiseAll order rs = Inr vs"
  then have "firstRejected order rs = None"
    by (auto simp: promiseAll_def split: option.splits)
  with a show "rs = map Inr vs"
    by (simp add: promiseAll_def mapM_values_only)
qed

subsection \<open>Sample calls\<close>

lemma resolve_samples:
  "resolveTeamId_p0 ''LAL'' = Inr (TeamId ''13'')"
  "resolveTeamId_p0 ''BOS'' = Inr (TeamId ''2'')"
  "resolveTeamId ''lakers'' = Inr (TeamId 13)"
  "resolveTeamId ''celtics'' = Inr (TeamId 2)"
  by code_simp+

lemma settled_samples:
  "settled (okResponse v) = Inr v"
  "settled (failedResponse 503) = Inl (EspnApiError 503)"
  "settled (failedResponse 500) = Inl (EspnApiError 500)"
  "settled NoResponse = Inl FetchFailed"
  by (simp_all add: settled_def okResponse_def failedResponse_def ok_def)

subsection \<open>Claims about the orchestration\<close>

text \<open>
  C7. Fail-fast: when any of the concurrent calls fails, the entrypoint fails, with the
  error of the first call seen to fail, whatever the outcomes of the other calls; no
  partial result comes back. Stated for the four calls of the matchup handler and the
  two calls of the team handler, once the team names have resolved: the completion
  order splits at the first failing call \<open>i\<close>, every call that settled before it was
  fulfilled, and the handler's result is the error of \<open>i\<close>.
\<close>

theorem fail_fast:
  "(k \<in> set order \<and> k < 4 \<and>
    isl ([settled f0, settled f1, settled f2, settled f3] ! k) \<and>
    resolveTeamId_p0 homeTeam = Inr h \<and> resolveTeamId_p0 awayTeam = Inr a \<longrightarrow>
    (\<exists>pre i post e. order = pre @ i # post \<and> i < 4 \<and>
       [settled f0, settled f1, settled f2, settled f3] ! i = Inl e \<and>
       (\<forall>j\<in>set pre. j < 4 \<longrightarrow>
          \<not> isl ([settled f0, settled f1, settled f2, settled f3] ! j)) \<and>
       matchup_handler homeTeam awayTeam generatedAt now order f0 f1 f2 f3 = Inl e)) \<and>
   (k' \<in> set order' \<and> k' < 2 \<and> isl ([settled g0, settled g1] ! k') \<and>
    resolveTeamId team = Inr t \<longrightarrow>
    (\<exists>pre i post e. order' = pre @ i # post \<and> i < 2 \<and>
       [settled g0, settled g1] ! i = Inl e \<and>
       (\<forall>j\<in>set pre. j < 2 \<longrightarrow> \<not> isl ([settled g0, settled g1] ! j)) \<and>
       team_handler team now order' g0 g1 = Inl e))"
proof (intro conjI impI)
  let ?rs = "[settled f0, settled f1, settled f2, settled f3]"
  assume a: "k \<in> set order \<and> k < 4 \<and> isl (?rs ! k) \<and>
    resolveTeamId_p0 homeTeam = Inr h \<and> resolveTeamId_p0 awayTeam = Inr a"
  then have k: "k \<in> set order" "k < length ?rs" "isl (?rs ! k)"
    and r: "resolveTeamId_p0 homeTeam = Inr h" "resolveTeamId_p0 awayTeam = Inr a"
    by simp_all
  from promiseAll_rejects[OF k] obtain pre i post e where
    s: "order = pre @ i # post" "i < length ?rs" "?rs ! i = Inl e"
       "\<forall>j\<in>set pre. j < length ?rs \<longrightarrow> \<not> isl (?rs ! j)"
       "promiseAll order ?rs = Inl e"
    by blast
  have m: "matchup_handler homeTeam awayTeam generatedAt now order f0 f1 f2 f3 = Inl e"
    unfolding matchup_handler_def r s(5) by (simp add: bind_def)
  have i: "i < 4" using s(2) by simp
  have p: "\<forall>j\<in>set pre. j < 4 \<longrightarrow> \<not> isl (?rs ! j)" using s(4) by simp
  show "\<exists>pre i post e. order = pre @ i # post \<and> i < 4 \<and> ?rs ! i = Inl e \<and>
       (\<forall>j\<in>set pre. j < 4 \<longrightarrow> \<not> isl (?rs ! j)) \<and>
       matchup_handler homeTeam awayTeam generatedAt now order f0 f1 f2 f3 = Inl e"
    by (intro exI[of _ pre] exI[of _ i] exI[of _ post] exI[of _ e] conjI s(1) i s(3) p m)
next
  let ?rs = "[settled g0, settled g1]"
  assume a: "k' \<in> set order' \<and> k' < 2 \<and> isl (?rs ! k') \<and> resolveTeamId team = Inr t"
  then have k: "k' \<in> set order'" "k' < length ?rs" "isl (?rs ! k')"
    and r: "resolveTeamId team = Inr t"
    by simp_all
  from promiseAll_rejects[OF k] obtain pre i post e where
    s: "order' = pre @ i # post" "i < length ?rs" "?rs ! i = Inl e"
       "\<forall>j\<in>set pre. j < length ?rs \<longrightarrow> \<not> isl (?rs ! j)"
       "promiseAll order' ?rs = Inl e"
    by blast
  have m: "team_handler team now order' g0 g1 = Inl e"
    unfolding team_handler_def r s(5) by (simp add: bind_def)
  have i: "i < 2" using s(2) by simp
  have p: "\<forall>j\<in>set pre. j < 2 \<longrightarrow> \<not> isl (?rs ! j)" using s(4) by simp
  show "\<exists>pre i post e. order' = pre @ i # post \<and> i < 2 \<and> ?rs ! i = Inl e \<and>
       (\<forall>j\<in>set pre. j < 2 \<longrightarrow> \<not> isl (?rs ! j)) \<and>
       team_handler team now order' g0 g1 = Inl e"
    by (intro exI[of _ pre] exI[of _ i] exI[of _ post] exI[of _ e] conjI s(1) i s(3) p m)
qed

theorem fail_fast_witness:
  "matchup_handler ''LAL'' ''BOS'' ''g'' ''t'' [3, 1, 0, 2]
     (okResponse (JObj [])) (failedResponse 503) NoResponse (okResponse (JObj []))
     = Inl (EspnApiError 503) \<and>
   team_handler ''lakers'' ''t'' [1, 0] (failedResponse 500) NoResponse = Inl FetchFailed"
proof -
  let ?rs = "[settled (okResponse (JObj [])), settled (failedResponse 503), settled NoResponse,
              settled (okResponse (JObj []))]"
  let ?qs = "[settled (failedResponse 500), settled NoResponse]"
  have h1: "2 \<in> set [3, 1, 0, 2::nat] \<and> (2::nat) < 4 \<and> isl (?rs ! 2) \<and>
      resolveTeamId_p0 ''LAL'' = Inr (TeamId ''13'') \<and>
      resolveTeamId_p0 ''BOS'' = Inr (TeamId ''2'')"
    by (simp add: resolve_samples settled_samples)
  have h2: "0 \<in> set [1, 0::nat] \<and> (0::nat) < 2 \<and> isl (?qs ! 0) \<and>
      resolveTeamId ''lakers'' = Inr (TeamId 13)"
    by (simp add: resolve_samples settled_samples)
  note ff = fail_fast [of 2 "[3, 1, 0, 2]" "okResponse (JObj [])" "failedResponse 503" NoResponse
      "okResponse (JObj [])" "''LAL''" "TeamId ''13''" "''BOS''" "TeamId ''2''" "''g''" "''t''"
      0 "[1, 0]" "failedResponse 500" NoResponse "''lakers''" "TeamId 13"]
  from ff[THEN conjunct1, THEN mp, OF h1] obtain pre i post e where
    m: "[3, 1, 0, 2] = pre @ i # post" "i < 4" "?rs ! i = Inl e"
       "\<forall>j\<in>set pre. j < 4 \<longrightarrow> \<not> isl (?rs ! j)"
       "matchup_handler ''LAL'' ''BOS'' ''g'' ''t'' [3, 1, 0, 2]
          (okResponse (JObj [])) (failedResponse 503) NoResponse (okResponse (JObj [])) = Inl e"
    by blast
  have "e = EspnApiError 503"
    using m(1,2,3,4) by (auto simp: Cons_eq_append_conv settled_samples)
  from ff[THEN conjunct2, THEN mp, OF h2] obtain pre' i' post' e' where
    t: "[1, 0] = pre' @ i' # post'" "i' < 2" "?qs ! i' = Inl e'"
       "\<forall>j\<in>set pre'. j < 2 \<longrightarrow> \<not> isl (?qs ! j)"
       "team_handler ''lakers'' ''t'' [1, 0] (failedResponse 500) NoResponse = Inl e'"
    by blast
  have "e' = FetchFailed"
    using t(1,2,3,4) by (auto simp: Cons_eq_append_conv settled_samples)
  show ?thesis
    using m(5) t(5) \<open>e = EspnApiError 503\<close> \<open>e' = FetchFailed\<close> by simp
qed


lemma promiseAll_then:
  "bind (promiseAll order rs) f = Inr v \<longleftrightarrow> bind (promiseAll order' rs) f = Inr v"
proof (cases "\<exists>vs. rs = map Inr vs")
  case True
  then obtain vs where "rs = map Inr vs" by blast
  then show ?thesis by (simp add: promiseAll_fulfilled)
next
  case False
  have "\<exists>e. promiseAll o' rs = Inl e" for o'
    using False promiseAll_value_iff[of o' rs] by (cases "promiseAll o' rs") auto
  then obtain e e' where "promiseAll order rs = Inl e" "promiseAll order' rs = Inl e'"
    by blast
  then show ?thesis by (simp add: bind_def)
qed

text \<open>
  C8. The aggregate depends on the values the calls return, each in its role, and not on
  the order in which they complete. For any two completion orders the handler returns
  the same aggregate. When all four calls are fulfilled the result is the normalizer
  applied to the four values in array order, and the roles are these: in the matchup
  the home team is the summary of the first value (the home roster) with the record of
  the third (the home schedule) and the away team is the summary of the second with
  the record of the fourth; in the comparison the first team is built from the first
  and third values (its team payload and its roster) and the second team from the
  second and fourth. Stated for the matchup and compare handlers; the two clock
  readings are inputs.
\<close>

theorem aggregate_order_independent:
  "(matchup_handler homeTeam awayTeam generatedAt now order f0 f1 f2 f3 = Inr v \<longleftrightarrow>
    matchup_handler homeTeam awayTeam generatedAt now order' f0 f1 f2 f3 = Inr v) \<and>
   (compare_handler team1 team2 now order f0 f1 f2 f3 = Inr v \<longleftrightarrow>
    compare_handler team1 team2 now order' f0 f1 f2 f3 = Inr v) \<and>
   (settled f0 = Inr v0 \<and> settled f1 = Inr v1 \<and> settled f2 = Inr v2 \<and> settled f3 = Inr v3 \<longrightarrow>
      matchup_handler homeTeam awayTeam generatedAt now order f0 f1 f2 f3 =
        bind (resolveTeamId_p0 homeTeam) (\<lambda>homeId.
        bind (resolveTeamId_p0 awayTeam) (\<lambda>awayId.
        matchup_output homeTeam awayTeam generatedAt now [v0, v1, v2, v3])) \<and>
      compare_handler team1 team2 now order f0 f1 f2 f3 =
        bind (resolveTeamId team1) (\<lambda>id1.
        bind (resolveTeamId team2) (\<lambda>id2.
        compare_output now [v0, v1, v2, v3]))) \<and>
   (settled f0 = Inr v0 \<and> settled f1 = Inr v1 \<and> settled f2 = Inr v2 \<and> settled f3 = Inr v3 \<and>
    resolveTeamId_p0 homeTeam = Inr homeId \<and> resolveTeamId_p0 awayTeam = Inr awayId \<and>
    extractTeamInfo v0 = Inr (JObj homeInfo) \<and> extractTeamInfo v1 = Inr (JObj awayInfo) \<and>
    extractRecord v2 = Inr homeRecord \<and> extractRecord v3 = Inr awayRecord \<longrightarrow>
      matchup_handler homeTeam awayTeam generatedAt now order f0 f1 f2 f3 =
        Inr (JObj [(''output'', JObj [
          (''matchup'', JStr (toUpperCase awayTeam @ '' @ '' @ toUpperCase homeTeam)),
          (''homeTeam'', JObj (homeInfo @ [(''record'', homeRecord)])),
          (''awayTeam'', JObj (awayInfo @ [(''record'', awayRecord)])),
          (''analysis'', JObj [
             (''note'', JStr ''For betting odds and advanced analytics, consider additional data sources''),
             (''generatedAt'', JStr generatedAt)]),
          (''fetchedAt'', JStr now)])])) \<and>
   (settled f0 = Inr v0 \<and> settled f1 = Inr v1 \<and> settled f2 = Inr v2 \<and> settled f3 = Inr v3 \<and>
    resolveTeamId team1 = Inr id1 \<and> resolveTeamId team2 = Inr id2 \<and>
    extractTeam v0 v2 = Inr summary1 \<and> extractTeam v1 v3 = Inr summary2 \<longrightarrow>
      compare_handler team1 team2 now order f0 f1 f2 f3 =
        Inr (JObj [(''output'', JObj [
          (''team1'', summary1), (''team2'', summary2), (''fetchedAt'', JStr now)])]))"
proof -
  let ?rs = "[settled f0, settled f1, settled f2, settled f3]"
  have m: "matchup_handler homeTeam awayTeam generatedAt now order f0 f1 f2 f3 = Inr v \<longleftrightarrow>
    matchup_handler homeTeam awayTeam generatedAt now order' f0 f1 f2 f3 = Inr v"
  proof (cases "resolveTeamId_p0 homeTeam")
    case (Inl e)
    then show ?thesis by (simp add: matchup_handler_def bind_def)
  next
    case h: (Inr homeId)
    show ?thesis
    proof (cases "resolveTeamId_p0 awayTeam")
      case (Inl e)
      then show ?thesis using h by (simp add: matchup_handler_def bind_def)
    next
      case (Inr awayId)
      have "matchup_handler homeTeam awayTeam generatedAt now o' f0 f1 f2 f3 =
          bind (promiseAll o' ?rs) (matchup_output homeTeam awayTeam generatedAt now)" for o'
        using h Inr by (simp add: matchup_handler_def bind_def)
      then show ?thesis
        using promiseAll_then[of order ?rs _ v order'] by simp
    qed
  qed
  have c: "compare_handler team1 team2 now order f0 f1 f2 f3 = Inr v \<longleftrightarrow>
    compare_handler team1 team2 now order' f0 f1 f2 f3 = Inr v"
  proof (cases "resolveTeamId team1")
    case (Inl e)
    then show ?thesis by (simp add: compare_handler_def bind_def)
  next
    case h: (Inr id1)
    show ?thesis
    proof (cases "resolveTeamId team2")
      case (Inl e)
      then show ?thesis using h by (simp add: compare_handler_def bind_def)
    next
      case (Inr id2)
      have "compare_handler team1 team2 now o' f0 f1 f2 f3 =
          bind (promiseAll o' ?rs) (compare_output now)" for o'
        using h Inr by (simp add: compare_handler_def bind_def)
      then show ?thesis
        using promiseAll_then[of order ?rs _ v order'] by simp
    qed
  qed
  have v: "promiseAll order ?rs = Inr [v0, v1, v2, v3]"
    if "settled f0 = Inr v0 \<and> settled f1 = Inr v1 \<and> settled f2 = Inr v2 \<and> settled f3 = Inr v3"
    using that promiseAll_fulfilled[of order "[v0, v1, v2, v3]"] by simp
  have w: "bind (Inr x) f = f x" for x :: "jsval list" and f :: "jsval list \<Rightarrow> error + jsval"
    by (simp add: bind_def)
  have a: "settled f0 = Inr v0 \<and> settled f1 = Inr v1 \<and> settled f2 = Inr v2 \<and> settled f3 = Inr v3 \<longrightarrow>
      matchup_handler homeTeam awayTeam generatedAt now order f0 f1 f2 f3 =
        bind (resolveTeamId_p0 homeTeam) (\<lambda>homeId.
        bind (resolveTeamId_p0 awayTeam) (\<lambda>awayId.
        matchup_output homeTeam awayTeam generatedAt now [v0, v1, v2, v3])) \<and>
      compare_handler team1 team2 now order f0 f1 f2 f3 =
        bind (resolveTeamId team1) (\<lambda>id1.
        bind (resolveTeamId team2) (\<lambda>id2.
        compare_output now [v0, v1, v2, v3]))"
    using v unfolding matchup_handler_def compare_handler_def by (simp add: w)
  have r: "settled f0 = Inr v0 \<and> settled f1 = Inr v1 \<and> settled f2 = Inr v2 \<and> settled f3 = Inr v3 \<and>
    resolveTeamId_p0 homeTeam = Inr homeId \<and> resolveTeamId_p0 awayTeam = Inr awayId \<and>
    extractTeamInfo v0 = Inr (JObj homeInfo) \<and> extractTeamInfo v1 = Inr (JObj awayInfo) \<and>
    extractRecord v2 = Inr homeRecord \<and> extractRecord v3 = Inr awayRecord \<longrightarrow>
      matchup_handler homeTeam awayTeam generatedAt now order f0 f1 f2 f3 =
        Inr (JObj [(''output'', JObj [
          (''matchup'', JStr (toUpperCase awayTeam @ '' @ '' @ toUpperCase homeTeam)),
          (''homeTeam'', JObj (homeInfo @ [(''record'', homeRecord)])),
          (''awayTeam'', JObj (awayInfo @ [(''record'', awayRecord)])),
          (''analysis'', JObj [
             (''note'', JStr ''For betting odds and advanced analytics, consider additional data sources''),
             (''generatedAt'', JStr generatedAt)]),
          (''fetchedAt'', JStr now)])])"
  proof (intro impI, elim conjE)
    assume s: "settled f0 = Inr v0" "settled f1 = Inr v1" "settled f2 = Inr v2"
      "settled f3 = Inr v3"
      and t: "resolveTeamId_p0 homeTeam = Inr homeId" "resolveTeamId_p0 awayTeam = Inr awayId"
      and i: "extractTeamInfo v0 = Inr (JObj homeInfo)" "extractTeamInfo v1 = Inr (JObj awayInfo)"
        "extractRecord v2 = Inr homeRecord" "extractRecord v3 = Inr awayRecord"
    have "matchup_handler homeTeam awayTeam generatedAt now order f0 f1 f2 f3 =
        matchup_output homeTeam awayTeam generatedAt now [v0, v1, v2, v3]"
      using a s t by (simp add: bind_def)
    then show "matchup_handler homeTeam awayTeam generatedAt now order f0 f1 f2 f3 =
        Inr (JObj [(''output'', JObj [
          (''matchup'', JStr (toUpperCase awayTeam @ '' @ '' @ toUpperCase homeTeam)),
          (''homeTeam'', JObj (homeInfo @ [(''record'', homeRecord)])),
          (''awayTeam'', JObj (awayInfo @ [(''record'', awayRecord)])),
          (''analysis'', JObj [
             (''note'', JStr ''For betting odds and advanced analytics, consider additional data sources''),
             (''generatedAt'', JStr generatedAt)]),
          (''fetchedAt'', JStr now)])])"
      by (simp only: matchup_output_roles[OF i])
  qed
  have q: "settled f0 = Inr v0 \<and> settled f1 = Inr v1 \<and> settled f2 = Inr v2 \<and> settled f3 = Inr v3 \<and>
    resolveTeamId team1 = Inr id1 \<and> resolveTeamId team2 = Inr id2 \<and>
    extractTeam v0 v2 = Inr summary1 \<and> extractTeam v1 v3 = Inr summary2 \<longrightarrow>
      compare_handler team1 team2 now order f0 f1 f2 f3 =
        Inr (JObj [(''output'', JObj [
          (''team1'', summary1), (''team2'', summary2), (''fetchedAt'', JStr now)])])"
  proof (intro impI, elim conjE)
    assume s: "settled f0 = Inr v0" "settled f1 = Inr v1" "settled f2 = Inr v2"
      "settled f3 = Inr v3"
      and t: "resolveTeamId team1 = Inr id1" "resolveTeamId team2 = Inr id2"
      and i: "extractTeam v0 v2 = Inr summary1" "extractTeam v1 v3 = Inr summary2"
    have "compare_handler team1 team2 now order f0 f1 f2 f3 =
        compare_output now [v0, v1, v2, v3]"
      using a s t by (simp add: bind_def)
    then show "compare_handler team1 team2 now order f0 f1 f2 f3 =
        Inr (JObj [(''output'', JObj [
          (''team1'', summary1), (''team2'', summary2), (''fetchedAt'', JStr now)])])"
      by (simp only: compare_output_expected[OF i])
  qed
  show ?thesis
    by (intro conjI m c a r q)
qed

theorem aggregate_order_independent_witness:
  "matchup_handler ''LAL'' ''BOS'' ''g'' ''t'' [0, 1, 2, 3]
     (okResponse lakersRoster) (okResponse celticsTeam)
     (okResponse completedSchedule) (okResponse (JObj []))
   = Inr (JObj [(''output'', JObj [
        (''matchup'', JStr ''BOS @ LAL''),
        (''homeTeam'', JObj [
           (''name'', JStr ''Lakers''), (''abbreviation'', JUndefined), (''rosterSize'', JNum 1),
           (''starters'', JArr [JObj [
              (''name'', JStr ''A. Davis''), (''position'', JUndefined), (''jersey'', JUndefined)]]),
           (''record'', JObj [
              (''wins'', JNum 0), (''losses'', JNum 1), (''gamesPlayed'', JNum 1)])]),
        (''awayTeam'', JObj [
           (''name'', JStr ''Celtics''), (''abbreviation'', JUndefined), (''rosterSize'', JNum 0),
           (''starters'', JArr []),
           (''record'', JObj [
              (''wins'', JNum 0), (''losses'', JNum 0), (''gamesPlayed'', JNum 0)])]),
        (''analysis'', JObj [
           (''note'', JStr ''For betting odds and advanced analytics, consider additional data sources''),
           (''generatedAt'', JStr ''g'')]),
        (''fetchedAt'', JStr ''t'')])]) \<and>
   matchup_handler ''LAL'' ''BOS'' ''g'' ''t'' [3, 1, 0, 2]
     (okResponse lakersRoster) (okResponse celticsTeam)
     (okResponse completedSchedule) (okResponse (JObj []))
   = matchup_handler ''LAL'' ''BOS'' ''g'' ''t'' [0, 1, 2, 3]
     (okResponse lakersRoster) (okResponse celticsTeam)
     (okResponse completedSchedule) (okResponse (JObj [])) \<and>
   compare_handler ''lakers'' ''celtics'' ''t'' [0, 1, 2, 3]
     (okResponse lakersTeam) (okResponse celticsTeam)
     (okResponse lakersRoster) (okResponse (JObj []))
   = Inr (JObj [(''output'', JObj [
        (''team1'', JObj [
           (''name'', JStr ''Lakers''), (''abbreviation'', JUndefined), (''color'', JUndefined),
           (''rosterSize'', JNum 1),
           (''keyPlayers'', JArr [JObj [(''name'', JStr ''A. Davis''), (''position'', JUndefined)]])]),
        (''team2'', JObj [
           (''name'', JStr ''Celtics''), (''abbreviation'', JUndefined), (''color'', JUndefined),
           (''rosterSize'', JNum 0), (''keyPlayers'', JArr [])]),
        (''fetchedAt'', JStr ''t'')])]) \<and>
   compare_handler ''lakers'' ''celtics'' ''t'' [3, 1, 0, 2]
     (okResponse lakersTeam) (okResponse celticsTeam)
     (okResponse lakersRoster) (okResponse (JObj []))
   = compare_handler ''lakers'' ''celtics'' ''t'' [0, 1, 2, 3]
     (okResponse lakersTeam) (okResponse celticsTeam)
     (okResponse lakersRoster) (okResponse (JObj []))"
proof -
  have i: "extractTeamInfo lakersRoster = Inr (JObj [
       (''name'', JStr ''Lakers''), (''abbreviation'', JUndefined), (''rosterSize'', JNum 1),
       (''starters'', JArr [JObj [
          (''name'', JStr ''A. Davis''), (''position'', JUndefined), (''jersey'', JUndefined)]])])"
    "extractTeamInfo celticsTeam = Inr (JObj [
       (''name'', JStr ''Celtics''), (''abbreviation'', JUndefined), (''rosterSize'', JNum 0),
       (''starters'', JArr [])])"
    "extractRecord completedSchedule = Inr (JObj [
       (''wins'', JNum 0), (''losses'', JNum 1), (''gamesPlayed'', JNum 1)])"
    "extractRecord (JObj []) = Inr (JObj [
       (''wins'', JNum 0), (''losses'', JNum 0), (''gamesPlayed'', JNum 0)])"
    by code_simp+
  have e: "extractTeam lakersTeam lakersRoster = Inr (JObj [
       (''name'', JStr ''Lakers''), (''abbreviation'', JUndefined), (''color'', JUndefined),
       (''rosterSize'', JNum 1),
       (''keyPlayers'', JArr [JObj [(''name'', JStr ''A. Davis''), (''position'', JUndefined)]])])"
    "extractTeam celticsTeam (JObj []) = Inr (JObj [
       (''name'', JStr ''Celtics''), (''abbreviation'', JUndefined), (''color'', JUndefined),
       (''rosterSize'', JNum 0), (''keyPlayers'', JArr [])])"
    by code_simp+
  have u: "toUpperCase ''BOS'' = ''BOS''" "toUpperCase ''LAL'' = ''LAL''"
    by code_simp+
  note m = aggregate_order_independent [where homeTeam = "''LAL''" and awayTeam = "''BOS''"
      and generatedAt = "''g''" and now = "''t''"
      and ?f0.0 = "okResponse lakersRoster" and ?f1.0 = "okResponse celticsTeam"
      and ?f2.0 = "okResponse completedSchedule" and ?f3.0 = "okResponse (JObj [])"
      and ?v0.0 = lakersRoster and ?v1.0 = celticsTeam and ?v2.0 = completedSchedule
      and ?v3.0 = "JObj []"
      and homeId = "TeamId ''13''" and awayId = "TeamId ''2''",
      THEN conjunct2, THEN conjunct2, THEN conjunct2, THEN conjunct1, THEN mp]
  note c = aggregate_order_independent [where ?team1.0 = "''lakers''" and ?team2.0 = "''celtics''"
      and now = "''t''"
      and ?f0.0 = "okResponse lakersTeam" and ?f1.0 = "okResponse celticsTeam"
      and ?f2.0 = "okResponse lakersRoster" and ?f3.0 = "okResponse (JObj [])"
      and ?v0.0 = lakersTeam and ?v1.0 = celticsTeam and ?v2.0 = lakersRoster
      and ?v3.0 = "JObj []"
      and ?id1.0 = "TeamId 13" and ?id2.0 = "TeamId 2",
      THEN conjunct2, THEN conjunct2, THEN conjunct2, THEN conjunct2, THEN mp]
  have hm: "settled (okResponse lakersRoster) = Inr lakersRoster \<and>
      settled (okResponse celticsTeam) = Inr celticsTeam \<and>
      settled (okResponse completedSchedule) = Inr completedSchedule \<and>
      settled (okResponse (JObj [])) = Inr (JObj []) \<and>
      resolveTeamId_p0 ''LAL'' = Inr (TeamId ''13'') \<and>
      resolveTeamId_p0 ''BOS'' = Inr (TeamId ''2'') \<and>
      extractTeamInfo lakersRoster = Inr (JObj [
       (''name'', JStr ''Lakers''), (''abbreviation'', JUndefined), (''rosterSize'', JNum 1),
       (''starters'', JArr [JObj [
          (''name'', JStr ''A. Davis''), (''position'', JUndefined), (''jersey'', JUndefined)]])]) \<and>
      extractTeamInfo celticsTeam = Inr (JObj [
       (''name'', JStr ''Celtics''), (''abbreviation'', JUndefined), (''rosterSize'', JNum 0),
       (''starters'', JArr [])]) \<and>
      extractRecord completedSchedule = Inr (JObj [
       (''wins'', JNum 0), (''losses'', JNum 1), (''gamesPlayed'', JNum 1)]) \<and>
      extractRecord (JObj []) = Inr (JObj [
       (''wins'', JNum 0), (''losses'', JNum 0), (''gamesPlayed'', JNum 0)])"
    by (simp only: settled_samples resolve_samples i simp_thms)
  have hc: "settled (okResponse lakersTeam) = Inr lakersTeam \<and>
      settled (okResponse celticsTeam) = Inr celticsTeam \<and>
      settled (okResponse lakersRoster) = Inr lakersRoster \<and>
      settled (okResponse (JObj [])) = Inr (JObj []) \<and>
      resolveTeamId ''lakers'' = Inr (TeamId 13) \<and>
      resolveTeamId ''celtics'' = Inr (TeamId 2) \<and>
      extractTeam lakersTeam lakersRoster = Inr (JObj [
       (''name'', JStr ''Lakers''), (''abbreviation'', JUndefined), (''color'', JUndefined),
       (''rosterSize'', JNum 1),
       (''keyPlayers'', JArr [JObj [(''name'', JStr ''A. Davis''), (''position'', JUndefined)]])]) \<and>
      extractTeam celticsTeam (JObj []) = Inr (JObj [
       (''name'', JStr ''Celtics''), (''abbreviation'', JUndefined), (''color'', JUndefined),
       (''rosterSize'', JNum 0), (''keyPlayers'', JArr [])])"
    by (simp only: settled_samples resolve_samples e simp_thms)
  show ?thesis
    using m[OF hm, of "[0, 1, 2, 3]"] m[OF hm, of "[3, 1, 0, 2]"]
      c[OF hc, of "[0, 1, 2, 3]"] c[OF hc, of "[3, 1, 0, 2]"]
    by (simp add: u)
qed

end
